theory Spec2Isabelle
  imports Main
begin

section \<open>Conventions\<close>

text \<open>
  This theory embeds \<^verbatim>\<open>easybuild/tools/run.py\<close>. Python byte strings and text strings
  are both modelled as \<^typ>\<open>string\<close>; \<^verbatim>\<open>encode\<close> and \<^verbatim>\<open>decode\<close> are the identity (all
  data is taken to be clean text in the preferred encoding). Calls of \<^verbatim>\<open>_log.debug\<close> and
  \<^verbatim>\<open>_log.info\<close> have no effect on control flow and are left out; warnings, trace and
  dry-run messages are kept where a property speaks about them.

  What the Python standard library and the operating system do is not part of the
  repository. It enters the model as explicit parameters: the regular-expression engine
  and \<^verbatim>\<open>%\<close>-formatting (record \<open>pylib\<close>), the reaction of a child process to signals
  and waits (fields of record \<open>popen\<close>), and the observations made of a running child
  (the scripts further below). Theorems quantify over all of them.
\<close>

section \<open>Exceptions\<close>

text \<open>The exception classes that occur in the module, with their direct base class.\<close>

datatype exc_class =
    C_BaseException | C_Exception | C_EasyBuildError | C_RunShellCmdError
  | C_OSError | C_IndexError | C_KeyError | C_TypeError | C_AttributeError | C_LookupError
  | C_re_error | C_TimeoutError

text \<open>
  \<^verbatim>\<open>class RunShellCmdError(BaseException)\<close> (line 96). \<^verbatim>\<open>EasyBuildError\<close> is imported
  from \<^verbatim>\<open>easybuild.tools.build_log\<close>, where it derives from \<^verbatim>\<open>LoggedException\<close>, an
  \<^verbatim>\<open>Exception\<close>; the others are Python built-ins.
\<close>

fun direct_base :: "exc_class \<Rightarrow> exc_class option" where
  "direct_base C_BaseException = None"
| "direct_base C_Exception = Some C_BaseException"
| "direct_base C_EasyBuildError = Some C_Exception"
| "direct_base C_RunShellCmdError = Some C_BaseException"
| "direct_base C_OSError = Some C_Exception"
| "direct_base C_LookupError = Some C_Exception"
| "direct_base C_IndexError = Some C_LookupError"
| "direct_base C_KeyError = Some C_LookupError"
| "direct_base C_TypeError = Some C_Exception"
| "direct_base C_AttributeError = Some C_Exception"
| "direct_base C_re_error = Some C_Exception"
| "direct_base C_TimeoutError = Some C_OSError"

text \<open>The chain of base classes of a class, nearest first (at most three links here).\<close>

fun bases_upto :: "nat \<Rightarrow> exc_class \<Rightarrow> exc_class list" where
  "bases_upto 0 c = []"
| "bases_upto (Suc n) c =
     (case direct_base c of None \<Rightarrow> [] | Some b \<Rightarrow> b # bases_upto n b)"

definition issubclass :: "exc_class \<Rightarrow> exc_class \<Rightarrow> bool" where
  "issubclass c d = (c = d \<or> d \<in> set (bases_upto 4 c))"

text \<open>The messages of the \<^verbatim>\<open>EasyBuildError\<close>s raised in the module, by the place that raises.\<close>

datatype eb_error =
    UnknownAnswersType string
  | FailedToAnswerQuestion
  | ProcessNotReaped
  | UnknownCommandType
  | QAPatternsNotTuples
  | TimeoutDuring
  | NoMatchingQuestions nat
  | FailedToDumpOutput
  | ListNeedsShell
  | FailedToOpenLog
  | RunCmdInitFailed
  | FailedToReturnTo string
  | CommandMustBeString
  | QuestionDoesNotMatchItself string
  | InvalidAnswerType string
  | MaxNoHitsReached nat
  | InvalidStrictness
  | CmdExitedWith int string
  | FoundErrorsInOutput "string list"
  | NoValidRegExp
  | InvalidRegexpInput
  | FoundErrorsInCommandOutput nat "string list"
  | BadReadSize

text \<open>The fields of \<^verbatim>\<open>RunShellCmdResult\<close> (line 92).\<close>

record run_shell_cmd_result =
  res_cmd :: string
  res_exit_code :: int
  res_output :: string
  res_stderr :: "string option"
  res_work_dir :: string
  res_out_file :: "string option"
  res_err_file :: "string option"
  res_thread_id :: "nat option"
  res_task_id :: "string option"

text \<open>A frame of the call stack, as \<^verbatim>\<open>inspect.getouterframes\<close> reports it.\<close>

record frame_info =
  fr_filename :: string
  fr_lineno :: nat
  fr_function :: string

text \<open>The attributes \<^verbatim>\<open>RunShellCmdError.__init__\<close> sets (lines 98-112).\<close>

record run_shell_cmd_error =
  err_cmd :: string
  err_cmd_name :: string
  err_exit_code :: int
  err_work_dir :: string
  err_output :: string
  err_out_file :: "string option"
  err_stderr :: "string option"
  err_err_file :: "string option"
  err_caller_info :: "string \<times> nat \<times> string"

datatype error =
    EasyBuildError eb_error
  | RunShellCmdError run_shell_cmd_error
  | PyError exc_class

fun class_of :: "error \<Rightarrow> exc_class" where
  "class_of (EasyBuildError _) = C_EasyBuildError"
| "class_of (RunShellCmdError _) = C_RunShellCmdError"
| "class_of (PyError c) = c"

text \<open>
  How a call of one of the functions that run a command ends: it returns a value, it
  raises, or it does not return (the child never exits, a read never ends).
\<close>

datatype 'a outcome = Returned 'a | Raised error | NoReturn

text \<open>\<^verbatim>\<open>except C:\<close> catches an exception whose class is \<^verbatim>\<open>C\<close> or derives from it.\<close>

definition except_catches :: "exc_class \<Rightarrow> error \<Rightarrow> bool" where
  "except_catches handler e = issubclass (class_of e) handler"

section \<open>Standard-library parameters\<close>

text \<open>
  \<open>re_compile pat\<close> says whether \<^verbatim>\<open>re.compile(pat)\<close> succeeds (it raises \<^verbatim>\<open>re.error\<close>
  otherwise). \<open>re_search pat s\<close> stands for \<^verbatim>\<open>re.compile(pat).search(s)\<close>: there is no
  match, or there is one, with its \<^verbatim>\<open>groupdict()\<close> (a named group that did not take
  part has the value \<^verbatim>\<open>None\<close>); \<open>re_search_i\<close> is the same with the flag \<^verbatim>\<open>re.I\<close>.
  \<open>py_format a d\<close> stands for \<^verbatim>\<open>a % d\<close>, which can fail (a missing key, a malformed
  directive).
\<close>

type_synonym groupdict = "(string \<times> string option) list"

record pylib =
  re_compile :: "string \<Rightarrow> bool"
  re_search :: "string \<Rightarrow> string \<Rightarrow> groupdict option"
  re_search_i :: "string \<Rightarrow> string \<Rightarrow> groupdict option"
  py_format :: "string \<Rightarrow> (string \<times> string) list \<Rightarrow> string option"

section \<open>Child processes\<close>

datatype signal = SIGTERM | SIGKILL

text \<open>
  A \<^verbatim>\<open>subprocess.Popen\<close> object. \<open>returncode\<close> is \<^verbatim>\<open>None\<close> until the child has been
  reaped by \<^verbatim>\<open>poll\<close> or \<^verbatim>\<open>wait\<close>. \<open>signals_sent\<close> lists the signals delivered to the
  child by the operating system. \<open>exits_in_wait sigs\<close> is the child's reaction: whether
  it exits (and with which status) within the timeout of a \<^verbatim>\<open>wait\<close> that starts after
  the signals \<open>sigs\<close> have been delivered. \<open>stdin_writes\<close> is what has been written to the
  child's standard input; a write fails with \<^verbatim>\<open>OSError\<close> when \<open>stdin_ok\<close> is false.
\<close>

record popen =
  returncode :: "int option"
  signals_sent :: "signal list"
  exits_in_wait :: "signal list \<Rightarrow> int option"
  method_calls :: "string list"
  stdin_writes :: "string list"
  stdin_ok :: bool

text \<open>
  \<^verbatim>\<open>Popen.send_signal\<close>: "Sends the signal to the child. Do nothing if the process
  completed." (Python library reference, \<^verbatim>\<open>subprocess\<close>). \<^verbatim>\<open>terminate\<close> and \<^verbatim>\<open>kill\<close>
  are \<^verbatim>\<open>send_signal(SIGTERM)\<close> and \<^verbatim>\<open>send_signal(SIGKILL)\<close>.
\<close>

definition popen_send_signal :: "signal \<Rightarrow> popen \<Rightarrow> popen" where
  "popen_send_signal sig p =
     (if returncode p \<noteq> None then p else p\<lparr>signals_sent := signals_sent p @ [sig]\<rparr>)"

definition popen_terminate :: "popen \<Rightarrow> popen" where
  "popen_terminate p = popen_send_signal SIGTERM (p\<lparr>method_calls := method_calls p @ [''terminate'']\<rparr>)"

definition popen_kill :: "popen \<Rightarrow> popen" where
  "popen_kill p = popen_send_signal SIGKILL (p\<lparr>method_calls := method_calls p @ [''kill'']\<rparr>)"

text \<open>
  \<^verbatim>\<open>Popen.wait(timeout)\<close>: returns at once when the child has been reaped already;
  otherwise it returns when the child exits within the timeout and raises
  \<^verbatim>\<open>TimeoutExpired\<close> (here: \<open>False\<close>) when it does not.
\<close>

definition popen_wait :: "popen \<Rightarrow> bool \<times> popen" where
  "popen_wait p =
     (let p1 = p\<lparr>method_calls := method_calls p @ [''wait'']\<rparr> in
      if returncode p1 \<noteq> None then (True, p1)
      else (case exits_in_wait p1 (signals_sent p1) of
              Some ec \<Rightarrow> (True, p1\<lparr>returncode := Some ec\<rparr>)
            | None \<Rightarrow> (False, p1)))"

text \<open>\<^verbatim>\<open>terminate_process\<close> (lines 291-308). The warning of line 303 is returned as a flag.\<close>

definition terminate_process :: "popen \<Rightarrow> (error + unit) \<times> bool \<times> popen" where
  "terminate_process proc =
     (let p1 = popen_terminate proc;
          (ok1, p2) = popen_wait p1;
          warned = (\<not> ok1);
          p3 = popen_kill p2;
          (ok2, p4) = popen_wait p3
      in if ok2 then (Inr (), warned, p4)
         else (Inl (EasyBuildError ProcessNotReaped), warned, p4))"

section \<open>Answering questions of interactive commands\<close>

text \<open>The answers of a question pattern: a string, a list of strings, or another value.\<close>

datatype answers = AnsStr string | AnsList "string list" | AnsOther

type_synonym qa_pattern = "string \<times> answers"

text \<open>The text \<^verbatim>\<open>[\s\n]*$\<close> added to every pattern (lines 216 and 250).\<close>

definition qa_suffix :: string where
  "qa_suffix = [CHR ''['', CHR 0x5C, CHR ''s'', CHR 0x5C, CHR ''n'', CHR '']'', CHR ''*'', CHR ''$'']"

text \<open>
  \<^verbatim>\<open>{k: v.decode() for (k, v) in res.groupdict().items()}\<close> (line 233): a group without
  value has no \<^verbatim>\<open>decode\<close>.
\<close>

fun decode_groups :: "(string \<times> string option) list \<Rightarrow> (string \<times> string) list option" where
  "decode_groups [] = Some []"
| "decode_groups ((k, None) # gs) = None"
| "decode_groups ((k, Some v) # gs) =
     (case decode_groups gs of None \<Rightarrow> None | Some d \<Rightarrow> Some ((k, v) # d))"

text \<open>Lines 233-240: complete the answer, add a newline, write it to the child's stdin.\<close>

definition send_answer ::
  "pylib \<Rightarrow> string \<Rightarrow> (string \<times> string option) list \<Rightarrow> popen \<Rightarrow> (error + bool) \<times> popen" where
  "send_answer L answer gd proc =
     (case decode_groups gd of
        None \<Rightarrow> (Inl (PyError C_AttributeError), proc)
      | Some d \<Rightarrow>
          (case py_format L answer d of
             None \<Rightarrow> (Inl (PyError C_KeyError), proc)
           | Some formatted \<Rightarrow>
               (let answer' = formatted @ ''\<newline>'' in
                if stdin_ok proc
                then (Inr True, proc\<lparr>stdin_writes := stdin_writes proc @ [answer']\<rparr>)
                else (Inl (EasyBuildError FailedToAnswerQuestion), proc))))"

text \<open>
  Lines 223-229: pick the answer; a list gives its first item, which moves to the back
  (\<^verbatim>\<open>pop(0)\<close> of an empty list raises \<^verbatim>\<open>IndexError\<close>). The list is changed in place, so
  the new answers are returned too.
\<close>

definition reply ::
  "pylib \<Rightarrow> string \<Rightarrow> answers \<Rightarrow> (string \<times> string option) list \<Rightarrow> popen
     \<Rightarrow> (error + bool) \<times> answers \<times> popen" where
  "reply L question answers gd proc =
     (case answers of
        AnsList [] \<Rightarrow> (Inl (PyError C_IndexError), answers, proc)
      | AnsList (a # rest) \<Rightarrow>
          (let (r, proc') = send_answer L a gd proc in (r, AnsList (rest @ [a]), proc'))
      | AnsStr a \<Rightarrow>
          (let (r, proc') = send_answer L a gd proc in (r, answers, proc'))
      | AnsOther \<Rightarrow> (Inl (EasyBuildError (UnknownAnswersType question)), answers, proc))"

text \<open>
  The \<^verbatim>\<open>for question, answers in qa_patterns\<close> loop (lines 214-243). The result
  \<open>Inr False\<close> says that the loop ended without \<^verbatim>\<open>break\<close>.
\<close>

fun try_questions ::
  "pylib \<Rightarrow> string \<Rightarrow> qa_pattern list \<Rightarrow> popen \<Rightarrow> (error + bool) \<times> qa_pattern list \<times> popen" where
  "try_questions L stdout [] proc = (Inr False, [], proc)"
| "try_questions L stdout ((question, answers) # rest) proc =
     (if \<not> re_compile L (question @ qa_suffix)
      then (Inl (PyError C_re_error), (question, answers) # rest, proc)
      else (case re_search L (question @ qa_suffix) stdout of
              None \<Rightarrow>
                (let (r, rest', proc') = try_questions L stdout rest proc
                 in (r, (question, answers) # rest', proc'))
            | Some gd \<Rightarrow>
                (let (r, answers', proc') = reply L (question @ qa_suffix) answers gd proc
                 in (r, (question, answers') # rest, proc'))))"

text \<open>The \<^verbatim>\<open>for pattern in qa_wait_patterns\<close> loop (lines 248-259).\<close>

fun try_wait_patterns :: "pylib \<Rightarrow> string \<Rightarrow> string list \<Rightarrow> error + bool" where
  "try_wait_patterns L stdout [] = Inr False"
| "try_wait_patterns L stdout (pattern # rest) =
     (if \<not> re_compile L (pattern @ qa_suffix) then Inl (PyError C_re_error)
      else (case re_search L (pattern @ qa_suffix) stdout of
              None \<Rightarrow> try_wait_patterns L stdout rest
            | Some gd \<Rightarrow> Inr True))"

text \<open>
  \<^verbatim>\<open>_answer_question\<close> (lines 207-261): the wait patterns are the \<^verbatim>\<open>else\<close> branch of
  the loop over the question patterns.
\<close>

definition answer_question ::
  "pylib \<Rightarrow> string \<Rightarrow> popen \<Rightarrow> qa_pattern list \<Rightarrow> string list
     \<Rightarrow> (error + bool) \<times> qa_pattern list \<times> popen" where
  "answer_question L stdout proc qa_patterns qa_wait_patterns =
     (case try_questions L stdout qa_patterns proc of
        (Inr False, qa', proc') \<Rightarrow> (try_wait_patterns L stdout qa_wait_patterns, qa', proc')
      | (r, qa', proc') \<Rightarrow> (r, qa', proc'))"


text \<open>No question pattern of \<open>qa\<close> matches the output.\<close>

definition no_question_matches :: "pylib \<Rightarrow> string \<Rightarrow> qa_pattern list \<Rightarrow> bool" where
  "no_question_matches L stdout qa =
     list_all (\<lambda>(q, a). re_compile L (q @ qa_suffix) \<and> re_search L (q @ qa_suffix) stdout = None) qa"


section \<open>Examples: a regular-expression engine for literal patterns\<close>

text \<open>
  The concrete inputs of the examples below use patterns that are a literal text (a
  metacharacter is written with a backslash before it), alone or followed by
  \<^verbatim>\<open>[\s\n]*$\<close>. On such patterns \<open>literal_search\<close> is what \<^verbatim>\<open>re.search\<close> computes: the
  literal occurs in the subject, respectively occurs followed by white space only up to
  the end. Other patterns are outside of what this engine reads (\<open>literal_compile\<close> is
  false for them). \<open>literal_search_i\<close> compares without regard to the case of letters.
  \<open>plain_format\<close> is \<^verbatim>\<open>%\<close> on a template without any \<^verbatim>\<open>%\<close>.
\<close>

definition is_space :: "char \<Rightarrow> bool" where
  "is_space c = (c \<in> set [CHR '' '', CHR 0x09, CHR 0x0A, CHR 0x0B, CHR 0x0C, CHR 0x0D])"

definition is_meta :: "char \<Rightarrow> bool" where
  "is_meta c = (c \<in> set ''.^$*+?{}[]|()'' \<or> c = CHR 0x5C)"

fun unescape :: "string \<Rightarrow> string option" where
  "unescape [] = Some []"
| "unescape [c] = (if is_meta c then None else Some [c])"
| "unescape (c # d # cs) =
     (if c = CHR 0x5C then (if is_meta d then map_option ((#) d) (unescape cs) else None)
      else if is_meta c then None
      else map_option ((#) c) (unescape (d # cs)))"

definition ends_with :: "string \<Rightarrow> string \<Rightarrow> bool" where
  "ends_with s t = (length t \<le> length s \<and> drop (length s - length t) s = t)"

definition contains :: "string \<Rightarrow> string \<Rightarrow> bool" where
  "contains s t = list_ex (\<lambda>k. take (length t) (drop k s) = t) [0..<Suc (length s)]"

text \<open>The literal text of a pattern, and whether it has to stand at the end.\<close>

definition literal_of :: "string \<Rightarrow> (bool \<times> string) option" where
  "literal_of pat =
     (if ends_with pat qa_suffix
      then map_option (Pair True) (unescape (take (length pat - length qa_suffix) pat))
      else map_option (Pair False) (unescape pat))"

definition literal_compile :: "string \<Rightarrow> bool" where
  "literal_compile pat = (literal_of pat \<noteq> None)"

definition literal_search :: "string \<Rightarrow> string \<Rightarrow> groupdict option" where
  "literal_search pat s =
     (case literal_of pat of
        None \<Rightarrow> None
      | Some (True, lit) \<Rightarrow>
          if list_ex (\<lambda>k. ends_with (take k s) lit \<and> list_all is_space (drop k s))
               [0..<Suc (length s)]
          then Some [] else None
      | Some (False, lit) \<Rightarrow> if contains s lit then Some [] else None)"

definition lower :: "char \<Rightarrow> char" where
  "lower c = (let n = (of_char c :: nat) in if 65 \<le> n \<and> n \<le> 90 then char_of (n + 32) else c)"

definition literal_search_i :: "string \<Rightarrow> string \<Rightarrow> groupdict option" where
  "literal_search_i pat s = literal_search (map lower pat) (map lower s)"

definition plain_format :: "string \<Rightarrow> (string \<times> string) list \<Rightarrow> string option" where
  "plain_format a d = (if CHR ''%'' \<in> set a then None else Some a)"

definition example_lib :: pylib where
  "example_lib = \<lparr>re_compile = literal_compile, re_search = literal_search,
     re_search_i = literal_search_i, py_format = plain_format\<rparr>"

text \<open>A running child that ignores \<^verbatim>\<open>SIGTERM\<close> and dies of \<^verbatim>\<open>SIGKILL\<close>.\<close>

definition example_proc :: popen where
  "example_proc = \<lparr>returncode = None, signals_sent = [],
     exits_in_wait = (\<lambda>sigs. if SIGKILL \<in> set sigs then Some (- 9) else None),
     method_calls = [], stdin_writes = [], stdin_ok = True\<rparr>"

text \<open>The pattern \<^verbatim>\<open>Continue\? \[y/n\]\<close> of the specification's example.\<close>

definition continue_pattern :: string where
  "continue_pattern =
     ''Continue'' @ [CHR 0x5C] @ ''? '' @ [CHR 0x5C] @ ''[y/n'' @ [CHR 0x5C] @ '']''"

text \<open>The pattern \<^verbatim>\<open>name:\<close>, a question without metacharacters.\<close>

definition name_pattern :: string where
  "name_pattern = ''name:''"

section \<open>Scanning output for errors\<close>

text \<open>
  The actions \<^verbatim>\<open>IGNORE\<close>, \<^verbatim>\<open>WARN\<close> and \<^verbatim>\<open>ERROR\<close> of \<^verbatim>\<open>easybuild.tools.config\<close>;
  \<open>NoAction\<close> stands for any other value given as action.
\<close>

datatype action = IGNORE | WARN | ERROR | NoAction

text \<open>
  An item of \<^verbatim>\<open>reg_exps\<close>: a string, a 2-tuple of a string and an action, or anything
  else (a tuple of another length, a pattern that is not a string).
\<close>

datatype reg_exp_item = ItemStr string | ItemTuple string action | ItemOther

text \<open>\<^verbatim>\<open>reg_exps\<close> is a single string or a list of items (line 1284).\<close>

datatype reg_exps_arg = SingleRegExp string | RegExpList "reg_exp_item list"

text \<open>\<^verbatim>\<open>s.split(c)\<close> for a separator of one character: never an empty list.\<close>

fun split_on :: "char \<Rightarrow> string \<Rightarrow> string list" where
  "split_on c [] = [[]]"
| "split_on c (x # xs) =
     (if x = c then [] # split_on c xs
      else (case split_on c xs of [] \<Rightarrow> [[x]] | l # ls \<Rightarrow> (x # l) # ls))"

text \<open>
  Modelled from the spec: \<^verbatim>\<open>nub\<close> of \<^verbatim>\<open>easybuild.tools.utilities\<close>, which is not among
  the sources. The specification says of the reported lists: "Duplicate lines are
  suppressed in the reported list (stable, first-occurrence order)."
\<close>

fun nub :: "'a list \<Rightarrow> 'a list" where
  "nub [] = []"
| "nub (x # xs) = x # nub (filter (\<lambda>y. y \<noteq> x) xs)"

text \<open>
  Lines 1287-1305: every item becomes a pair of a compiled pattern and an action. Any
  failure, also of \<^verbatim>\<open>re.compile\<close>, is raised as \<^verbatim>\<open>EasyBuildError\<close>.
\<close>

fun re_tuple :: "pylib \<Rightarrow> reg_exp_item \<Rightarrow> (string \<times> action) option" where
  "re_tuple L (ItemStr reg_exp) = (if re_compile L reg_exp then Some (reg_exp, ERROR) else None)"
| "re_tuple L (ItemTuple reg_exp act) =
     (if act = NoAction then None
      else if re_compile L reg_exp then Some (reg_exp, act) else None)"
| "re_tuple L ItemOther = None"

fun re_tuples :: "pylib \<Rightarrow> reg_exp_item list \<Rightarrow> error + (string \<times> action) list" where
  "re_tuples L [] = Inr []"
| "re_tuples L (cur # rest) =
     (case re_tuple L cur of
        None \<Rightarrow> Inl (EasyBuildError InvalidRegexpInput)
      | Some t \<Rightarrow> (case re_tuples L rest of Inl e \<Rightarrow> Inl e | Inr ts \<Rightarrow> Inr (t # ts)))"

text \<open>
  The inner loop of lines 1310-1316 for one line: the action of the first pattern that
  matches, after which the loop is left (\<^verbatim>\<open>break\<close>).
\<close>

fun first_action :: "pylib \<Rightarrow> (string \<times> action) list \<Rightarrow> string \<Rightarrow> action option" where
  "first_action L [] line = None"
| "first_action L ((reg_exp, act) # rest) line =
     (case re_search L reg_exp line of
        Some m \<Rightarrow> Some act
      | None \<Rightarrow> first_action L rest line)"

text \<open>The outer loop of lines 1309-1316, with the two lists it appends to.\<close>

fun scan_lines ::
  "pylib \<Rightarrow> (string \<times> action) list \<Rightarrow> string list \<Rightarrow> string list \<times> string list
     \<Rightarrow> string list \<times> string list" where
  "scan_lines L ts [] (warnings, errors) = (warnings, errors)"
| "scan_lines L ts (line # lines) (warnings, errors) =
     (case first_action L ts line of
        Some ERROR \<Rightarrow> scan_lines L ts lines (warnings, errors @ [line])
      | Some WARN \<Rightarrow> scan_lines L ts lines (warnings @ [line], errors)
      | _ \<Rightarrow> scan_lines L ts lines (warnings, errors))"

text \<open>Line 1284: a single string is promoted to a list.\<close>

fun reg_exp_items :: "reg_exps_arg \<Rightarrow> reg_exp_item list" where
  "reg_exp_items (SingleRegExp s) = [ItemStr s]"
| "reg_exp_items (RegExpList xs) = xs"

text \<open>\<^verbatim>\<open>extract_errors_from_log\<close> (lines 1272-1317).\<close>

definition extract_errors_from_log ::
  "pylib \<Rightarrow> string \<Rightarrow> reg_exps_arg \<Rightarrow> error + (string list \<times> string list)" where
  "extract_errors_from_log L log_txt reg_exps =
     (let items = reg_exp_items reg_exps
      in case re_tuples L items of
           Inl e \<Rightarrow> Inl e
         | Inr ts \<Rightarrow>
             (let (warnings, errors) = scan_lines L ts (split_on CHR 0x0A log_txt) ([], [])
              in Inr (nub warnings, nub errors)))"

text \<open>
  \<^verbatim>\<open>check_log_for_errors\<close> (lines 1320-1336), on the counter \<^verbatim>\<open>errors_found_in_log\<close>.
  Beside the outcome it returns the new counter and the lines of the warning it logs,
  if it logs one.
\<close>

definition check_log_for_errors ::
  "pylib \<Rightarrow> string \<Rightarrow> reg_exps_arg \<Rightarrow> nat \<Rightarrow> (error + unit) \<times> nat \<times> string list option" where
  "check_log_for_errors L log_txt reg_exps errors_found_in_log =
     (case extract_errors_from_log L log_txt reg_exps of
        Inl e \<Rightarrow> (Inl e, errors_found_in_log, None)
      | Inr (warnings, errors) \<Rightarrow>
          (let found = errors_found_in_log + (length warnings + length errors);
               logged = (if warnings \<noteq> [] then Some warnings else None)
           in if errors \<noteq> []
              then (Inl (EasyBuildError (FoundErrorsInCommandOutput (length errors) errors)),
                    found, logged)
              else (Inr (), found, logged)))"

text \<open>No pattern of \<open>ts\<close> matches the line.\<close>

definition none_matches :: "pylib \<Rightarrow> (string \<times> action) list \<Rightarrow> string \<Rightarrow> bool" where
  "none_matches L ts line = list_all (\<lambda>(reg_exp, act). re_search L reg_exp line = None) ts"

text \<open>The lines of the text whose first matching pattern has the action \<open>act\<close>.\<close>

definition lines_with :: "pylib \<Rightarrow> (string \<times> action) list \<Rightarrow> action \<Rightarrow> string \<Rightarrow> string list" where
  "lines_with L ts act log_txt =
     filter (\<lambda>line. first_action L ts line = Some act) (split_on CHR 0x0A log_txt)"

text \<open>The log and the rules of the example for the scan.\<close>

definition example_log :: string where
  "example_log = ''a warning: error\<newline>error 1\<newline>ok\<newline>error 1\<newline>last warning''"

definition example_rules :: "reg_exp_item list" where
  "example_rules = [ItemTuple ''warning'' WARN, ItemStr ''error'', ItemTuple ''ok'' IGNORE]"

section \<open>The cache of command results\<close>

text \<open>A command is a string or a list of strings.\<close>

datatype cmd = CmdStr string | CmdList "string list"

text \<open>\<^verbatim>\<open>CACHED_COMMANDS\<close> (lines 80-89).\<close>

definition CACHED_COMMANDS :: "string list" where
  "CACHED_COMMANDS =
     [''sysctl -n hw.cpufrequency_max'',
      ''sysctl -n hw.memsize'',
      ''sysctl -n hw.ncpu'',
      ''sysctl -n machdep.cpu.brand_string'',
      ''sysctl -n machdep.cpu.vendor'',
      ''type module'',
      ''type _module_raw'',
      ''ulimit -u'']"

text \<open>\<^verbatim>\<open>a or b\<close> on optional strings: \<^verbatim>\<open>None\<close> and the empty string are false.\<close>

fun py_or :: "string option \<Rightarrow> string option \<Rightarrow> string option" where
  "py_or None b = b"
| "py_or (Some s) b = (if s = [] then b else Some s)"

fun is_str :: "cmd \<Rightarrow> bool" where
  "is_str (CmdStr s) = True"
| "is_str (CmdList xs) = False"

text \<open>\<^verbatim>\<open>cmd in CACHED_COMMANDS\<close>: a list is equal to no string.\<close>

fun in_cached_commands :: "cmd \<Rightarrow> bool" where
  "in_cached_commands (CmdStr s) = (s \<in> set CACHED_COMMANDS)"
| "in_cached_commands (CmdList xs) = False"

text \<open>
  \<^verbatim>\<open>cache_aware_func\<close>, the function that the decorator \<^verbatim>\<open>run_cmd_cache\<close> returns for
  \<open>func\<close> (lines 165-188). The dictionary \<^verbatim>\<open>cache\<close> of the closure is passed in and
  returned. \<open>func\<close> takes the command, the other arguments of the call and the state of
  the world (in which processes are spawned), and returns a result, raises or does not
  return.
  \<open>kw_stdin\<close> and \<open>kw_inp\<close> read the keyword arguments \<^verbatim>\<open>stdin\<close> and \<^verbatim>\<open>inp\<close> of the call.
\<close>

definition cache_aware_func ::
  "(cmd \<Rightarrow> 'args \<Rightarrow> 'w \<Rightarrow> 'r outcome \<times> 'w) \<Rightarrow> ('args \<Rightarrow> string option) \<Rightarrow> ('args \<Rightarrow> string option)
     \<Rightarrow> (cmd \<times> string option \<rightharpoonup> 'r) \<Rightarrow> cmd \<Rightarrow> 'args \<Rightarrow> 'w
     \<Rightarrow> 'r outcome \<times> (cmd \<times> string option \<rightharpoonup> 'r) \<times> 'w" where
  "cache_aware_func func kw_stdin kw_inp cache cmd args w =
     (let key = (cmd, py_or (kw_stdin args) (kw_inp args)) in
      case (if is_str cmd then cache key else None) of
        Some cached \<Rightarrow> (Returned cached, cache, w)
      | None \<Rightarrow>
          (case func cmd args w of
             (Returned res, w') \<Rightarrow>
               (Returned res, (if in_cached_commands cmd then cache(key \<mapsto> res) else cache), w')
           | (Raised e, w') \<Rightarrow> (Raised e, cache, w')
           | (NoReturn, w') \<Rightarrow> (NoReturn, cache, w')))"

text \<open>
  An example of a wrapped function: every call spawns a process (the world is the number
  of processes spawned so far) and returns that number as its output.
\<close>

definition counting_func :: "cmd \<Rightarrow> string option \<Rightarrow> nat \<Rightarrow> nat outcome \<times> nat" where
  "counting_func cmd stdin n = (Returned (Suc n), Suc n)"

section \<open>The world of a call\<close>

text \<open>The changes the engine makes to the file system.\<close>

datatype fs_op =
    MakeDirs string
  | MkDTemp string
  | MkSTemp string
  | WriteFile string string
  | AppendFile string string

text \<open>The arguments of a \<^verbatim>\<open>Popen\<close> call.\<close>

record popen_call =
  pc_cmd :: cmd
  pc_cwd :: "string option"
  pc_shell :: bool
  pc_executable :: "string option"
  pc_stderr_pipe :: bool

text \<open>
  What is shown to the user: a message of \<^verbatim>\<open>dry_run_msg\<close> (with its \<^verbatim>\<open>silent\<close> flag),
  the trace messages for the start and the end of a command (the texts, which hold the
  time of day, are not modelled), a message of \<^verbatim>\<open>print_msg\<close>, and output streamed to
  \<^verbatim>\<open>sys.stdout\<close>.
\<close>

datatype event =
    DryRunMsg string bool
  | TraceStarted string
  | TraceCompleted int
  | PrintMsg string
  | Streamed string

text \<open>The warnings of the functions \<^verbatim>\<open>run_cmd\<close> and \<^verbatim>\<open>run_cmd_qa\<close> written to the log.\<close>

datatype warning =
    FailedToChangeTo string
  | ExitedWith int
  | PotentialErrors "string list"
  | KillFailed

text \<open>
  The state a call works on: the current working directory of the Python process, the
  directories one can change to, the file-system changes made, the processes spawned,
  the \<^verbatim>\<open>Popen\<close> object of the child of the call, what was shown, the number of temporary
  names handed out, the counter \<^verbatim>\<open>errors_found_in_log\<close> of the module, the warnings,
  and the calls of \<^verbatim>\<open>os.killpg\<close> and \<^verbatim>\<open>os.kill\<close> made.
\<close>

record world =
  w_cwd :: string
  w_dirs :: "string set"
  w_fs :: "fs_op list"
  w_spawned :: "popen_call list"
  w_child :: "popen option"
  w_console :: "event list"
  w_tmp_count :: nat
  w_errors_found :: nat
  w_warnings :: "warning list"
  w_os_kills :: "string list"

text \<open>
  What the call finds around it: the build options it reads through \<^verbatim>\<open>build_option\<close>,
  the temporary directory and the suffixes \<^verbatim>\<open>tempfile\<close> picks, the file-system
  operations that fail, the id of the thread, the path of \<^verbatim>\<open>bash\<close>, the command that
  the \<^verbatim>\<open>pre\<close> hook returns (\<^verbatim>\<open>None\<close> without hook), and the frames of the callers, the
  nearest first.
\<close>

record env =
  opt_extended_dry_run :: bool
  opt_silent :: bool
  opt_logtostdout :: bool
  opt_trace :: bool
  tempdir :: string
  tmp_suffix :: "nat \<Rightarrow> string"
  fs_fails :: "fs_op \<Rightarrow> bool"
  thread_id_now :: nat
  which_bash :: "string option"
  pre_hook :: "cmd \<Rightarrow> cmd option"
  call_stack :: "frame_info list"

text \<open>
  One iteration of a loop that reads from the child, as the child lets it be observed:
  whether the time limit is found exceeded at its start (\<^verbatim>\<open>run_shell_cmd\<close>), whether
  reading raises (\<^verbatim>\<open>run_cmd_qa\<close>), the output read from the two pipes, and what
  \<^verbatim>\<open>poll\<close> returns at its end.
\<close>

record cycle =
  c_timed_out :: bool
  c_read_fails :: bool
  c_stdout :: string
  c_stderr :: string
  c_poll :: "int option"

text \<open>
  What the child of a call does, as far as the call can see it: whether spawning fails;
  the \<^verbatim>\<open>Popen\<close> object; the lines that iterating over its \<^verbatim>\<open>stderr\<close> yields (\<^verbatim>\<open>None\<close>
  when the end of the stream is never reached); the iterations of the loop (a list that
  ends with the child still running stands for a call that is still in its loop), before
  them what the first \<^verbatim>\<open>poll\<close> of \<^verbatim>\<open>complete_cmd\<close> and \<^verbatim>\<open>run_cmd_qa\<close> returns; the
  output left in the pipes after the exit; what \<^verbatim>\<open>communicate\<close> returns (output,
  errors, exit code), \<^verbatim>\<open>None\<close> when the child does not finish; the directories one can
  change to once the child has exited (the command may have removed some); and whether
  \<^verbatim>\<open>os.killpg\<close> and \<^verbatim>\<open>os.kill\<close> on the child fail. \<^verbatim>\<open>run_cmd_qa\<close> starts its child
  (lines 1051-1052) without a session or process group of its own, so that
  \<^verbatim>\<open>os.killpg(proc.pid, ...)\<close> finds no process group with that id and fails with
  \<^verbatim>\<open>ProcessLookupError\<close>, an \<^verbatim>\<open>OSError\<close>; it can only succeed for a child that has made
  itself the leader of a process group.
\<close>

record script =
  popen_fails :: bool
  child :: popen
  stderr_iter :: "string list option"
  first_poll :: "int option"
  cycles :: "cycle list"
  final_stdout :: string
  final_stderr :: string
  communicate :: "(string \<times> string \<times> int) option"
  dirs_after :: "string set"
  killpg_fails :: bool
  kill_fails :: bool

section \<open>Strings and paths\<close>

text \<open>The characters \<^verbatim>\<open>str.strip()\<close> removes, among those of ASCII.\<close>

definition py_isspace :: "char \<Rightarrow> bool" where
  "py_isspace c = (c \<in> set [CHR '' '', CHR 0x09, CHR 0x0A, CHR 0x0B, CHR 0x0C, CHR 0x0D,
                              CHR 0x1C, CHR 0x1D, CHR 0x1E, CHR 0x1F])"

definition py_strip :: "string \<Rightarrow> string" where
  "py_strip s = rev (dropWhile py_isspace (rev (dropWhile py_isspace s)))"

fun py_join :: "string \<Rightarrow> string list \<Rightarrow> string" where
  "py_join sep [] = []"
| "py_join sep [x] = x"
| "py_join sep (x # y # ys) = x @ sep @ py_join sep (y # ys)"

text \<open>\<^verbatim>\<open>s.split(' ')[0]\<close> and \<^verbatim>\<open>os.path.basename\<close>.\<close>

definition first_word :: "string \<Rightarrow> string" where
  "first_word s = takeWhile (\<lambda>c. c \<noteq> CHR '' '') s"

definition basename :: "string \<Rightarrow> string" where
  "basename p = rev (takeWhile (\<lambda>c. c \<noteq> CHR ''/'') (rev p))"

text \<open>\<^verbatim>\<open>os.path.join\<close> of a directory and a relative name.\<close>

definition path_join :: "string \<Rightarrow> string \<Rightarrow> string" where
  "path_join a b = (if a = [] \<or> last a = CHR ''/'' then a @ b else a @ ''/'' @ b)"

definition filename_chars :: string where
  "filename_chars =
     ''abcdefghijklmnopqrstuvwxyzABCDEFGHIJKLMNOPQRSTUVWXYZ'' @ ''0123456789'' @ ''_-''"

text \<open>\<^verbatim>\<open>fileprefix_from_cmd\<close> (lines 194-204); \<^verbatim>\<open>allowed_chars\<close> is \<^verbatim>\<open>False\<close> by default.\<close>

definition fileprefix_from_cmd :: "string \<Rightarrow> string option \<Rightarrow> string" where
  "fileprefix_from_cmd cmd allowed_chars =
     (let allowed = (case allowed_chars of
                       None \<Rightarrow> filename_chars
                     | Some cs \<Rightarrow> if cs = [] then filename_chars else cs)
      in filter (\<lambda>c. c \<in> set allowed) cmd)"

section \<open>Running a shell command\<close>

text \<open>
  The value given as \<^verbatim>\<open>qa_patterns\<close>: \<^verbatim>\<open>None\<close>, a list of 2-tuples, or something else
  that is not empty (a dictionary, a list with an item that is no 2-tuple).
\<close>

datatype qa_arg = QANone | QAList "qa_pattern list" | QAOther

fun qa_truthy :: "qa_arg \<Rightarrow> bool" where
  "qa_truthy QANone = False"
| "qa_truthy (QAList xs) = (xs \<noteq> [])"
| "qa_truthy QAOther = True"

fun qa_list :: "qa_arg \<Rightarrow> qa_pattern list" where
  "qa_list (QAList xs) = xs"
| "qa_list _ = []"

text \<open>The parameters of \<^verbatim>\<open>run_shell_cmd\<close> (lines 312-315) but \<^verbatim>\<open>env\<close>, which is only passed on.\<close>

record rsc_args =
  fail_on_error :: bool
  split_stderr :: bool
  stdin :: "string option"
  hidden :: bool
  in_dry_run :: bool
  verbose_dry_run :: bool
  work_dir :: "string option"
  use_bash :: bool
  output_file :: bool
  stream_output :: "bool option"
  asynchronous :: bool
  task_id :: "string option"
  with_hooks :: bool
  timeout :: "nat option"
  qa_patterns :: qa_arg
  qa_wait_patterns :: "string list option"
  qa_timeout :: nat

text \<open>The default values of the parameters.\<close>

definition default_args :: rsc_args where
  "default_args = \<lparr>fail_on_error = True, split_stderr = False, stdin = None, hidden = False,
     in_dry_run = False, verbose_dry_run = False, work_dir = None, use_bash = True,
     output_file = True, stream_output = None, asynchronous = False, task_id = None,
     with_hooks = True, timeout = None, qa_patterns = QANone, qa_wait_patterns = None,
     qa_timeout = 100\<rparr>"

text \<open>\<^verbatim>\<open>to_cmd_str\<close> (lines 343-354).\<close>

fun to_cmd_str :: "cmd \<Rightarrow> string" where
  "to_cmd_str (CmdStr s) = py_strip s"
| "to_cmd_str (CmdList xs) = py_join '' '' xs"

text \<open>The truth value of an optional string, of an optional number and of a command.\<close>

fun str_truthy :: "string option \<Rightarrow> bool" where
  "str_truthy None = False"
| "str_truthy (Some s) = (s \<noteq> [])"

fun nat_truthy :: "nat option \<Rightarrow> bool" where
  "nat_truthy None = False"
| "nat_truthy (Some n) = (n \<noteq> 0)"

fun cmd_truthy :: "cmd option \<Rightarrow> bool" where
  "cmd_truthy None = False"
| "cmd_truthy (Some (CmdStr s)) = (s \<noteq> [])"
| "cmd_truthy (Some (CmdList xs)) = (xs \<noteq> [])"

text \<open>A file-system operation: it fails with \<^verbatim>\<open>OSError\<close> or is done.\<close>

definition do_fs :: "env \<Rightarrow> fs_op \<Rightarrow> world \<Rightarrow> bool \<times> world" where
  "do_fs E op w = (if fs_fails E op then (False, w) else (True, w\<lparr>w_fs := w_fs w @ [op]\<rparr>))"

text \<open>
  Lines 379-393: the temporary directory and the paths of the output files, when
  \<^verbatim>\<open>output_file\<close> is set.
\<close>

definition output_paths ::
  "env \<Rightarrow> string \<Rightarrow> rsc_args \<Rightarrow> world \<Rightarrow> (error + string option \<times> string option) \<times> world" where
  "output_paths E cmd_str args w =
     (if output_file args then
        (let toptmpdir = path_join (tempdir E) ''run-shell-cmd-output'';
             (ok1, w1) = do_fs E (MakeDirs toptmpdir) w
         in if \<not> ok1 then (Inl (PyError C_OSError), w1)
            else
              (let cmd_name = fileprefix_from_cmd (basename (first_word cmd_str)) None;
                   tmpdir = path_join toptmpdir (cmd_name @ ''-'' @ tmp_suffix E (w_tmp_count w1));
                   (ok2, w2) = do_fs E (MkDTemp tmpdir) (w1\<lparr>w_tmp_count := Suc (w_tmp_count w1)\<rparr>)
               in if \<not> ok2 then (Inl (PyError C_OSError), w2)
                  else (Inr (Some (path_join tmpdir ''out.txt''),
                             if split_stderr args then Some (path_join tmpdir ''err.txt'') else None),
                        w2)))
      else (Inr (None, None), w))"

text \<open>The local variables that lines 356-396 set.\<close>

record prepared =
  p_cmd_str :: string
  p_work_dir :: string
  p_thread_id :: "nat option"
  p_stream_output :: bool
  p_out_fp :: "string option"
  p_err_fp :: "string option"
  p_interactive :: bool
  p_wait_patterns :: "string list"

definition prepare :: "env \<Rightarrow> cmd \<Rightarrow> rsc_args \<Rightarrow> world \<Rightarrow> (error + prepared) \<times> world" where
  "prepare E cmd args w =
     (if qa_patterns args = QAOther then (Inl (EasyBuildError QAPatternsNotTuples), w)
      else
        (let waits = (case qa_wait_patterns args of None \<Rightarrow> [] | Some ws \<Rightarrow> ws);
             wd = (case work_dir args of None \<Rightarrow> w_cwd w | Some d \<Rightarrow> d);
             cmd_str = to_cmd_str cmd;
             thread_id = (if asynchronous args then Some (thread_id_now E) else None);
             stream = (case stream_output args of None \<Rightarrow> opt_logtostdout E | Some b \<Rightarrow> b)
         in case output_paths E cmd_str args w of
              (Inl e, w1) \<Rightarrow> (Inl e, w1)
            | (Inr (out_fp, err_fp), w1) \<Rightarrow>
                (Inr \<lparr>p_cmd_str = cmd_str, p_work_dir = wd, p_thread_id = thread_id,
                      p_stream_output = stream, p_out_fp = out_fp, p_err_fp = err_fp,
                      p_interactive = qa_truthy (qa_patterns args), p_wait_patterns = waits\<rparr>,
                 w1)))"

text \<open>The message of the dry run (lines 402-403) and its result (lines 406-407).\<close>

definition dry_run_text :: "prepared \<Rightarrow> string" where
  "dry_run_text pr =
     ''  running '' @ (if p_interactive pr then ''interactive '' else [])
       @ ''shell command '' @ [CHR 0x22] @ p_cmd_str pr @ [CHR 0x22] @ ''\<newline>''
       @ ''  (in '' @ p_work_dir pr @ '')''"

definition dry_run_result :: "prepared \<Rightarrow> rsc_args \<Rightarrow> run_shell_cmd_result" where
  "dry_run_result pr args =
     \<lparr>res_cmd = p_cmd_str pr, res_exit_code = 0, res_output = [], res_stderr = None,
      res_work_dir = p_work_dir pr, res_out_file = p_out_fp pr, res_err_file = p_err_fp pr,
      res_thread_id = p_thread_id pr, res_task_id = task_id args\<rparr>"

section \<open>Running a shell command: execution\<close>

text \<open>
  The variables of the loop of lines 467-523. \<open>ls_time_no_match\<close> counts the time without
  match in steps of \<^verbatim>\<open>check_interval_secs\<close>, a tenth of a second (the source adds the
  floating-point number 0.1; the rounding of that sum is not modelled).
\<close>

record loop_state =
  ls_stdout :: string
  ls_stderr :: string
  ls_time_no_match :: nat
  ls_qa :: "qa_pattern list"
  ls_proc :: popen

text \<open>
  Lines 508-519: with question patterns, try to answer; without match the time without
  match grows and, beyond \<^verbatim>\<open>qa_timeout\<close> seconds, the error is raised.
\<close>

definition qa_step :: "pylib \<Rightarrow> rsc_args \<Rightarrow> string list \<Rightarrow> loop_state \<Rightarrow> (error + unit) \<times> loop_state" where
  "qa_step L args waits st =
     (if qa_truthy (qa_patterns args) then
        (case answer_question L (ls_stdout st) (ls_proc st) (ls_qa st) waits of
           (Inl e, qa', proc') \<Rightarrow> (Inl e, st\<lparr>ls_qa := qa', ls_proc := proc'\<rparr>)
         | (Inr True, qa', proc') \<Rightarrow>
             (Inr (), st\<lparr>ls_qa := qa', ls_proc := proc', ls_time_no_match := 0\<rparr>)
         | (Inr False, qa', proc') \<Rightarrow>
             (let t = Suc (ls_time_no_match st);
                  st' = st\<lparr>ls_qa := qa', ls_proc := proc', ls_time_no_match := t\<rparr>
              in if t > 10 * qa_timeout args
                 then (Inl (EasyBuildError (NoMatchingQuestions (qa_timeout args))), st')
                 else (Inr (), st')))
      else (Inr (), st))"

text \<open>Lines 475-479 and 531-536: after a timeout the child is terminated, then the error is raised.\<close>

definition timeout_abort :: "loop_state \<Rightarrow> int outcome \<times> loop_state" where
  "timeout_abort st =
     (case terminate_process (ls_proc st) of
        (Inl e, warned, proc') \<Rightarrow> (Raised e, st\<lparr>ls_proc := proc'\<rparr>)
      | (Inr u, warned, proc') \<Rightarrow> (Raised (EasyBuildError TimeoutDuring), st\<lparr>ls_proc := proc'\<rparr>))"

text \<open>The loop \<^verbatim>\<open>while exit_code is None\<close> (lines 474-523), over the iterations observed.\<close>

fun stream_loop ::
  "pylib \<Rightarrow> rsc_args \<Rightarrow> string list \<Rightarrow> cycle list \<Rightarrow> loop_state \<Rightarrow> int outcome \<times> loop_state" where
  "stream_loop L args waits [] st = (NoReturn, st)"
| "stream_loop L args waits (c # cs) st =
     (if nat_truthy (timeout args) \<and> c_timed_out c then timeout_abort st
      else
        (let st1 = st\<lparr>ls_stdout := ls_stdout st @ c_stdout c,
                      ls_stderr := (if split_stderr args then ls_stderr st @ c_stderr c
                                    else ls_stderr st)\<rparr>
         in case qa_step L args waits st1 of
              (Inl e, st2) \<Rightarrow> (Raised e, st2)
            | (Inr u, st2) \<Rightarrow>
                (case c_poll c of
                   None \<Rightarrow> stream_loop L args waits cs st2
                 | Some ec \<Rightarrow> (Returned ec, st2\<lparr>ls_proc := (ls_proc st2)\<lparr>returncode := Some ec\<rparr>\<rparr>))))"

text \<open>Writing \<^verbatim>\<open>stdin\<close> to the child when it is given and not empty (lines 464-465).\<close>

definition write_stdin :: "string option \<Rightarrow> popen \<Rightarrow> popen option" where
  "write_stdin inp proc =
     (case inp of
        None \<Rightarrow> Some proc
      | Some s \<Rightarrow>
          if s = [] then Some proc
          else if stdin_ok proc then Some (proc\<lparr>stdin_writes := stdin_writes proc @ [s]\<rparr>)
          else None)"

definition initial_state :: "rsc_args \<Rightarrow> popen \<Rightarrow> loop_state" where
  "initial_state args proc =
     \<lparr>ls_stdout = [], ls_stderr = [], ls_time_no_match = 0,
      ls_qa = qa_list (qa_patterns args), ls_proc = proc\<rparr>"

text \<open>
  Lines 452-528. With question patterns and \<^verbatim>\<open>split_stderr\<close>, line 458 extends the list
  \<^verbatim>\<open>channels\<close> by iterating over \<^verbatim>\<open>proc.stderr\<close>: that reads the stream to its end, and
  a line read is a byte string, without \<^verbatim>\<open>fileno\<close> (line 460).
\<close>

definition stream_run ::
  "pylib \<Rightarrow> rsc_args \<Rightarrow> string list \<Rightarrow> script \<Rightarrow> int outcome \<times> loop_state" where
  "stream_run L args waits S =
     (case (if qa_truthy (qa_patterns args) \<and> split_stderr args then stderr_iter S else Some []) of
        None \<Rightarrow> (NoReturn, initial_state args (child S))
      | Some (l # ls) \<Rightarrow> (Raised (PyError C_AttributeError), initial_state args (child S))
      | Some [] \<Rightarrow>
          (case write_stdin (stdin args) (child S) of
             None \<Rightarrow> (Raised (PyError C_OSError), initial_state args (child S))
           | Some proc \<Rightarrow>
               (case stream_loop L args waits (cycles S) (initial_state args proc) of
                  (Returned ec, st) \<Rightarrow>
                    (Returned ec,
                     st\<lparr>ls_stdout := ls_stdout st @ final_stdout S,
                        ls_stderr := (if split_stderr args then ls_stderr st @ final_stderr S
                                      else ls_stderr st)\<rparr>)
                | (r, st) \<Rightarrow> (r, st))))"

text \<open>Lines 530-536: \<^verbatim>\<open>communicate\<close> with the time limit.\<close>

definition communicate_run :: "rsc_args \<Rightarrow> script \<Rightarrow> int outcome \<times> loop_state" where
  "communicate_run args S =
     (case write_stdin (stdin args) (child S) of
        None \<Rightarrow> (Raised (PyError C_OSError), initial_state args (child S))
      | Some proc \<Rightarrow>
          (case communicate S of
             Some (out, err, rc) \<Rightarrow>
               (Returned rc,
                (initial_state args (proc\<lparr>returncode := Some rc\<rparr>))\<lparr>ls_stdout := out, ls_stderr := err\<rparr>)
           | None \<Rightarrow>
               (case timeout args of
                  None \<Rightarrow> (NoReturn, initial_state args proc)
                | Some t \<Rightarrow> timeout_abort (initial_state args proc))))"

text \<open>Lines 545-554: the output is stored in the files.\<close>

definition write_outputs ::
  "env \<Rightarrow> rsc_args \<Rightarrow> prepared \<Rightarrow> string \<Rightarrow> string \<Rightarrow> world \<Rightarrow> error option \<times> world" where
  "write_outputs E args pr output err w =
     (if output_file args then
        (case p_out_fp pr of
           None \<Rightarrow> (Some (PyError C_TypeError), w)
         | Some fp \<Rightarrow>
             (let (ok1, w1) = do_fs E (WriteFile fp output) w
              in if \<not> ok1 then (Some (EasyBuildError FailedToDumpOutput), w1)
                 else if split_stderr args then
                   (case p_err_fp pr of
                      None \<Rightarrow> (Some (PyError C_TypeError), w1)
                    | Some efp \<Rightarrow>
                        (let (ok2, w2) = do_fs E (WriteFile efp err) w1
                         in if ok2 then (None, w2)
                            else (Some (EasyBuildError FailedToDumpOutput), w2)))
                 else (None, w1)))
      else (None, w))"

text \<open>
  The frames between the caller and the place where the frames are looked up (lines
  153-159): \<^verbatim>\<open>raise_run_shell_cmd_error\<close>, \<^verbatim>\<open>run_shell_cmd\<close> and the function of the
  decorator \<^verbatim>\<open>run_cmd_cache\<close>.
\<close>

definition own_frames :: "frame_info list" where
  "own_frames =
     [\<lparr>fr_filename = ''easybuild/tools/run.py'', fr_lineno = 159,
        fr_function = ''raise_run_shell_cmd_error''\<rparr>,
      \<lparr>fr_filename = ''easybuild/tools/run.py'', fr_lineno = 572, fr_function = ''run_shell_cmd''\<rparr>,
      \<lparr>fr_filename = ''easybuild/tools/run.py'', fr_lineno = 179,
        fr_function = ''cache_aware_func''\<rparr>]"

text \<open>\<^verbatim>\<open>RunShellCmdError.__init__\<close> (lines 98-112).\<close>

definition new_run_shell_cmd_error ::
  "run_shell_cmd_result \<Rightarrow> string \<times> nat \<times> string \<Rightarrow> run_shell_cmd_error" where
  "new_run_shell_cmd_error cmd_result caller_info =
     \<lparr>err_cmd = res_cmd cmd_result,
      err_cmd_name = basename (first_word (res_cmd cmd_result)),
      err_exit_code = res_exit_code cmd_result,
      err_work_dir = res_work_dir cmd_result,
      err_output = res_output cmd_result,
      err_out_file = res_out_file cmd_result,
      err_stderr = res_stderr cmd_result,
      err_err_file = res_err_file cmd_result,
      err_caller_info = caller_info\<rparr>"

text \<open>
  \<^verbatim>\<open>raise_run_shell_cmd_error\<close> (lines 148-162): the exception it raises. The frame with
  index 3 is the caller's (\<^verbatim>\<open>IndexError\<close> if there is none).
\<close>

definition raise_run_shell_cmd_error :: "env \<Rightarrow> run_shell_cmd_result \<Rightarrow> error" where
  "raise_run_shell_cmd_error E cmd_res =
     (case drop 3 (own_frames @ call_stack E) of
        [] \<Rightarrow> PyError C_IndexError
      | frameinfo # outer \<Rightarrow>
          RunShellCmdError (new_run_shell_cmd_error cmd_res
            (fr_filename frameinfo, fr_lineno frameinfo, fr_function frameinfo)))"

text \<open>Lines 538-588: from the output and the exit code to the result or the error.\<close>

definition finish ::
  "env \<Rightarrow> rsc_args \<Rightarrow> prepared \<Rightarrow> string \<Rightarrow> string \<Rightarrow> int \<Rightarrow> world
     \<Rightarrow> run_shell_cmd_result outcome \<times> world" where
  "finish E args pr out err rc w =
     (let err' = (if split_stderr args then Some err else None) in
      case write_outputs E args pr out err w of
        (Some e, w1) \<Rightarrow> (Raised e, w1)
      | (None, w1) \<Rightarrow>
          (let res = \<lparr>res_cmd = p_cmd_str pr, res_exit_code = rc, res_output = out,
                      res_stderr = err', res_work_dir = p_work_dir pr,
                      res_out_file = p_out_fp pr, res_err_file = p_err_fp pr,
                      res_thread_id = p_thread_id pr, res_task_id = task_id args\<rparr>
           in if rc \<noteq> 0 \<and> fail_on_error args then (Raised (raise_run_shell_cmd_error E res), w1)
              else (Returned res,
                    if hidden args then w1
                    else w1\<lparr>w_console := w_console w1 @ [TraceCompleted rc]\<rparr>)))"

text \<open>Lines 409-588: the command is run.\<close>

definition execute ::
  "env \<Rightarrow> pylib \<Rightarrow> script \<Rightarrow> cmd \<Rightarrow> rsc_args \<Rightarrow> prepared \<Rightarrow> world
     \<Rightarrow> run_shell_cmd_result outcome \<times> world" where
  "execute E L S cmd args pr w =
     (let w1 = (if hidden args then w else w\<lparr>w_console := w_console w @ [TraceStarted (p_cmd_str pr)]\<rparr>);
          w2 = (if p_stream_output pr
                then w1\<lparr>w_console := w_console w1 @
                       [PrintMsg (''(streaming) output for command '' @ p_cmd_str pr)]\<rparr>
                else w1);
          executable = (if use_bash args then which_bash E else None);
          hook_res = (if with_hooks args then pre_hook E cmd else None);
          cmd' = (case hook_res of Some c \<Rightarrow> if cmd_truthy hook_res then c else cmd | None \<Rightarrow> cmd);
          pr' = (if cmd_truthy hook_res then pr\<lparr>p_cmd_str := to_cmd_str cmd'\<rparr> else pr);
          w3 = w2\<lparr>w_spawned := w_spawned w2 @
                  [\<lparr>pc_cmd = cmd', pc_cwd = Some (p_work_dir pr), pc_shell = use_bash args,
                    pc_executable = executable, pc_stderr_pipe = split_stderr args\<rparr>]\<rparr>
      in if popen_fails S then (Raised (PyError C_OSError), w3)
         else
           (case (if p_stream_output pr \<or> qa_truthy (qa_patterns args)
                  then stream_run L args (p_wait_patterns pr) S
                  else communicate_run args S) of
              (Returned rc, st) \<Rightarrow>
                finish E args pr' (ls_stdout st) (ls_stderr st) rc (w3\<lparr>w_child := Some (ls_proc st)\<rparr>)
            | (Raised e, st) \<Rightarrow> (Raised e, w3\<lparr>w_child := Some (ls_proc st)\<rparr>)
            | (NoReturn, st) \<Rightarrow> (NoReturn, w3\<lparr>w_child := Some (ls_proc st)\<rparr>)))"

text \<open>\<^verbatim>\<open>run_shell_cmd\<close> (lines 312-588), as defined, without its decorator.\<close>

definition run_shell_cmd ::
  "env \<Rightarrow> pylib \<Rightarrow> script \<Rightarrow> cmd \<Rightarrow> rsc_args \<Rightarrow> world \<Rightarrow> run_shell_cmd_result outcome \<times> world" where
  "run_shell_cmd E L S cmd args w =
     (case prepare E cmd args w of
        (Inl e, w1) \<Rightarrow> (Raised e, w1)
      | (Inr pr, w1) \<Rightarrow>
          if \<not> in_dry_run args \<and> opt_extended_dry_run E then
            (Returned (dry_run_result pr args),
             if \<not> hidden args \<or> verbose_dry_run args
             then w1\<lparr>w_console := w_console w1 @ [DryRunMsg (dry_run_text pr) (opt_silent E)]\<rparr>
             else w1)
          else execute E L S cmd args pr w1)"

text \<open>
  \<^verbatim>\<open>run_shell_cmd\<close> as the module exports it, decorated with \<^verbatim>\<open>run_shell_cmd_cache\<close>
  (line 311). It has no parameter \<^verbatim>\<open>inp\<close>.
\<close>

definition run_shell_cmd_cached ::
  "env \<Rightarrow> pylib \<Rightarrow> script \<Rightarrow> (cmd \<times> string option \<rightharpoonup> run_shell_cmd_result) \<Rightarrow> cmd \<Rightarrow> rsc_args \<Rightarrow> world
     \<Rightarrow> run_shell_cmd_result outcome \<times> (cmd \<times> string option \<rightharpoonup> run_shell_cmd_result) \<times> world" where
  "run_shell_cmd_cached E L S cache cmd args w =
     cache_aware_func (run_shell_cmd E L S) stdin (\<lambda>a. None) cache cmd args w"

section \<open>Examples: an environment, a world and a child\<close>

definition example_env :: env where
  "example_env =
     \<lparr>opt_extended_dry_run = False, opt_silent = False, opt_logtostdout = False,
      opt_trace = False, tempdir = ''/tmp'', tmp_suffix = (\<lambda>n. ''k3x9''),
      fs_fails = (\<lambda>op. False), thread_id_now = 7, which_bash = Some ''/bin/bash'',
      pre_hook = (\<lambda>c. None),
      call_stack = [\<lparr>fr_filename = ''easyblock.py'', fr_lineno = 42, fr_function = ''build_step''\<rparr>]\<rparr>"

text \<open>The same with the option \<^verbatim>\<open>--extended-dry-run\<close>.\<close>

definition dry_env :: env where
  "dry_env = example_env\<lparr>opt_extended_dry_run := True\<rparr>"

definition example_world :: world where
  "example_world =
     \<lparr>w_cwd = ''/home/user'', w_dirs = {''/home/user'', ''/tmp''}, w_fs = [], w_spawned = [],
      w_child = None, w_console = [], w_tmp_count = 0, w_errors_found = 0, w_warnings = [],
      w_os_kills = []\<rparr>"

text \<open>
  A child that prints \<^verbatim>\<open>boom\<close> and exits with code 1; seen in the loop, it asks \<^verbatim>\<open>What?\<close>.
  It is no leader of a process group: \<^verbatim>\<open>os.killpg\<close> on it fails.
\<close>

definition example_script :: script where
  "example_script =
     \<lparr>popen_fails = False, child = example_proc, stderr_iter = Some [], first_poll = None,
      cycles = [\<lparr>c_timed_out = False, c_read_fails = False, c_stdout = ''What?'', c_stderr = [],
                 c_poll = None\<rparr>],
      final_stdout = [], final_stderr = [], communicate = Some (''boom'', [], 1),
      dirs_after = {''/home/user'', ''/tmp''}, killpg_fails = True, kill_fails = False\<rparr>"

text \<open>The two directories that a call of \<^verbatim>\<open>run_shell_cmd\<close> with \<^verbatim>\<open>output_file\<close> makes (lines 381-384).\<close>

definition top_tmpdir :: "env \<Rightarrow> string" where
  "top_tmpdir E = path_join (tempdir E) ''run-shell-cmd-output''"

definition cmd_tmpdir :: "env \<Rightarrow> cmd \<Rightarrow> world \<Rightarrow> string" where
  "cmd_tmpdir E cmd w =
     path_join (top_tmpdir E)
       (fileprefix_from_cmd (basename (first_word (to_cmd_str cmd))) None @ ''-''
          @ tmp_suffix E (w_tmp_count w))"

text \<open>
  A child that prints the limit of processes and exits with code 0, the result of running
  it without output file, and the arguments of a call that runs the command in a dry run
  too.
\<close>

definition ulimit_script :: script where
  "ulimit_script = example_script\<lparr>communicate := Some (''4096\<newline>'', [], 0)\<rparr>"

definition ulimit_result :: run_shell_cmd_result where
  "ulimit_result =
     \<lparr>res_cmd = ''ulimit -u'', res_exit_code = 0, res_output = ''4096\<newline>'', res_stderr = None,
      res_work_dir = ''/home/user'', res_out_file = None, res_err_file = None,
      res_thread_id = None, res_task_id = None\<rparr>"

definition real_args :: rsc_args where
  "real_args = default_args\<lparr>in_dry_run := True, output_file := False, hidden := True\<rparr>"

section \<open>The functions \<^verbatim>\<open>run_cmd\<close> and \<^verbatim>\<open>complete_cmd\<close>\<close>

text \<open>The argument \<^verbatim>\<open>regexp\<close>: a truth value or a pattern.\<close>

datatype regexp_arg = RegexpBool bool | RegexpText string

fun regexp_truthy :: "regexp_arg \<Rightarrow> bool" where
  "regexp_truthy (RegexpBool b) = b"
| "regexp_truthy (RegexpText s) = (s \<noteq> [])"

text \<open>The default pattern of \<^verbatim>\<open>parse_log_for_error\<close> (line 1247).\<close>

definition default_error_regexp :: string where
  "default_error_regexp =
     ''(?<![(,-]|'' @ [CHR 0x5C] @ ''w)(?:error|segmentation fault|failed)(?![(,-]|''
       @ [CHR 0x5C] @ ''.?'' @ [CHR 0x5C] @ ''w)''"

text \<open>
  What \<^verbatim>\<open>run_cmd\<close> and \<^verbatim>\<open>run_cmd_qa\<close> return: a truth value (\<^verbatim>\<open>simple\<close>), the output with
  the exit code, or, from an asynchronous \<^verbatim>\<open>run_cmd\<close>, the process with the command,
  the original working directory and the log file (the start time is left out).
\<close>

datatype cmd_result =
    Simple bool
  | OutputEc string int
  | AsyncHandle popen cmd string "string option"

text \<open>
  \<^verbatim>\<open>os.chdir\<close>: a relative path is taken from the current directory; the call fails with
  \<^verbatim>\<open>OSError\<close> (here \<^verbatim>\<open>None\<close>) when one cannot change to the directory.
\<close>

definition chdir :: "string \<Rightarrow> world \<Rightarrow> world option" where
  "chdir p w =
     (let target = (if p \<noteq> [] \<and> hd p = CHR ''/'' then p else path_join (w_cwd w) p)
      in if target \<in> w_dirs w then Some (w\<lparr>w_cwd := target\<rparr>) else None)"

text \<open>
  \<^verbatim>\<open>parse_log_for_error\<close> (lines 1237-1269) with \<^verbatim>\<open>stdout=False\<close>, as \<^verbatim>\<open>parse_cmd_output\<close>
  calls it: the lines that match, counted in \<^verbatim>\<open>errors_found_in_log\<close>.
\<close>

definition parse_log_for_error ::
  "pylib \<Rightarrow> string \<Rightarrow> regexp_arg \<Rightarrow> world \<Rightarrow> (error + string list) \<times> world" where
  "parse_log_for_error L txt regExp w =
     (case (case regExp of
              RegexpBool b \<Rightarrow> if b then Some default_error_regexp else None
            | RegexpText s \<Rightarrow> Some s) of
        None \<Rightarrow> (Inl (EasyBuildError NoValidRegExp), w)
      | Some reg \<Rightarrow>
          if \<not> re_compile L reg then (Inl (PyError C_re_error), w)
          else
            (let res = filter (\<lambda>line. re_search_i L reg line \<noteq> None) (split_on CHR 0x0A txt)
             in (Inr res, w\<lparr>w_errors_found := w_errors_found w + length res\<rparr>)))"

text \<open>
  \<^verbatim>\<open>parse_cmd_output\<close> (lines 1175-1234); \<open>strictness\<close> is the variable of that name of
  the module.
\<close>

definition parse_cmd_output ::
  "pylib \<Rightarrow> action \<Rightarrow> string \<Rightarrow> int \<Rightarrow> bool \<Rightarrow> bool \<Rightarrow> bool \<Rightarrow> regexp_arg \<Rightarrow> world
     \<Rightarrow> cmd_result outcome \<times> world" where
  "parse_cmd_output L strictness stdouterr ec simple log_all log_ok regexp w =
     (case (case strictness of
              IGNORE \<Rightarrow> Some (False, False)
            | WARN \<Rightarrow> Some (True, False)
            | ERROR \<Rightarrow> Some (True, True)
            | NoAction \<Rightarrow> None) of
        None \<Rightarrow> (Raised (EasyBuildError InvalidStrictness), w)
      | Some (check_ec, strict_match) \<Rightarrow>
          (let fail_on_error_match = (regexp_truthy regexp \<and> strict_match) in
           if ec \<noteq> 0 \<and> (log_all \<or> log_ok) \<and> check_ec
           then (Raised (EasyBuildError (CmdExitedWith ec stdouterr)), w)
           else
             (let w1 = (if ec \<noteq> 0 \<and> (log_all \<or> log_ok)
                        then w\<lparr>w_warnings := w_warnings w @ [ExitedWith ec]\<rparr> else w)
              in case (if fail_on_error_match \<or> regexp_truthy regexp
                       then (case parse_log_for_error L stdouterr regexp w1 of
                               (Inl e, w2) \<Rightarrow> (Some e, w2)
                             | (Inr res, w2) \<Rightarrow>
                                 if res = [] then (None, w2)
                                 else if fail_on_error_match
                                 then (Some (EasyBuildError (FoundErrorsInOutput res)), w2)
                                 else (None, w2\<lparr>w_warnings := w_warnings w2 @ [PotentialErrors res]\<rparr>))
                       else (None, w1)) of
                   (Some e, w3) \<Rightarrow> (Raised e, w3)
                 | (None, w3) \<Rightarrow>
                     (Returned (if simple then Simple (if ec \<noteq> 0 then \<not> check_ec else True)
                                else OutputEc stdouterr ec),
                      w3))))"

text \<open>
  The parameters of \<^verbatim>\<open>run_cmd\<close> (lines 658-660), and \<^verbatim>\<open>strictness\<close> of the module.
\<close>

record rc_args =
  rc_log_ok :: bool
  rc_log_all :: bool
  rc_simple :: bool
  rc_inp :: "string option"
  rc_regexp :: regexp_arg
  rc_log_output :: bool
  rc_path :: "string option"
  rc_force_in_dry_run :: bool
  rc_verbose :: bool
  rc_shell :: "bool option"
  rc_trace :: bool
  rc_stream_output :: "bool option"
  rc_asynchronous :: bool
  rc_with_hooks :: bool
  rc_strictness :: action

definition default_rc_args :: rc_args where
  "default_rc_args = \<lparr>rc_log_ok = True, rc_log_all = False, rc_simple = False, rc_inp = None,
     rc_regexp = RegexpBool True, rc_log_output = False, rc_path = None,
     rc_force_in_dry_run = False, rc_verbose = True, rc_shell = None, rc_trace = True,
     rc_stream_output = None, rc_asynchronous = False, rc_with_hooks = True,
     rc_strictness = WARN\<rparr>"

text \<open>
  Lines 695-705 and 924-934: the temporary log file, when wanted. \<^verbatim>\<open>mkstemp\<close> makes the
  file; opening it for writing may fail.
\<close>

definition open_cmd_log ::
  "env \<Rightarrow> bool \<Rightarrow> string \<Rightarrow> eb_error \<Rightarrow> world \<Rightarrow> (error + string option) \<times> world" where
  "open_cmd_log E wanted prefix open_error w =
     (if wanted then
        (let fn = path_join (tempdir E) (prefix @ tmp_suffix E (w_tmp_count w) @ ''.log'');
             (ok1, w1) = do_fs E (MkSTemp fn) (w\<lparr>w_tmp_count := Suc (w_tmp_count w)\<rparr>)
         in if \<not> ok1 then (Inl (PyError C_OSError), w1)
            else
              (let (ok2, w2) = do_fs E (WriteFile fn []) w1
               in if ok2 then (Inr (Some fn), w2) else (Inl (EasyBuildError open_error), w2)))
      else (Inr None, w))"

text \<open>Writing to the log file, if there is one.\<close>

definition log_write :: "string option \<Rightarrow> string \<Rightarrow> world \<Rightarrow> world" where
  "log_write cmd_log text w =
     (case cmd_log of None \<Rightarrow> w | Some fn \<Rightarrow> w\<lparr>w_fs := w_fs w @ [AppendFile fn text]\<rparr>)"

definition show_event :: "bool \<Rightarrow> event \<Rightarrow> world \<Rightarrow> world" where
  "show_event wanted ev w = (if wanted then w\<lparr>w_console := w_console w @ [ev]\<rparr> else w)"

text \<open>
  The loop of \<^verbatim>\<open>complete_cmd\<close> (lines 858-867): read, log, stream, collect, poll. The
  result \<^verbatim>\<open>None\<close> stands for a loop that has not ended after the iterations observed.
\<close>

fun read_loop ::
  "bool \<Rightarrow> string option \<Rightarrow> cycle list \<Rightarrow> string \<Rightarrow> world \<Rightarrow> (int \<times> string) option \<times> world" where
  "read_loop stream cmd_log [] stdouterr w = (None, w)"
| "read_loop stream cmd_log (c # cs) stdouterr w =
     (let w1 = show_event stream (Streamed (c_stdout c)) (log_write cmd_log (c_stdout c) w);
          stdouterr' = stdouterr @ c_stdout c
      in case c_poll c of
           None \<Rightarrow> read_loop stream cmd_log cs stdouterr' w1
         | Some ec \<Rightarrow> (Some (ec, stdouterr'), w1))"




text \<open>
  A hook result replaces the command of \<^verbatim>\<open>run_cmd\<close> and \<^verbatim>\<open>run_cmd_qa\<close> when it is a string
  (lines 766 and 1038).
\<close>

fun hooked :: "cmd option \<Rightarrow> cmd \<Rightarrow> cmd" where
  "hooked (Some (CmdStr s)) cmd = CmdStr s"
| "hooked _ cmd = cmd"


section \<open>The function \<^verbatim>\<open>run_cmd_qa\<close>\<close>

text \<open>
  \<^verbatim>\<open>regSplit.split(q)\<close> for the pattern \<^verbatim>\<open>[\s\n]+\<close> (line 981): the pieces between runs of
  white space; \<open>after_space\<close> says that the character before was white space.
\<close>

fun ws_split_from :: "bool \<Rightarrow> string \<Rightarrow> string list" where
  "ws_split_from after_space [] = [[]]"
| "ws_split_from after_space (c # cs) =
     (if py_isspace c
      then (if after_space then ws_split_from True cs else [] # ws_split_from True cs)
      else (case ws_split_from False cs of
              [] \<Rightarrow> [[c]]
            | piece # pieces \<Rightarrow> (c # piece) # pieces))"

definition ws_split :: "string \<Rightarrow> string list" where
  "ws_split q = ws_split_from False q"

text \<open>\<^verbatim>\<open>escape_special\<close> (lines 974-975): a backslash before each of \<^verbatim>\<open>+?()[]*.\$\<close>.\<close>

definition is_special :: "char \<Rightarrow> bool" where
  "is_special c = (c \<in> set ''+?()[]*.$'' \<or> c = CHR 0x5C)"

fun escape_special :: "string \<Rightarrow> string" where
  "escape_special [] = []"
| "escape_special (c # cs) =
     (if is_special c then CHR 0x5C # c # escape_special cs else c # escape_special cs)"

text \<open>The text \<^verbatim>\<open>[\s\n]+\<close> between the pieces of a question.\<close>

definition qa_split :: string where
  "qa_split = [CHR ''['', CHR 0x5C, CHR ''s'', CHR 0x5C, CHR ''n'', CHR '']'', CHR ''+'']"

text \<open>Line 982: the pattern made from a question; it ends with \<^verbatim>\<open>[\s\n]*$\<close>.\<close>

definition question_regexp :: "string \<Rightarrow> string" where
  "question_regexp q = py_join qa_split (map escape_special (ws_split q)) @ qa_suffix"

text \<open>Lines 984-985 and 1017-1018: a newline after every answer that does not end with one.\<close>

definition with_newline :: "string \<Rightarrow> string" where
  "with_newline a = (if a \<noteq> [] \<and> last a = CHR 0x0A then a else a @ ''\<newline>'')"

text \<open>\<^verbatim>\<open>check_answers_list\<close> (lines 992-1002).\<close>

fun check_answers_list :: "answers \<Rightarrow> string list option" where
  "check_answers_list (AnsStr a) = Some [a]"
| "check_answers_list (AnsList xs) = Some xs"
| "check_answers_list AnsOther = None"

text \<open>
  A dictionary with patterns as keys, in the order of insertion: setting the value of a
  key that is there keeps its place.
\<close>

fun dict_set :: "string \<Rightarrow> 'v \<Rightarrow> (string \<times> 'v) list \<Rightarrow> (string \<times> 'v) list" where
  "dict_set k v [] = [(k, v)]"
| "dict_set k v ((k', v') # rest) =
     (if k' = k then (k, v) # rest else (k', v') # dict_set k v rest)"

text \<open>The loop of lines 1006-1010 with \<^verbatim>\<open>process_QA\<close> (lines 980-990).\<close>

fun make_new_qa ::
  "pylib \<Rightarrow> (string \<times> answers) list \<Rightarrow> (string \<times> string list) list
     \<Rightarrow> error + (string \<times> string list) list" where
  "make_new_qa L [] new_qa = Inr new_qa"
| "make_new_qa L ((question, answers) # rest) new_qa =
     (case check_answers_list answers of
        None \<Rightarrow> Inl (EasyBuildError (InvalidAnswerType question))
      | Some a_s \<Rightarrow>
          (let regQtxt = question_regexp question in
           if \<not> re_compile L regQtxt then Inl (PyError C_re_error)
           else if re_search L regQtxt question = None
           then Inl (EasyBuildError (QuestionDoesNotMatchItself question))
           else make_new_qa L rest (dict_set regQtxt (map with_newline a_s) new_qa)))"

text \<open>The loop of lines 1014-1020.\<close>

fun make_new_std_qa ::
  "pylib \<Rightarrow> (string \<times> answers) list \<Rightarrow> (string \<times> string list) list
     \<Rightarrow> error + (string \<times> string list) list" where
  "make_new_std_qa L [] new_std_qa = Inr new_std_qa"
| "make_new_std_qa L ((question, answers) # rest) new_std_qa =
     (if \<not> re_compile L (question @ qa_suffix) then Inl (PyError C_re_error)
      else (case check_answers_list answers of
              None \<Rightarrow> Inl (EasyBuildError (InvalidAnswerType question))
            | Some a_s \<Rightarrow>
                make_new_std_qa L rest (dict_set (question @ qa_suffix) (map with_newline a_s) new_std_qa)))"

text \<open>Line 1025.\<close>

definition make_new_no_qa :: "pylib \<Rightarrow> string list \<Rightarrow> error + string list" where
  "make_new_no_qa L no_qa =
     (if list_all (\<lambda>x. re_compile L (x @ qa_suffix)) no_qa
      then Inr (map (\<lambda>x. x @ qa_suffix) no_qa) else Inl (PyError C_re_error))"

text \<open>\<^verbatim>\<open>res.groupdict()\<close> as the dictionary of a \<^verbatim>\<open>%\<close>: a group without value shows as \<^verbatim>\<open>None\<close>.\<close>

definition str_groups :: "groupdict \<Rightarrow> (string \<times> string) list" where
  "str_groups gd = map (\<lambda>(k, v). (k, case v of None \<Rightarrow> ''None'' | Some s \<Rightarrow> s)) gd"

text \<open>
  The loops of lines 1088-1100 and 1102-1115 over the dictionary \<open>qas\<close>, entered with new
  output (\<^verbatim>\<open>out\<close> is not empty): the first question that matches is answered with the
  first answer of its list, which moves to the back. \<^verbatim>\<open>send_all\<close> of
  \<^verbatim>\<open>easybuild.tools.asyncprocess\<close> raises an \<^verbatim>\<open>Exception\<close> when the other end is gone.
\<close>

fun answer_first ::
  "pylib \<Rightarrow> string \<Rightarrow> (string \<times> string list) list \<Rightarrow> popen
     \<Rightarrow> (error + bool) \<times> (string \<times> string list) list \<times> popen" where
  "answer_first L stdout_err [] proc = (Inr False, [], proc)"
| "answer_first L stdout_err ((question, answers) # rest) proc =
     (case re_search L question stdout_err of
        None \<Rightarrow>
          (let (r, rest', proc') = answer_first L stdout_err rest proc
           in (r, (question, answers) # rest', proc'))
      | Some gd \<Rightarrow>
          (case answers of
             [] \<Rightarrow> (Inl (PyError C_IndexError), (question, answers) # rest, proc)
           | a # others \<Rightarrow>
               (case py_format L a (str_groups gd) of
                  None \<Rightarrow> (Inl (PyError C_KeyError), (question, answers) # rest, proc)
                | Some fa \<Rightarrow>
                    if stdin_ok proc
                    then (Inr True, (question, others @ [a]) # rest,
                          proc\<lparr>stdin_writes := stdin_writes proc @ [fa]\<rparr>)
                    else (Inl (PyError C_Exception), (question, others @ [a]) # rest, proc))))"

text \<open>The variables of the loop of lines 1068-1145.\<close>

record qa_state =
  qs_stdout_err :: string
  qs_old_len_out :: int
  qs_hit_count :: int
  qs_new_qa :: "(string \<times> string list) list"
  qs_new_std_qa :: "(string \<times> string list) list"
  qs_proc :: popen

text \<open>
  Lines 1132-1138: the child is killed: \<^verbatim>\<open>os.killpg\<close>, then \<^verbatim>\<open>os.kill\<close>, both with
  \<^verbatim>\<open>SIGKILL\<close> and in one \<^verbatim>\<open>try\<close>, so that a failure of the first skips the second. A signal
  of a call that succeeds is delivered to the child.
\<close>

definition kill_child :: "script \<Rightarrow> popen \<Rightarrow> world \<Rightarrow> popen \<times> world" where
  "kill_child S proc w =
     (let w1 = w\<lparr>w_os_kills := w_os_kills w @ [''killpg'']\<rparr> in
      if killpg_fails S then (proc, w1)
      else
        (let proc1 = proc\<lparr>signals_sent := signals_sent proc @ [SIGKILL]\<rparr>;
             w2 = w1\<lparr>w_os_kills := w_os_kills w1 @ [''kill'']\<rparr>
         in if kill_fails S then (proc1, w2)
            else (proc1\<lparr>signals_sent := signals_sent proc1 @ [SIGKILL]\<rparr>, w2)))"

text \<open>Lines 1087-1130: the answers and the count of iterations without hit.\<close>

definition qa_cycle ::
  "pylib \<Rightarrow> string list \<Rightarrow> bool \<Rightarrow> qa_state \<Rightarrow> (error + unit) \<times> qa_state" where
  "qa_cycle L new_no_qa new_output st =
     (case (if new_output then answer_first L (qs_stdout_err st) (qs_new_qa st) (qs_proc st)
            else (Inr False, qs_new_qa st, qs_proc st)) of
        (Inl e, qa', proc') \<Rightarrow> (Inl e, st\<lparr>qs_new_qa := qa', qs_proc := proc'\<rparr>)
      | (Inr True, qa', proc') \<Rightarrow> (Inr (), st\<lparr>qs_new_qa := qa', qs_proc := proc', qs_hit_count := 0\<rparr>)
      | (Inr False, qa', proc') \<Rightarrow>
          (case (if new_output
                 then answer_first L (qs_stdout_err st) (qs_new_std_qa st) proc'
                 else (Inr False, qs_new_std_qa st, proc')) of
             (Inl e, std', proc'') \<Rightarrow>
               (Inl e, st\<lparr>qs_new_qa := qa', qs_new_std_qa := std', qs_proc := proc''\<rparr>)
           | (Inr True, std', proc'') \<Rightarrow>
               (Inr (), st\<lparr>qs_new_qa := qa', qs_new_std_qa := std', qs_proc := proc'',
                          qs_hit_count := 0\<rparr>)
           | (Inr False, std', proc'') \<Rightarrow>
               (let st' = st\<lparr>qs_new_qa := qa', qs_new_std_qa := std', qs_proc := proc''\<rparr> in
                if int (length (qs_stdout_err st)) > qs_old_len_out st
                then (Inr (), st'\<lparr>qs_old_len_out := int (length (qs_stdout_err st))\<rparr>)
                else if list_ex (\<lambda>r. re_search L r (qs_stdout_err st) \<noteq> None) new_no_qa
                then (Inr (), st')
                else (Inr (), st'\<lparr>qs_hit_count := qs_hit_count st + 1\<rparr>))))"

text \<open>The loop \<^verbatim>\<open>while ec is None\<close> of lines 1073-1145.\<close>

fun qa_loop ::
  "pylib \<Rightarrow> script \<Rightarrow> string list \<Rightarrow> int \<Rightarrow> string option \<Rightarrow> cycle list \<Rightarrow> qa_state \<Rightarrow> world
     \<Rightarrow> int outcome \<times> qa_state \<times> world" where
  "qa_loop L S new_no_qa maxhits cmd_log [] st w = (NoReturn, st, w)"
| "qa_loop L S new_no_qa maxhits cmd_log (c # cs) st w =
     (let w1 = (if c_read_fails c then w else log_write cmd_log (c_stdout c) w);
          st1 = (if c_read_fails c then st
                 else st\<lparr>qs_stdout_err := qs_stdout_err st @ c_stdout c\<rparr>)
      in case qa_cycle L new_no_qa (\<not> c_read_fails c \<and> c_stdout c \<noteq> []) st1 of
           (Inl e, st2) \<Rightarrow> (Raised e, st2, w1)
         | (Inr u, st2) \<Rightarrow>
             if qs_hit_count st2 > maxhits then
               (let (proc', w2) = kill_child S (qs_proc st2) w1
                in (Raised (EasyBuildError (MaxNoHitsReached (nat maxhits))),
                    st2\<lparr>qs_proc := proc'\<rparr>, w2))
             else
               (case c_poll c of
                  None \<Rightarrow> qa_loop L S new_no_qa maxhits cmd_log cs st2 w1
                | Some ec \<Rightarrow> (Returned ec, st2\<lparr>qs_proc := (qs_proc st2)\<lparr>returncode := Some ec\<rparr>\<rparr>, w1)))"

text \<open>The parameters of \<^verbatim>\<open>run_cmd_qa\<close> (lines 901-902), and \<^verbatim>\<open>strictness\<close> of the module.\<close>

record qa_args =
  qa_qa :: "(string \<times> answers) list"
  qa_no_qa :: "string list option"
  qa_log_ok :: bool
  qa_log_all :: bool
  qa_simple :: bool
  qa_regexp :: regexp_arg
  qa_std_qa :: "(string \<times> answers) list option"
  qa_path :: "string option"
  qa_maxhits :: int
  qa_trace :: bool
  qa_strictness :: action

text \<open>Lines 967-1027: the three collections of patterns.\<close>

definition qa_setup ::
  "pylib \<Rightarrow> qa_args \<Rightarrow> error + (string \<times> string list) list \<times> (string \<times> string list) list \<times> string list" where
  "qa_setup L a =
     (case make_new_qa L (qa_qa a) [] of
        Inl e \<Rightarrow> Inl e
      | Inr new_qa \<Rightarrow>
          (case make_new_std_qa L (case qa_std_qa a of None \<Rightarrow> [] | Some d \<Rightarrow> d) [] of
             Inl e \<Rightarrow> Inl e
           | Inr new_std_qa \<Rightarrow>
               (case make_new_no_qa L (case qa_no_qa a of None \<Rightarrow> [] | Some xs \<Rightarrow> xs) of
                  Inl e \<Rightarrow> Inl e
                | Inr new_no_qa \<Rightarrow> Inr (new_qa, new_std_qa, new_no_qa))))"

text \<open>Lines 1067-1155: the child is run and its questions are answered.\<close>

definition qa_run ::
  "pylib \<Rightarrow> script \<Rightarrow> qa_args \<Rightarrow> string option
     \<Rightarrow> (string \<times> string list) list \<times> (string \<times> string list) list \<times> string list \<Rightarrow> world
     \<Rightarrow> (int \<times> string) outcome \<times> world" where
  "qa_run L S a cmd_log pats w =
     (case pats of (new_qa, new_std_qa, new_no_qa) \<Rightarrow>
        (let st0 = \<lparr>qs_stdout_err = [], qs_old_len_out = - 1, qs_hit_count = 0,
                    qs_new_qa = new_qa, qs_new_std_qa = new_std_qa, qs_proc = child S\<rparr>
         in case (case first_poll S of
                    Some ec \<Rightarrow> (Returned ec, st0\<lparr>qs_proc := (child S)\<lparr>returncode := Some ec\<rparr>\<rparr>, w)
                  | None \<Rightarrow> qa_loop L S new_no_qa (qa_maxhits a) cmd_log (cycles S) st0 w) of
              (Returned ec, st, w1) \<Rightarrow>
                (Returned (ec, qs_stdout_err st @ final_stdout S),
                 (log_write cmd_log (final_stdout S) w1)
                   \<lparr>w_child := Some (qs_proc st), w_dirs := dirs_after S\<rparr>)
            | (Raised e, st, w1) \<Rightarrow> (Raised e, w1\<lparr>w_child := Some (qs_proc st)\<rparr>)
            | (NoReturn, st, w1) \<Rightarrow> (NoReturn, w1\<lparr>w_child := Some (qs_proc st)\<rparr>)))"

text \<open>
  \<^verbatim>\<open>"%s" % cmd\<close>: a string as it is; of a list (of one item at most here) the \<^verbatim>\<open>repr\<close>,
  given for an item without quotes and escapes.
\<close>

fun percent_s :: "cmd \<Rightarrow> string" where
  "percent_s (CmdStr s) = s"
| "percent_s (CmdList []) = ''[]''"
| "percent_s (CmdList (x # xs)) = ''['' @ [CHR 0x27] @ x @ [CHR 0x27] @ '']''"

text \<open>
  \<^verbatim>\<open>run_cmd_qa\<close> (lines 901-1172). A command that is a list of one item at most passes the
  check of line 919; with \<^verbatim>\<open>trace\<close> it has no \<^verbatim>\<open>strip\<close> then (line 942).
\<close>

definition run_cmd_qa ::
  "env \<Rightarrow> pylib \<Rightarrow> script \<Rightarrow> cmd \<Rightarrow> qa_args \<Rightarrow> world \<Rightarrow> cmd_result outcome \<times> world" where
  "run_cmd_qa E L S cmd a w =
     (let cwd = w_cwd w in
      if (case cmd of CmdStr s \<Rightarrow> False | CmdList xs \<Rightarrow> length xs > 1)
      then (Raised (EasyBuildError CommandMustBeString), w)
      else
        (case open_cmd_log E (qa_log_all a \<or> (qa_trace a \<and> opt_trace E))
                ''easybuild-run_cmd_qa-'' FailedToOpenLog w of
           (Inl e, w1) \<Rightarrow> (Raised e, w1)
         | (Inr cmd_log, w1) \<Rightarrow>
             if qa_trace a \<and> \<not> is_str cmd then (Raised (PyError C_AttributeError), w1)
             else
               (let w2 = show_event (qa_trace a) (TraceStarted (to_cmd_str cmd)) w1 in
                if opt_extended_dry_run E then
                  (let p = (case qa_path a of None \<Rightarrow> cwd | Some d \<Rightarrow> d);
                       w3 = w2\<lparr>w_console := w_console w2 @
                              [DryRunMsg (''  running interactive command '' @ [CHR 0x22]
                                            @ percent_s cmd @ [CHR 0x22]) (opt_silent E),
                               DryRunMsg (''  (in '' @ p @ '')'') (opt_silent E)]\<rparr>
                   in (Returned (if qa_simple a then Simple True else OutputEc [] 0), w3))
                else
                  (let w3 = (if str_truthy (qa_path a)
                             then (case qa_path a of
                                     None \<Rightarrow> w2
                                   | Some p \<Rightarrow>
                                       (case chdir p w2 of
                                          Some w' \<Rightarrow> w'
                                        | None \<Rightarrow>
                                            w2\<lparr>w_warnings := w_warnings w2 @ [FailedToChangeTo p]\<rparr>))
                             else w2)
                   in case qa_setup L a of
                        Inl e \<Rightarrow> (Raised e, w3)
                      | Inr pats \<Rightarrow>
                          (let cmd1 = hooked (pre_hook E cmd) cmd;
                               w4 = log_write cmd_log
                                      (''# output for interactive command: '' @ percent_s cmd1
                                         @ ''\<newline>\<newline>'') w3;
                               w5 = w4\<lparr>w_spawned := w_spawned w4 @
                                      [\<lparr>pc_cmd = cmd1, pc_cwd = None, pc_shell = True,
                                        pc_executable = Some ''/bin/bash'', pc_stderr_pipe = False\<rparr>]\<rparr>
                           in if popen_fails S then (Raised (EasyBuildError RunCmdInitFailed), w5)
                              else
                                (case qa_run L S a cmd_log pats w5 of
                                   (Raised e, w6) \<Rightarrow> (Raised e, w6)
                                 | (NoReturn, w6) \<Rightarrow> (NoReturn, w6)
                                 | (Returned (ec, stdout_err), w6) \<Rightarrow>
                                     (let w7 = show_event (qa_trace a) (TraceCompleted ec) w6 in
                                      case chdir cwd w7 of
                                        None \<Rightarrow> (Raised (EasyBuildError (FailedToReturnTo cwd)), w7)
                                      | Some w8 \<Rightarrow>
                                          parse_cmd_output L (qa_strictness a) stdout_err ec
                                            (qa_simple a) (qa_log_all a) (qa_log_ok a)
                                            (qa_regexp a) w8)))))))"

text \<open>A child that never asks a known question, and the arguments of a call that gives up on it.\<close>

definition silent_script :: script where
  "silent_script =
     example_script\<lparr>cycles :=
       [\<lparr>c_timed_out = False, c_read_fails = False, c_stdout = ''What?'', c_stderr = [],
          c_poll = None\<rparr>,
        \<lparr>c_timed_out = False, c_read_fails = False, c_stdout = [], c_stderr = [],
          c_poll = None\<rparr>,
        \<lparr>c_timed_out = False, c_read_fails = False, c_stdout = [], c_stderr = [],
          c_poll = None\<rparr>]\<rparr>"

definition example_qa_args :: qa_args where
  "example_qa_args =
     \<lparr>qa_qa = [(''name:'', AnsStr ''a'')], qa_no_qa = None, qa_log_ok = True, qa_log_all = False,
      qa_simple = False, qa_regexp = RegexpBool True, qa_std_qa = None, qa_path = None,
      qa_maxhits = 1, qa_trace = False, qa_strictness = WARN\<rparr>"

section \<open>Examples: commands run in another directory\<close>

text \<open>A child that prints \<^verbatim>\<open>ok\<close> and exits with code 0 when it is polled after the first read.\<close>

definition finishing_script :: script where
  "finishing_script =
     example_script\<lparr>cycles :=
       [\<lparr>c_timed_out = False, c_read_fails = False, c_stdout = ''ok'', c_stderr = [],
          c_poll = Some 0\<rparr>]\<rparr>"

text \<open>The same child, which also removes the directory \<^verbatim>\<open>/home/user\<close>.\<close>

definition removing_script :: script where
  "removing_script = finishing_script\<lparr>dirs_after := {''/tmp''}\<rparr>"

text \<open>Calls that run the command in \<^verbatim>\<open>/tmp\<close> and do not look for errors in its output.\<close>

definition tmp_rc_args :: rc_args where
  "tmp_rc_args = default_rc_args\<lparr>rc_path := Some ''/tmp'', rc_regexp := RegexpBool False\<rparr>"

definition tmp_qa_args :: qa_args where
  "tmp_qa_args = example_qa_args\<lparr>qa_path := Some ''/tmp'', qa_regexp := RegexpBool False\<rparr>"

section \<open>Examples: an interactive command whose question is not known\<close>

text \<open>
  A call of \<^verbatim>\<open>run_shell_cmd\<close> that knows the question \<^verbatim>\<open>name:\<close> only and gives up at once
  (\<^verbatim>\<open>qa_timeout\<close> is 0).
\<close>

definition stall_args :: rsc_args where
  "stall_args = default_args\<lparr>qa_patterns := QAList [(name_pattern, AnsStr ''a'')],
     qa_timeout := 0, output_file := False\<rparr>"

section \<open>Questions that are asked again\<close>






section \<open>Escalating termination\<close>

text \<open>
  Whatever the child does, \<^verbatim>\<open>terminate_process\<close> calls \<^verbatim>\<open>terminate\<close>, \<^verbatim>\<open>wait\<close>,
  \<^verbatim>\<open>kill\<close> and \<^verbatim>\<open>wait\<close> in this order: the call of \<^verbatim>\<open>kill\<close> stands after the
  \<^verbatim>\<open>try\<close> statement, not in its \<^verbatim>\<open>except\<close> branch. For a child that was reaped by
  the first \<^verbatim>\<open>wait\<close> that call delivers no signal and the second \<^verbatim>\<open>wait\<close> returns
  at once.
\<close>

lemma terminate_process_calls:
  "method_calls (snd (snd (terminate_process proc))) =
     method_calls proc @ [''terminate'', ''wait'', ''kill'', ''wait'']"
  by (auto simp: terminate_process_def popen_terminate_def popen_kill_def popen_wait_def
      popen_send_signal_def Let_def split: option.splits)

text \<open>
  C2. For a child that is running when \<^verbatim>\<open>terminate_process\<close> is called, \<^verbatim>\<open>SIGTERM\<close> is
  delivered first and the child is waited for. \<^verbatim>\<open>SIGKILL\<close> is delivered exactly when the
  child did not exit during that wait. The fatal error (the process could not be reaped)
  is raised exactly when it did not exit during the second wait either; otherwise the
  function returns normally.
\<close>

theorem terminate_process_escalating:
  assumes "returncode proc = None"
  shows "signals_sent (snd (snd (terminate_process proc))) =
           signals_sent proc @
             (if exits_in_wait proc (signals_sent proc @ [SIGTERM]) = None
              then [SIGTERM, SIGKILL] else [SIGTERM])
       \<and> fst (terminate_process proc) =
           (if exits_in_wait proc (signals_sent proc @ [SIGTERM]) = None
               \<and> exits_in_wait proc (signals_sent proc @ [SIGTERM, SIGKILL]) = None
            then Inl (EasyBuildError ProcessNotReaped) else Inr ())"
  using assms
  by (auto simp: terminate_process_def popen_terminate_def popen_kill_def popen_wait_def
      popen_send_signal_def Let_def split: option.splits)

theorem terminate_process_escalating_witness:
  "returncode example_proc = None
   \<and> signals_sent (snd (snd (terminate_process example_proc))) = [SIGTERM, SIGKILL]
   \<and> fst (terminate_process example_proc) = Inr ()"
  using terminate_process_escalating [of example_proc]
  by (simp add: example_proc_def)

section \<open>Matching questions and wait patterns\<close>

lemma try_questions_none:
  "no_question_matches L stdout qa \<Longrightarrow> try_questions L stdout qa proc = (Inr False, qa, proc)"
  by (induction qa) (auto simp: no_question_matches_def)

lemma try_questions_first:
  "no_question_matches L stdout pre \<Longrightarrow> re_compile L (q @ qa_suffix) \<Longrightarrow>
   re_search L (q @ qa_suffix) stdout = Some gd \<Longrightarrow>
   try_questions L stdout (pre @ (q, ans) # post) proc =
     (case reply L (q @ qa_suffix) ans gd proc of
        (r, ans', proc') \<Rightarrow> (r, pre @ (q, ans') # post, proc'))"
  by (induction pre) (auto simp: no_question_matches_def split: prod.splits)

lemma send_answer_not_False: "fst (send_answer L a gd proc) \<noteq> Inr False"
  by (auto simp: send_answer_def Let_def split: option.splits)

lemma reply_not_False: "fst (reply L q ans gd proc) \<noteq> Inr False"
proof (cases ans)
  case (AnsStr a)
  then show ?thesis
    using send_answer_not_False [of L a gd proc]
    by (auto simp: reply_def split: prod.splits)
next
  case (AnsList xs)
  show ?thesis
  proof (cases xs)
    case Nil
    then show ?thesis using AnsList by (simp add: reply_def)
  next
    case (Cons a rest)
    then show ?thesis
      using AnsList send_answer_not_False [of L a gd proc]
      by (auto simp: reply_def split: prod.splits)
  qed
next
  case AnsOther
  then show ?thesis by (simp add: reply_def)
qed

lemma answer_question_first:
  assumes "no_question_matches L stdout pre" "re_compile L (q @ qa_suffix)"
    "re_search L (q @ qa_suffix) stdout = Some gd"
  shows "answer_question L stdout proc (pre @ (q, ans) # post) waits =
        (case reply L (q @ qa_suffix) ans gd proc of
           (r, ans', proc') \<Rightarrow> (r, pre @ (q, ans') # post, proc'))"
proof -
  obtain r ans' proc' where rp: "reply L (q @ qa_suffix) ans gd proc = (r, ans', proc')"
    by (cases "reply L (q @ qa_suffix) ans gd proc") auto
  have "r \<noteq> Inr False" using reply_not_False [of L "q @ qa_suffix" ans gd proc] rp by simp
  then show ?thesis
    using assms rp
    by (auto simp: answer_question_def try_questions_first split: sum.splits bool.splits)
qed

lemma answer_question_none:
  "no_question_matches L stdout qa \<Longrightarrow>
   answer_question L stdout proc qa waits = (try_wait_patterns L stdout waits, qa, proc)"
  by (simp add: answer_question_def try_questions_none)

lemma send_answer_cong:
  "py_format L' = py_format L \<Longrightarrow> send_answer L' a gd proc = send_answer L a gd proc"
  by (auto simp: send_answer_def split: option.splits)

lemma reply_cong:
  "py_format L' = py_format L \<Longrightarrow> reply L' q ans gd proc = reply L q ans gd proc"
  using send_answer_cong [of L' L]
  by (cases ans) (auto simp: reply_def split: list.splits)

lemma try_questions_cong:
  "(\<And>p. re_compile L' (p @ qa_suffix) = re_compile L (p @ qa_suffix)) \<Longrightarrow>
   (\<And>p s. re_search L' (p @ qa_suffix) s = re_search L (p @ qa_suffix) s) \<Longrightarrow>
   py_format L' = py_format L \<Longrightarrow>
   try_questions L' stdout qa proc = try_questions L stdout qa proc"
proof (induction qa arbitrary: proc)
  case Nil
  then show ?case by simp
next
  case (Cons x qa)
  obtain q a where x: "x = (q, a)" by (cases x)
  show ?case
    using Cons by (cases "re_search L (q @ qa_suffix) stdout") (simp_all add: x reply_cong [of L' L])
qed

lemma try_wait_cong:
  "(\<And>p. re_compile L' (p @ qa_suffix) = re_compile L (p @ qa_suffix)) \<Longrightarrow>
   (\<And>p s. re_search L' (p @ qa_suffix) s = re_search L (p @ qa_suffix) s) \<Longrightarrow>
   try_wait_patterns L' stdout ws = try_wait_patterns L stdout ws"
  by (induction ws) (auto split: option.splits)

lemma answer_question_cong:
  assumes "\<forall>p. re_compile L' (p @ qa_suffix) = re_compile L (p @ qa_suffix)"
    and "\<forall>p s. re_search L' (p @ qa_suffix) s = re_search L (p @ qa_suffix) s"
    and "py_format L' = py_format L"
  shows "answer_question L' stdout proc qa waits = answer_question L stdout proc qa waits"
proof -
  from assms have 1: "try_questions L' stdout qa proc = try_questions L stdout qa proc"
    and 2: "try_wait_patterns L' stdout waits = try_wait_patterns L stdout waits"
    by (simp_all add: try_questions_cong [of L' L] try_wait_cong [of L' L])
  show ?thesis unfolding answer_question_def 1 2 ..
qed

text \<open>What one reply writes: nothing, or one line.\<close>

lemma send_answer_writes:
  "stdin_writes (snd (send_answer L a gd proc)) = stdin_writes proc
   \<or> (\<exists>f. stdin_writes (snd (send_answer L a gd proc)) = stdin_writes proc @ [f @ ''\<newline>''])"
  by (auto simp: send_answer_def Let_def split: option.splits)

lemma reply_writes:
  "stdin_writes (snd (snd (reply L q ans gd proc))) = stdin_writes proc
   \<or> (\<exists>f. stdin_writes (snd (snd (reply L q ans gd proc))) = stdin_writes proc @ [f @ ''\<newline>''])"
proof (cases ans)
  case (AnsStr a)
  then show ?thesis
    using send_answer_writes [of L a gd proc]
    by (auto simp: reply_def split: prod.splits)
next
  case (AnsList xs)
  show ?thesis
  proof (cases xs)
    case Nil
    then show ?thesis using AnsList by (simp add: reply_def)
  next
    case (Cons a rest)
    then show ?thesis
      using AnsList send_answer_writes [of L a gd proc]
      by (auto simp: reply_def split: prod.splits)
  qed
next
  case AnsOther
  then show ?thesis by (simp add: reply_def)
qed

text \<open>What the loop over the wait patterns returns.\<close>

lemma try_wait_patterns_eq:
  "list_all (\<lambda>p. re_compile L (p @ qa_suffix)) waits \<Longrightarrow>
   try_wait_patterns L stdout waits =
     Inr (list_ex (\<lambda>p. re_search L (p @ qa_suffix) stdout \<noteq> None) waits)"
  by (induction waits) (auto split: option.splits)

lemma try_wait_patterns_bad:
  "list_all (\<lambda>p. re_compile L (p @ qa_suffix) \<and> re_search L (p @ qa_suffix) stdout = None) pre \<Longrightarrow>
   \<not> re_compile L (p @ qa_suffix) \<Longrightarrow>
   try_wait_patterns L stdout (pre @ p # post) = Inl (PyError C_re_error)"
  by (induction pre) auto

lemma answer_question_waits:
  assumes "no_question_matches L stdout qa" "list_all (\<lambda>p. re_compile L (p @ qa_suffix)) waits"
  shows "answer_question L stdout proc qa waits =
     (Inr (list_ex (\<lambda>p. re_search L (p @ qa_suffix) stdout \<noteq> None) waits), qa, proc)"
  using answer_question_none [OF assms(1)] try_wait_patterns_eq [OF assms(2)] by simp

lemma answer_question_bad_wait:
  assumes "no_question_matches L stdout qa"
    "list_all (\<lambda>p. re_compile L (p @ qa_suffix) \<and> re_search L (p @ qa_suffix) stdout = None) pre"
    "\<not> re_compile L (p @ qa_suffix)"
  shows "answer_question L stdout proc qa (pre @ p # post) =
     (Inl (PyError C_re_error), qa, proc)"
  using answer_question_none [OF assms(1)] try_wait_patterns_bad [OF assms(2,3)] by simp

text \<open>
  C7. In one call of \<^verbatim>\<open>_answer_question\<close>:
  \<^item> when a question pattern matches (the patterns before it compile and do not match),
    the first such pattern in the order of the list
    decides: the call is the reply to that question, whatever the later questions and
    the wait patterns are, and at most one answer is written;
  \<^item> the wait patterns are looked at only when no question pattern matches, and then
    nothing is written: the call says that there is a match exactly when one of the
    wait patterns, with \<^verbatim>\<open>[\s\n]*$\<close> added to it, is found in the output (a wait pattern
    that does not compile is an error, unless a wait pattern before it matches);
  \<^item> every pattern is given to the regular-expression engine with \<^verbatim>\<open>[\s\n]*$\<close> added:
    two engines that agree on such patterns give the same result.
\<close>

theorem answer_question_order:
  "(no_question_matches L stdout pre \<and> re_compile L (q @ qa_suffix)
      \<and> re_search L (q @ qa_suffix) stdout = Some gd \<longrightarrow>
      answer_question L stdout proc (pre @ (q, ans) # post) waits =
        (case reply L (q @ qa_suffix) ans gd proc of
           (r, ans', proc') \<Rightarrow> (r, pre @ (q, ans') # post, proc'))
      \<and> (stdin_writes (snd (snd (reply L (q @ qa_suffix) ans gd proc))) = stdin_writes proc
          \<or> (\<exists>f. stdin_writes (snd (snd (reply L (q @ qa_suffix) ans gd proc)))
                   = stdin_writes proc @ [f @ ''\<newline>''])))
   \<and> (no_question_matches L stdout qa \<longrightarrow>
      answer_question L stdout proc qa waits = (try_wait_patterns L stdout waits, qa, proc))
   \<and> (no_question_matches L stdout qa \<and> list_all (\<lambda>p. re_compile L (p @ qa_suffix)) waits \<longrightarrow>
      answer_question L stdout proc qa waits =
        (Inr (list_ex (\<lambda>p. re_search L (p @ qa_suffix) stdout \<noteq> None) waits), qa, proc))
   \<and> (no_question_matches L stdout qa
        \<and> list_all (\<lambda>p. re_compile L (p @ qa_suffix) \<and> re_search L (p @ qa_suffix) stdout = None)
             wpre
        \<and> \<not> re_compile L (wp @ qa_suffix) \<longrightarrow>
      answer_question L stdout proc qa (wpre @ wp # wpost) = (Inl (PyError C_re_error), qa, proc))
   \<and> ((\<forall>p. re_compile L' (p @ qa_suffix) = re_compile L (p @ qa_suffix))
        \<and> (\<forall>p s. re_search L' (p @ qa_suffix) s = re_search L (p @ qa_suffix) s)
        \<and> py_format L' = py_format L \<longrightarrow>
      answer_question L' stdout proc qa waits = answer_question L stdout proc qa waits)"
  using answer_question_first [of L stdout pre q gd proc ans post waits]
    reply_writes [of L "q @ qa_suffix" ans gd proc]
    answer_question_none [of L stdout qa proc waits]
    answer_question_waits [of L stdout qa waits proc]
    answer_question_bad_wait [of L stdout qa wpre wp proc wpost]
    answer_question_cong [of L' L stdout proc qa waits]
  by blast

lemma ends_with_append: "ends_with (p @ t) t"
  by (simp add: ends_with_def)

lemma ex_name_no_match: "literal_search (name_pattern @ qa_suffix) ''Continue? [y/n]'' = None"
  by code_simp

lemma ex_name_compiles: "literal_compile (name_pattern @ qa_suffix)"
  by code_simp

lemma ex_continue_compiles: "literal_compile (continue_pattern @ qa_suffix)"
  by code_simp

lemma ex_continue_match:
  "literal_search (continue_pattern @ qa_suffix) ''Continue? [y/n]'' = Some []"
  by code_simp

lemma ex_name_space: "literal_search (name_pattern @ qa_suffix) ''name: \<newline>'' = Some []"
  by code_simp

lemma ex_name_not_last: "literal_search (name_pattern @ qa_suffix) ''name: Bob'' = None"
  by code_simp

lemma ex_continue_not_last:
  "literal_search (continue_pattern @ qa_suffix) ''name: Bob'' = None"
  by code_simp

lemma ex_bad_compiles: "\<not> literal_compile (''a('' @ qa_suffix)"
  by code_simp

text \<open>
  The example: on the output \<^verbatim>\<open>Continue? [y/n]\<close> the question \<^verbatim>\<open>name:\<close> does not match
  and the first of two questions that match is answered, with \<^verbatim>\<open>y\<close>. With the question
  \<^verbatim>\<open>name:\<close> alone, the wait patterns decide: there is a match when \<^verbatim>\<open>Continue\? \[y/n\]\<close>
  is among them, after a wait pattern without match too, and none with the wait pattern
  \<^verbatim>\<open>name:\<close> alone. The question \<^verbatim>\<open>name:\<close> matches an output that ends with \<^verbatim>\<open>name:\<close> and
  white space, and not one in which other text follows.
\<close>

theorem answer_question_order_witness:
  "no_question_matches example_lib ''Continue? [y/n]'' [(name_pattern, AnsStr ''x'')]
   \<and> re_compile example_lib (continue_pattern @ qa_suffix)
   \<and> re_search example_lib (continue_pattern @ qa_suffix) ''Continue? [y/n]'' = Some []
   \<and> answer_question example_lib ''Continue? [y/n]'' example_proc
        [(name_pattern, AnsStr ''x''), (continue_pattern, AnsStr ''y''), (continue_pattern, AnsStr ''n'')]
        [continue_pattern]
      = (Inr True,
         [(name_pattern, AnsStr ''x''), (continue_pattern, AnsStr ''y''), (continue_pattern, AnsStr ''n'')],
         example_proc\<lparr>stdin_writes := [''y\<newline>'']\<rparr>)
   \<and> answer_question example_lib ''Continue? [y/n]'' example_proc [(name_pattern, AnsStr ''x'')]
        [continue_pattern]
      = (Inr True, [(name_pattern, AnsStr ''x'')], example_proc)
   \<and> answer_question example_lib ''Continue? [y/n]'' example_proc [(name_pattern, AnsStr ''x'')]
        [name_pattern, continue_pattern]
      = (Inr True, [(name_pattern, AnsStr ''x'')], example_proc)
   \<and> answer_question example_lib ''Continue? [y/n]'' example_proc [(name_pattern, AnsStr ''x'')]
        [name_pattern]
      = (Inr False, [(name_pattern, AnsStr ''x'')], example_proc)
   \<and> answer_question example_lib ''Continue? [y/n]'' example_proc [(name_pattern, AnsStr ''x'')]
        [name_pattern, ''a('', continue_pattern]
      = (Inl (PyError C_re_error), [(name_pattern, AnsStr ''x'')], example_proc)
   \<and> answer_question example_lib ''name: \<newline>'' example_proc [(name_pattern, AnsStr ''x'')] []
      = (Inr True, [(name_pattern, AnsStr ''x'')], example_proc\<lparr>stdin_writes := [''x\<newline>'']\<rparr>)
   \<and> answer_question example_lib ''name: Bob'' example_proc [(name_pattern, AnsStr ''x'')]
        [continue_pattern]
      = (Inr False, [(name_pattern, AnsStr ''x'')], example_proc)
   \<and> answer_question
        (example_lib\<lparr>re_search :=
           (\<lambda>p s. if ends_with p qa_suffix then literal_search p s else None)\<rparr>)
        ''Continue? [y/n]'' example_proc [(name_pattern, AnsStr ''x'')] [continue_pattern]
      = answer_question example_lib ''Continue? [y/n]'' example_proc [(name_pattern, AnsStr ''x'')]
          [continue_pattern]"
proof -
  let ?out = "''Continue? [y/n]''"
  let ?L' = "example_lib\<lparr>re_search :=
           (\<lambda>p s. if ends_with p qa_suffix then literal_search p s else None)\<rparr>"
  let ?qa = "[(name_pattern, AnsStr ''x'')]"
  have h1: "no_question_matches example_lib ?out ?qa"
    by (simp add: no_question_matches_def example_lib_def ex_name_no_match ex_name_compiles)
  have h1b: "no_question_matches example_lib ''name: Bob'' ?qa"
    by (simp add: no_question_matches_def example_lib_def ex_name_not_last ex_name_compiles)
  have h0: "no_question_matches example_lib ''name: \<newline>'' []"
    by (simp add: no_question_matches_def)
  have h2c: "re_compile example_lib (continue_pattern @ qa_suffix)"
    by (simp add: example_lib_def ex_continue_compiles)
  have h2n: "re_compile example_lib (name_pattern @ qa_suffix)"
    by (simp add: example_lib_def ex_name_compiles)
  have h2: "re_search example_lib (continue_pattern @ qa_suffix) ?out = Some []"
    by (simp add: example_lib_def ex_continue_match)
  have h2s: "re_search example_lib (name_pattern @ qa_suffix) ''name: \<newline>'' = Some []"
    by (simp add: example_lib_def ex_name_space)
  have h3: "(\<forall>p. re_compile ?L' (p @ qa_suffix) = re_compile example_lib (p @ qa_suffix))
     \<and> (\<forall>p s. re_search ?L' (p @ qa_suffix) s = re_search example_lib (p @ qa_suffix) s)
     \<and> py_format ?L' = py_format example_lib"
    by (simp add: example_lib_def ends_with_append)
  have r: "reply example_lib (continue_pattern @ qa_suffix) (AnsStr ''y'') [] example_proc
      = (Inr True, AnsStr ''y'', example_proc\<lparr>stdin_writes := [''y\<newline>'']\<rparr>)"
    by (simp add: reply_def send_answer_def example_lib_def plain_format_def example_proc_def)
  have rx: "reply example_lib (name_pattern @ qa_suffix) (AnsStr ''x'') [] example_proc
      = (Inr True, AnsStr ''x'', example_proc\<lparr>stdin_writes := [''x\<newline>'']\<rparr>)"
    by (simp add: reply_def send_answer_def example_lib_def plain_format_def example_proc_def)
  have w: "try_wait_patterns example_lib ?out [continue_pattern] = Inr True"
    by (simp add: example_lib_def ex_continue_match ex_continue_compiles)
  have c1: "list_all (\<lambda>p. re_compile example_lib (p @ qa_suffix)) [name_pattern, continue_pattern]"
    and c2: "list_all (\<lambda>p. re_compile example_lib (p @ qa_suffix)) [name_pattern]"
    and c3: "list_all (\<lambda>p. re_compile example_lib (p @ qa_suffix)) [continue_pattern]"
    using h2c h2n by simp_all
  have c4: "list_all (\<lambda>p. re_compile example_lib (p @ qa_suffix)
       \<and> re_search example_lib (p @ qa_suffix) ?out = None) [name_pattern]"
    using h2n by (simp add: example_lib_def ex_name_no_match)
  have c5: "\<not> re_compile example_lib (''a('' @ qa_suffix)"
    using ex_bad_compiles by (simp add: example_lib_def)
  have s1: "re_search example_lib (name_pattern @ qa_suffix) ?out = None"
    by (simp add: example_lib_def ex_name_no_match)
  have s2: "re_search example_lib (continue_pattern @ qa_suffix) ''name: Bob'' = None"
    by (simp add: example_lib_def ex_continue_not_last)
  note t = answer_question_order [where L = example_lib and stdout = ?out
      and pre = ?qa and q = continue_pattern and gd = "[]"
      and proc = example_proc and ans = "AnsStr ''y''"
      and post = "[(continue_pattern, AnsStr ''n'')]" and waits = "[continue_pattern]"
      and qa = ?qa and L' = ?L' and wpre = "[name_pattern]" and wp = "''a(''"
      and wpost = "[continue_pattern]"]
  note t2 = answer_question_order [where L = example_lib and stdout = ?out
      and pre = ?qa and q = continue_pattern and gd = "[]"
      and proc = example_proc and ans = "AnsStr ''y''"
      and post = "[]" and waits = "[name_pattern, continue_pattern]"
      and qa = ?qa and L' = example_lib and wpre = "[]" and wp = "''a(''" and wpost = "[]"]
  note t3 = answer_question_order [where L = example_lib and stdout = ?out
      and pre = ?qa and q = continue_pattern and gd = "[]"
      and proc = example_proc and ans = "AnsStr ''y''"
      and post = "[]" and waits = "[name_pattern]"
      and qa = ?qa and L' = example_lib and wpre = "[]" and wp = "''a(''" and wpost = "[]"]
  note t4 = answer_question_order [where L = example_lib and stdout = "''name: \<newline>''"
      and pre = "[]" and q = name_pattern and gd = "[]"
      and proc = example_proc and ans = "AnsStr ''x''"
      and post = "[]" and waits = "[]"
      and qa = "[]" and L' = example_lib and wpre = "[]" and wp = "''a(''" and wpost = "[]"]
  note t5 = answer_question_order [where L = example_lib and stdout = "''name: Bob''"
      and pre = "[]" and q = name_pattern and gd = "[]"
      and proc = example_proc and ans = "AnsStr ''x''"
      and post = "[]" and waits = "[continue_pattern]"
      and qa = ?qa and L' = example_lib and wpre = "[]" and wp = "''a(''" and wpost = "[]"]
  have a1: "answer_question example_lib ?out example_proc
        [(name_pattern, AnsStr ''x''), (continue_pattern, AnsStr ''y''), (continue_pattern, AnsStr ''n'')]
        [continue_pattern]
      = (Inr True,
         [(name_pattern, AnsStr ''x''), (continue_pattern, AnsStr ''y''), (continue_pattern, AnsStr ''n'')],
         example_proc\<lparr>stdin_writes := [''y\<newline>'']\<rparr>)"
    using t h1 h2c h2 r by simp
  have a2: "answer_question example_lib ?out example_proc ?qa [continue_pattern]
      = (Inr True, ?qa, example_proc)"
    using t h1 w by simp
  have a3: "answer_question example_lib ?out example_proc ?qa [name_pattern, continue_pattern]
      = (Inr True, ?qa, example_proc)"
  proof -
    from t2 h1 c1 have "answer_question example_lib ?out example_proc ?qa
        [name_pattern, continue_pattern] =
      (Inr (list_ex (\<lambda>p. re_search example_lib (p @ qa_suffix) ?out \<noteq> None)
              [name_pattern, continue_pattern]), ?qa, example_proc)"
      by blast
    then show ?thesis using h2 by simp
  qed
  have a4: "answer_question example_lib ?out example_proc ?qa [name_pattern]
      = (Inr False, ?qa, example_proc)"
  proof -
    from t3 h1 c2 have "answer_question example_lib ?out example_proc ?qa [name_pattern] =
      (Inr (list_ex (\<lambda>p. re_search example_lib (p @ qa_suffix) ?out \<noteq> None)
              [name_pattern]), ?qa, example_proc)"
      by blast
    then show ?thesis using s1 by simp
  qed
  have a5: "answer_question example_lib ?out example_proc ?qa [name_pattern, ''a('', continue_pattern]
      = (Inl (PyError C_re_error), ?qa, example_proc)"
  proof -
    from t h1 c4 c5 have "answer_question example_lib ?out example_proc ?qa
        ([name_pattern] @ ''a('' # [continue_pattern]) =
      (Inl (PyError C_re_error), ?qa, example_proc)"
      by blast
    then show ?thesis by simp
  qed
  have a6: "answer_question example_lib ''name: \<newline>'' example_proc ?qa []
      = (Inr True, ?qa, example_proc\<lparr>stdin_writes := [''x\<newline>'']\<rparr>)"
    using t4 h0 h2n h2s rx by simp
  have a7: "answer_question example_lib ''name: Bob'' example_proc ?qa [continue_pattern]
      = (Inr False, ?qa, example_proc)"
  proof -
    from t5 h1b c3 have "answer_question example_lib ''name: Bob'' example_proc ?qa
        [continue_pattern] =
      (Inr (list_ex (\<lambda>p. re_search example_lib (p @ qa_suffix) ''name: Bob'' \<noteq> None)
              [continue_pattern]), ?qa, example_proc)"
      by blast
    then show ?thesis using s2 by simp
  qed
  have a8: "answer_question ?L' ?out example_proc ?qa [continue_pattern]
      = answer_question example_lib ?out example_proc ?qa [continue_pattern]"
    using t h3 by blast
  from h1 h2c h2 a1 a2 a3 a4 a5 a6 a7 a8 show ?thesis by blast
qed

section \<open>Rotating answer lists\<close>







section \<open>The newline after an answer\<close>

text \<open>Whatever the completed answer is, the line written is that answer and a newline.\<close>

lemma send_answer_appends_newline:
  assumes "decode_groups gd = Some d" "py_format L a d = Some f" "stdin_ok proc"
  shows "send_answer L a gd proc = (Inr True, proc\<lparr>stdin_writes := stdin_writes proc @ [f @ ''\<newline>'']\<rparr>)"
  using assms by (simp add: send_answer_def)

text \<open>
  C6, at the input at which the code departs from it: the answer \<^verbatim>\<open>"y\n"\<close> to the
  question \<^verbatim>\<open>Continue\? \[y/n\]\<close> ends with a newline already, and \<^verbatim>\<open>_answer_question\<close>
  writes \<^verbatim>\<open>"y\n\n"\<close>.
\<close>

theorem answer_question_doubles_newline:
  "answer_question example_lib ''Continue? [y/n]'' example_proc
     [(continue_pattern, AnsStr ''y\<newline>'')] []
   = (Inr True, [(continue_pattern, AnsStr ''y\<newline>'')],
      example_proc\<lparr>stdin_writes := [''y\<newline>\<newline>'']\<rparr>)"
  by (simp add: answer_question_def example_lib_def ex_continue_match ex_continue_compiles
      reply_def send_answer_def plain_format_def example_proc_def)

section \<open>Scanning output for errors: properties\<close>

lemma first_action_first:
  "none_matches L pre line \<Longrightarrow> re_search L reg_exp line = Some m \<Longrightarrow>
   first_action L (pre @ (reg_exp, act) # post) line = Some act"
  by (induction pre) (auto simp: none_matches_def)

lemma first_action_none:
  "none_matches L ts line \<Longrightarrow> first_action L ts line = None"
  by (induction ts) (auto simp: none_matches_def)

lemma scan_lines_filter:
  "scan_lines L ts lines (ws, es) =
     (ws @ filter (\<lambda>l. first_action L ts l = Some WARN) lines,
      es @ filter (\<lambda>l. first_action L ts l = Some ERROR) lines)"
proof (induction lines arbitrary: ws es)
  case Nil
  then show ?case by simp
next
  case (Cons line lines)
  show ?case
  proof (cases "first_action L ts line")
    case None
    then show ?thesis using Cons by simp
  next
    case (Some act)
    then show ?thesis using Cons by (cases act) simp_all
  qed
qed

lemma nub_set: "set (nub xs) = set xs"
  by (induction xs rule: nub.induct) auto

lemma nub_distinct: "distinct (nub xs)"
  by (induction xs rule: nub.induct) (auto simp: nub_set)

lemma nub_snoc: "nub (xs @ [x]) = (if x \<in> set xs then nub xs else nub xs @ [x])"
proof (induction xs rule: nub.induct)
  case 1
  then show ?case by simp
next
  case (2 y ys)
  have f: "filter (\<lambda>z. z \<noteq> y) (ys @ [x]) =
      (if x = y then filter (\<lambda>z. z \<noteq> y) ys else filter (\<lambda>z. z \<noteq> y) ys @ [x])"
    by simp
  show ?case
  proof (cases "x = y")
    case True
    then show ?thesis by simp
  next
    case False
    then show ?thesis using 2 f by auto
  qed
qed

lemma extract_errors_from_log_eq:
  assumes "re_tuples L (reg_exp_items reg_exps) = Inr ts"
  shows "extract_errors_from_log L log_txt reg_exps =
     Inr (nub (lines_with L ts WARN log_txt), nub (lines_with L ts ERROR log_txt))"
  using assms by (simp add: extract_errors_from_log_def scan_lines_filter lines_with_def)

lemma check_log_for_errors_eq:
  assumes "re_tuples L (reg_exp_items reg_exps) = Inr ts"
  shows "check_log_for_errors L log_txt reg_exps n =
     ((if nub (lines_with L ts ERROR log_txt) = [] then Inr ()
       else Inl (EasyBuildError (FoundErrorsInCommandOutput
                   (length (nub (lines_with L ts ERROR log_txt)))
                   (nub (lines_with L ts ERROR log_txt))))),
      n + (length (nub (lines_with L ts WARN log_txt)) + length (nub (lines_with L ts ERROR log_txt))),
      (if nub (lines_with L ts WARN log_txt) = [] then None
       else Some (nub (lines_with L ts WARN log_txt))))"
  by (simp add: check_log_for_errors_def extract_errors_from_log_eq [OF assms])

lemma re_tuples_iff:
  "re_tuples L items = Inr ts \<longleftrightarrow>
     list_all2 (\<lambda>item (reg_exp, act). re_compile L reg_exp \<and> act \<noteq> NoAction
                  \<and> (item = ItemStr reg_exp \<and> act = ERROR \<or> item = ItemTuple reg_exp act))
       items ts"
proof (induction items arbitrary: ts)
  case Nil
  then show ?case by auto
next
  case (Cons item items)
  show ?case
  proof (cases ts)
    case Nil
    then show ?thesis by (auto split: option.splits sum.splits)
  next
    case ts: (Cons t ts')
    obtain reg_exp act where t: "t = (reg_exp, act)" by (cases t)
    show ?thesis
      using Cons.IH [of ts']
      by (cases item) (auto simp: ts t split: option.splits sum.splits)
  qed
qed

lemma re_tuples_raises:
  "(\<exists>ts. re_tuples L items = Inr ts) \<or> re_tuples L items = Inl (EasyBuildError InvalidRegexpInput)"
  by (induction items) (auto split: option.splits sum.splits)

text \<open>
  C8. The rules are accepted exactly when every item is a pattern that compiles, alone
  (its action is then \<^verbatim>\<open>ERROR\<close>) or in a pair with one of the three actions; \<open>ts\<close> are
  then these patterns with their actions, one for each item and in the order given
  (a single string counts as a list of one item); otherwise the call raises. With rules
  that are accepted:
  \<^item> the action of a line is that of the first pattern that matches it, whatever the
    patterns after it are;
  \<^item> \<^verbatim>\<open>extract_errors_from_log\<close> returns the lines with action \<^verbatim>\<open>WARN\<close> and the lines
    with action \<^verbatim>\<open>ERROR\<close>, each list passed through \<^verbatim>\<open>nub\<close>;
  \<^item> \<^verbatim>\<open>check_log_for_errors\<close> logs the warnings when there are any, and it raises
    exactly when there is a line with action \<^verbatim>\<open>ERROR\<close>, with all those lines in the
    error; with warnings only it returns normally;
  \<^item> \<^verbatim>\<open>nub\<close> keeps the first occurrence of every element, in the order of the list.
\<close>

theorem first_rule_decides_line:
  "(re_tuples L (reg_exp_items reg_exps) = Inr ts \<longleftrightarrow>
      list_all2 (\<lambda>item (reg_exp, act). re_compile L reg_exp \<and> act \<noteq> NoAction
                   \<and> (item = ItemStr reg_exp \<and> act = ERROR \<or> item = ItemTuple reg_exp act))
        (case reg_exps of SingleRegExp s \<Rightarrow> [ItemStr s] | RegExpList items \<Rightarrow> items) ts)
   \<and> ((\<forall>ts'. re_tuples L (reg_exp_items reg_exps) \<noteq> Inr ts') \<longrightarrow>
        extract_errors_from_log L log_txt reg_exps = Inl (EasyBuildError InvalidRegexpInput)
        \<and> check_log_for_errors L log_txt reg_exps n =
            (Inl (EasyBuildError InvalidRegexpInput), n, None))
   \<and> (re_tuples L (reg_exp_items reg_exps) = Inr ts \<longrightarrow>
       (none_matches L pre line \<and> re_search L reg_exp line = Some m \<longrightarrow>
           first_action L (pre @ (reg_exp, act) # post) line = Some act)
     \<and> (none_matches L ts line \<longrightarrow> first_action L ts line = None)
     \<and> extract_errors_from_log L log_txt reg_exps =
           Inr (nub (lines_with L ts WARN log_txt), nub (lines_with L ts ERROR log_txt))
     \<and> check_log_for_errors L log_txt reg_exps n =
          ((if lines_with L ts ERROR log_txt = [] then Inr ()
            else Inl (EasyBuildError (FoundErrorsInCommandOutput
                   (length (nub (lines_with L ts ERROR log_txt)))
                   (nub (lines_with L ts ERROR log_txt))))),
           n + (length (nub (lines_with L ts WARN log_txt))
                + length (nub (lines_with L ts ERROR log_txt))),
           (if lines_with L ts WARN log_txt = [] then None
            else Some (nub (lines_with L ts WARN log_txt))))
     \<and> distinct (nub xs) \<and> set (nub xs) = set xs
     \<and> nub (xs @ [x]) = (if x \<in> set xs then nub xs else nub xs @ [x]))"
proof -
  have e: "nub ys = [] \<longleftrightarrow> ys = []" for ys :: "string list"
    by (cases ys) simp_all
  have i: "reg_exp_items reg_exps =
      (case reg_exps of SingleRegExp s \<Rightarrow> [ItemStr s] | RegExpList items \<Rightarrow> items)"
    by (cases reg_exps) simp_all
  have a: "re_tuples L (reg_exp_items reg_exps) = Inr ts \<longleftrightarrow>
      list_all2 (\<lambda>item (reg_exp, act). re_compile L reg_exp \<and> act \<noteq> NoAction
                   \<and> (item = ItemStr reg_exp \<and> act = ERROR \<or> item = ItemTuple reg_exp act))
        (case reg_exps of SingleRegExp s \<Rightarrow> [ItemStr s] | RegExpList items \<Rightarrow> items) ts"
    using re_tuples_iff [of L "reg_exp_items reg_exps" ts] by (simp only: i)
  have b: "(\<forall>ts'. re_tuples L (reg_exp_items reg_exps) \<noteq> Inr ts') \<longrightarrow>
        extract_errors_from_log L log_txt reg_exps = Inl (EasyBuildError InvalidRegexpInput)
        \<and> check_log_for_errors L log_txt reg_exps n =
            (Inl (EasyBuildError InvalidRegexpInput), n, None)"
    using re_tuples_raises [of L "reg_exp_items reg_exps"]
    by (auto simp: extract_errors_from_log_def check_log_for_errors_def)
  have c: "re_tuples L (reg_exp_items reg_exps) = Inr ts \<longrightarrow>
       (none_matches L pre line \<and> re_search L reg_exp line = Some m \<longrightarrow>
           first_action L (pre @ (reg_exp, act) # post) line = Some act)
     \<and> (none_matches L ts line \<longrightarrow> first_action L ts line = None)
     \<and> extract_errors_from_log L log_txt reg_exps =
           Inr (nub (lines_with L ts WARN log_txt), nub (lines_with L ts ERROR log_txt))
     \<and> check_log_for_errors L log_txt reg_exps n =
          ((if lines_with L ts ERROR log_txt = [] then Inr ()
            else Inl (EasyBuildError (FoundErrorsInCommandOutput
                   (length (nub (lines_with L ts ERROR log_txt)))
                   (nub (lines_with L ts ERROR log_txt))))),
           n + (length (nub (lines_with L ts WARN log_txt))
                + length (nub (lines_with L ts ERROR log_txt))),
           (if lines_with L ts WARN log_txt = [] then None
            else Some (nub (lines_with L ts WARN log_txt))))
     \<and> distinct (nub xs) \<and> set (nub xs) = set xs
     \<and> nub (xs @ [x]) = (if x \<in> set xs then nub xs else nub xs @ [x])"
  proof
    assume h: "re_tuples L (reg_exp_items reg_exps) = Inr ts"
    show "(none_matches L pre line \<and> re_search L reg_exp line = Some m \<longrightarrow>
           first_action L (pre @ (reg_exp, act) # post) line = Some act)
     \<and> (none_matches L ts line \<longrightarrow> first_action L ts line = None)
     \<and> extract_errors_from_log L log_txt reg_exps =
           Inr (nub (lines_with L ts WARN log_txt), nub (lines_with L ts ERROR log_txt))
     \<and> check_log_for_errors L log_txt reg_exps n =
          ((if lines_with L ts ERROR log_txt = [] then Inr ()
            else Inl (EasyBuildError (FoundErrorsInCommandOutput
                   (length (nub (lines_with L ts ERROR log_txt)))
                   (nub (lines_with L ts ERROR log_txt))))),
           n + (length (nub (lines_with L ts WARN log_txt))
                + length (nub (lines_with L ts ERROR log_txt))),
           (if lines_with L ts WARN log_txt = [] then None
            else Some (nub (lines_with L ts WARN log_txt))))
     \<and> distinct (nub xs) \<and> set (nub xs) = set xs
     \<and> nub (xs @ [x]) = (if x \<in> set xs then nub xs else nub xs @ [x])"
      using first_action_first [of L pre line reg_exp m act post] first_action_none [of L ts line]
        extract_errors_from_log_eq [OF h, of log_txt]
        check_log_for_errors_eq [OF h, of log_txt n]
        nub_distinct [of xs] nub_set [of xs] nub_snoc [of xs x]
      by (simp add: e)
  qed
  from a b c show ?thesis by (rule conjI [OF _ conjI])
qed

lemma ex_rules: "re_tuples example_lib example_rules =
    Inr [(''warning'', WARN), (''error'', ERROR), (''ok'', IGNORE)]"
  by code_simp

lemma ex_bad_rules: "re_tuples example_lib [ItemStr ''error'', ItemTuple ''ok'' NoAction] =
    Inl (EasyBuildError InvalidRegexpInput)"
  by code_simp

lemma ex_lines: "split_on CHR 0x0A example_log =
    [''a warning: error'', ''error 1'', ''ok'', ''error 1'', ''last warning'']"
  by code_simp

lemma ex_warn_lines:
  "lines_with example_lib [(''warning'', WARN), (''error'', ERROR), (''ok'', IGNORE)] WARN example_log
     = [''a warning: error'', ''last warning'']"
  by code_simp

lemma ex_error_lines:
  "lines_with example_lib [(''warning'', WARN), (''error'', ERROR), (''ok'', IGNORE)] ERROR example_log
     = [''error 1'', ''error 1'']"
  by code_simp

lemma ex_none: "none_matches example_lib [(''warning'', WARN)] ''error 1''"
  by code_simp

lemma ex_error_1: "re_search example_lib ''error'' ''error 1'' = Some []"
  by code_simp

lemma ex_none_all:
  "none_matches example_lib [(''warning'', WARN), (''error'', ERROR), (''ok'', IGNORE)] ''last''"
  by code_simp

text \<open>
  The example: the line \<^verbatim>\<open>a warning: error\<close> matches the first and the second rule and
  is a warning; \<^verbatim>\<open>error 1\<close> occurs twice and is reported once; \<^verbatim>\<open>ok\<close> is ignored. Rules
  with an item that is not accepted make both functions raise.
\<close>

theorem first_rule_decides_line_witness:
  "re_tuples example_lib (reg_exp_items (RegExpList example_rules)) =
      Inr [(''warning'', WARN), (''error'', ERROR), (''ok'', IGNORE)]
   \<and> list_all2 (\<lambda>item (reg_exp, act). re_compile example_lib reg_exp \<and> act \<noteq> NoAction
                   \<and> (item = ItemStr reg_exp \<and> act = ERROR \<or> item = ItemTuple reg_exp act))
        [ItemTuple ''warning'' WARN, ItemStr ''error'', ItemTuple ''ok'' IGNORE]
        [(''warning'', WARN), (''error'', ERROR), (''ok'', IGNORE)]
   \<and> none_matches example_lib [(''warning'', WARN)] ''error 1''
   \<and> re_search example_lib ''error'' ''error 1'' = Some []
   \<and> first_action example_lib [(''warning'', WARN), (''error'', ERROR), (''ok'', IGNORE)] ''error 1''
       = Some ERROR
   \<and> none_matches example_lib [(''warning'', WARN), (''error'', ERROR), (''ok'', IGNORE)] ''last''
   \<and> first_action example_lib [(''warning'', WARN), (''error'', ERROR), (''ok'', IGNORE)] ''last''
       = None
   \<and> extract_errors_from_log example_lib example_log (RegExpList example_rules) =
       Inr ([''a warning: error'', ''last warning''], [''error 1''])
   \<and> check_log_for_errors example_lib example_log (RegExpList example_rules) 0 =
       (Inl (EasyBuildError (FoundErrorsInCommandOutput 1 [''error 1''])), 3,
        Some [''a warning: error'', ''last warning''])
   \<and> check_log_for_errors example_lib example_log
        (RegExpList [ItemStr ''error'', ItemTuple ''ok'' NoAction]) 0 =
       (Inl (EasyBuildError InvalidRegexpInput), 0, None)"
proof -
  have h: "re_tuples example_lib (reg_exp_items (RegExpList example_rules)) =
      Inr [(''warning'', WARN), (''error'', ERROR), (''ok'', IGNORE)]"
    by (simp add: ex_rules)
  have nb: "\<forall>ts'. re_tuples example_lib
      (reg_exp_items (RegExpList [ItemStr ''error'', ItemTuple ''ok'' NoAction])) \<noteq> Inr ts'"
    by (simp add: ex_bad_rules)
  note t1 = first_rule_decides_line [where L = example_lib and reg_exps = "RegExpList example_rules"
      and ts = "[(''warning'', WARN), (''error'', ERROR), (''ok'', IGNORE)]"
      and pre = "[(''warning'', WARN)]"
      and line = "''error 1''" and reg_exp = "''error''" and m = "[]" and act = ERROR
      and post = "[(''ok'', IGNORE)]" and log_txt = example_log and n = 0 and xs = "[]" and x = "[]"]
  note t2 = first_rule_decides_line [where L = example_lib and reg_exps = "RegExpList example_rules"
      and ts = "[(''warning'', WARN), (''error'', ERROR), (''ok'', IGNORE)]"
      and pre = "[]"
      and line = "''last''" and reg_exp = "''error''" and m = "[]" and act = ERROR
      and post = "[]" and log_txt = example_log and n = 0 and xs = "[]" and x = "[]"]
  note t3 = first_rule_decides_line [where L = example_lib
      and reg_exps = "RegExpList [ItemStr ''error'', ItemTuple ''ok'' NoAction]"
      and ts = "[]" and pre = "[]"
      and line = "''last''" and reg_exp = "''error''" and m = "[]" and act = ERROR
      and post = "[]" and log_txt = example_log and n = 0 and xs = "[]" and x = "[]"]
  have l: "list_all2 (\<lambda>item (reg_exp, act). re_compile example_lib reg_exp \<and> act \<noteq> NoAction
                   \<and> (item = ItemStr reg_exp \<and> act = ERROR \<or> item = ItemTuple reg_exp act))
        [ItemTuple ''warning'' WARN, ItemStr ''error'', ItemTuple ''ok'' IGNORE]
        [(''warning'', WARN), (''error'', ERROR), (''ok'', IGNORE)]"
    using t1 h by (simp add: example_rules_def del: re_tuples.simps list_all2_Cons)
  have a: "first_action example_lib [(''warning'', WARN), (''error'', ERROR), (''ok'', IGNORE)]
      ''error 1'' = Some ERROR"
    using t1 h ex_none ex_error_1 by (simp del: first_action.simps)
  have b: "first_action example_lib [(''warning'', WARN), (''error'', ERROR), (''ok'', IGNORE)]
      ''last'' = None"
    using t2 h ex_none_all by (simp del: first_action.simps)
  have c: "extract_errors_from_log example_lib example_log (RegExpList example_rules) =
       Inr ([''a warning: error'', ''last warning''], [''error 1''])"
    using t1 h by (simp add: ex_warn_lines ex_error_lines del: first_action.simps)
  have d: "check_log_for_errors example_lib example_log (RegExpList example_rules) 0 =
       (Inl (EasyBuildError (FoundErrorsInCommandOutput 1 [''error 1''])), 3,
        Some [''a warning: error'', ''last warning''])"
    using t1 h by (simp add: ex_warn_lines ex_error_lines del: first_action.simps)
  have f: "check_log_for_errors example_lib example_log
        (RegExpList [ItemStr ''error'', ItemTuple ''ok'' NoAction]) 0 =
       (Inl (EasyBuildError InvalidRegexpInput), 0, None)"
    using t3 nb by blast
  from h l ex_none ex_error_1 a ex_none_all b c d f show ?thesis
    by blast
qed

section \<open>The cache of command results: properties\<close>

lemma cache_aware_func_hit:
  assumes "cache (CmdStr s, py_or (kw_stdin args) (kw_inp args)) = Some res"
  shows "cache_aware_func func kw_stdin kw_inp cache (CmdStr s) args w = (Returned res, cache, w)"
  using assms by (simp add: cache_aware_func_def)

lemma cache_aware_func_stores:
  assumes "s \<in> set CACHED_COMMANDS"
    and "cache_aware_func func kw_stdin kw_inp cache (CmdStr s) args w = (Returned res, cache', w')"
  shows "cache' (CmdStr s, py_or (kw_stdin args) (kw_inp args)) = Some res"
  using assms
  by (auto simp: cache_aware_func_def Let_def split: option.splits prod.splits outcome.splits)

lemma cache_aware_func_list:
  "cache_aware_func func kw_stdin kw_inp cache (CmdList xs) args w =
     (fst (func (CmdList xs) args w), cache, snd (func (CmdList xs) args w))"
  by (auto simp: cache_aware_func_def split: prod.splits outcome.splits)

text \<open>
  C4. When a call with a command string of \<^verbatim>\<open>CACHED_COMMANDS\<close> has returned a result, a
  second call with the same string and the same \<^verbatim>\<open>stdin\<close> and \<^verbatim>\<open>inp\<close> keyword arguments
  returns that result and leaves the cache and the world as they are: the wrapped function
  is not run (the second call is the same for any function \<open>func'\<close> in its place, and in
  any world), so no process is spawned. A call with a list as command runs the wrapped
  function and returns what it returns, and the cache is left as it is.
\<close>

theorem cached_command_served_from_cache:
  assumes "s \<in> set CACHED_COMMANDS"
    and "cache_aware_func func kw_stdin kw_inp cache (CmdStr s) args w = (Returned res, cache', w')"
    and "kw_stdin args' = kw_stdin args" and "kw_inp args' = kw_inp args"
  shows "cache_aware_func func' kw_stdin kw_inp cache' (CmdStr s) args' w'' = (Returned res, cache', w'')
     \<and> cache_aware_func func kw_stdin kw_inp cache (CmdList xs) args w =
         (fst (func (CmdList xs) args w), cache, snd (func (CmdList xs) args w))"
  using cache_aware_func_stores [OF assms(1,2)] assms(3,4) cache_aware_func_list [of func]
  by (simp add: cache_aware_func_hit)

lemma ex_ulimit: "''ulimit -u'' \<in> set CACHED_COMMANDS"
  by (simp add: CACHED_COMMANDS_def)

lemma ex_first_call:
  "cache_aware_func counting_func id (\<lambda>a. None) Map.empty (CmdStr ''ulimit -u'') None 0 =
     (Returned 1, [(CmdStr ''ulimit -u'', None) \<mapsto> 1], 1)"
  by (simp add: cache_aware_func_def counting_func_def ex_ulimit)

theorem cached_command_served_from_cache_witness:
  "''ulimit -u'' \<in> set CACHED_COMMANDS
   \<and> cache_aware_func counting_func id (\<lambda>a. None) Map.empty (CmdStr ''ulimit -u'') None 0 =
       (Returned 1, [(CmdStr ''ulimit -u'', None) \<mapsto> 1], 1)
   \<and> cache_aware_func counting_func id (\<lambda>a. None) [(CmdStr ''ulimit -u'', None) \<mapsto> 1]
        (CmdStr ''ulimit -u'') None 1 =
       (Returned 1, [(CmdStr ''ulimit -u'', None) \<mapsto> 1], 1)
   \<and> cache_aware_func counting_func id (\<lambda>a. None) Map.empty (CmdList [''ulimit'', ''-u'']) None 0 =
       (Returned 1, Map.empty, 1)"
  using cached_command_served_from_cache [OF ex_ulimit ex_first_call, where args' = None
      and func' = counting_func and w'' = 1 and xs = "[''ulimit'', ''-u'']"]
    ex_ulimit ex_first_call
  by (simp add: counting_func_def)

section \<open>The dry run\<close>

text \<open>
  A call of the decorated function whose command is a string with a result in the cache
  returns that result and does nothing else; any other call runs the function and
  returns what it returns, and a result of a command of \<^verbatim>\<open>CACHED_COMMANDS\<close> is stored.
\<close>

lemma run_shell_cmd_cached_hit:
  assumes "is_str cmd" "cache (cmd, py_or (stdin args) None) = Some cached"
  shows "run_shell_cmd_cached E L S cache cmd args w = (Returned cached, cache, w)"
  using assms by (simp add: run_shell_cmd_cached_def cache_aware_func_def)

lemma run_shell_cmd_cached_miss:
  assumes "\<not> is_str cmd \<or> cache (cmd, py_or (stdin args) None) = None"
  shows "fst (run_shell_cmd_cached E L S cache cmd args w) = fst (run_shell_cmd E L S cmd args w)
     \<and> snd (snd (run_shell_cmd_cached E L S cache cmd args w)) = snd (run_shell_cmd E L S cmd args w)
     \<and> fst (snd (run_shell_cmd_cached E L S cache cmd args w)) =
         (case fst (run_shell_cmd E L S cmd args w) of
            Returned res \<Rightarrow>
              if in_cached_commands cmd then cache((cmd, py_or (stdin args) None) \<mapsto> res)
              else cache
          | Raised e \<Rightarrow> cache
          | NoReturn \<Rightarrow> cache)"
proof -
  obtain r w' where b: "run_shell_cmd E L S cmd args w = (r, w')"
    by (cases "run_shell_cmd E L S cmd args w") auto
  from assms have "(if is_str cmd then cache (cmd, py_or (stdin args) None) else None) = None"
    by auto
  then show ?thesis
    using b by (cases r) (simp_all add: run_shell_cmd_cached_def cache_aware_func_def)
qed

text \<open>The function itself in a dry run that is not overruled by \<^verbatim>\<open>in_dry_run\<close>.\<close>

lemma run_shell_cmd_dry_run:
  assumes "\<not> in_dry_run args" and "opt_extended_dry_run E"
  shows "w_spawned (snd (run_shell_cmd E L S cmd args w)) = w_spawned w
     \<and> w_child (snd (run_shell_cmd E L S cmd args w)) = w_child w
     \<and> fst (run_shell_cmd E L S cmd args w) \<noteq> NoReturn
     \<and> (\<forall>res. fst (run_shell_cmd E L S cmd args w) = Returned res \<longrightarrow>
           res_exit_code res = 0 \<and> res_output res = [] \<and> res_stderr res = None)
     \<and> (qa_patterns args = QAOther \<longrightarrow>
           fst (run_shell_cmd E L S cmd args w) = Raised (EasyBuildError QAPatternsNotTuples)
           \<and> w_fs (snd (run_shell_cmd E L S cmd args w)) = w_fs w)
     \<and> (qa_patterns args \<noteq> QAOther \<and> \<not> output_file args \<longrightarrow>
           fst (run_shell_cmd E L S cmd args w) =
             Returned \<lparr>res_cmd = to_cmd_str cmd, res_exit_code = 0, res_output = [],
               res_stderr = None,
               res_work_dir = (case work_dir args of None \<Rightarrow> w_cwd w | Some d \<Rightarrow> d),
               res_out_file = None, res_err_file = None,
               res_thread_id = (if asynchronous args then Some (thread_id_now E) else None),
               res_task_id = task_id args\<rparr>
           \<and> w_fs (snd (run_shell_cmd E L S cmd args w)) = w_fs w)
     \<and> (qa_patterns args \<noteq> QAOther \<and> output_file args
          \<and> fs_fails E (MakeDirs (top_tmpdir E)) \<longrightarrow>
           fst (run_shell_cmd E L S cmd args w) = Raised (PyError C_OSError)
           \<and> w_fs (snd (run_shell_cmd E L S cmd args w)) = w_fs w)
     \<and> (qa_patterns args \<noteq> QAOther \<and> output_file args
          \<and> \<not> fs_fails E (MakeDirs (top_tmpdir E)) \<and> fs_fails E (MkDTemp (cmd_tmpdir E cmd w)) \<longrightarrow>
           fst (run_shell_cmd E L S cmd args w) = Raised (PyError C_OSError)
           \<and> w_fs (snd (run_shell_cmd E L S cmd args w)) = w_fs w @ [MakeDirs (top_tmpdir E)])
     \<and> (qa_patterns args \<noteq> QAOther \<and> output_file args
          \<and> \<not> fs_fails E (MakeDirs (top_tmpdir E)) \<and> \<not> fs_fails E (MkDTemp (cmd_tmpdir E cmd w)) \<longrightarrow>
           fst (run_shell_cmd E L S cmd args w) =
             Returned \<lparr>res_cmd = to_cmd_str cmd, res_exit_code = 0, res_output = [],
               res_stderr = None,
               res_work_dir = (case work_dir args of None \<Rightarrow> w_cwd w | Some d \<Rightarrow> d),
               res_out_file = Some (path_join (cmd_tmpdir E cmd w) ''out.txt''),
               res_err_file = (if split_stderr args
                               then Some (path_join (cmd_tmpdir E cmd w) ''err.txt'') else None),
               res_thread_id = (if asynchronous args then Some (thread_id_now E) else None),
               res_task_id = task_id args\<rparr>
           \<and> w_fs (snd (run_shell_cmd E L S cmd args w)) =
               w_fs w @ [MakeDirs (top_tmpdir E), MkDTemp (cmd_tmpdir E cmd w)])"
  using assms
  by (auto simp: run_shell_cmd_def prepare_def output_paths_def do_fs_def dry_run_result_def
      top_tmpdir_def cmd_tmpdir_def Let_def split: prod.splits sum.splits if_splits)

lemma ex_in_cached_commands: "in_cached_commands (CmdStr ''ulimit -u'')"
  by (simp add: CACHED_COMMANDS_def)

lemma ex_not_in_cached_commands: "\<not> in_cached_commands (CmdStr ''rm -rf /tmp/whatever'')"
  by (simp add: CACHED_COMMANDS_def)

lemma ex_real_run:
  "run_shell_cmd dry_env example_lib ulimit_script (CmdStr ''ulimit -u'') real_args example_world =
     (Returned ulimit_result,
      example_world\<lparr>w_spawned :=
         [\<lparr>pc_cmd = CmdStr ''ulimit -u'', pc_cwd = Some ''/home/user'', pc_shell = True,
           pc_executable = Some ''/bin/bash'', pc_stderr_pipe = False\<rparr>],
       w_child := Some (example_proc\<lparr>returncode := Some 0\<rparr>)\<rparr>)"
  by (simp add: run_shell_cmd_def prepare_def output_paths_def execute_def
      communicate_run_def write_stdin_def initial_state_def finish_def write_outputs_def
      dry_env_def example_env_def ulimit_script_def example_script_def example_proc_def
      real_args_def default_args_def example_world_def ulimit_result_def py_strip_def
      py_isspace_def)

lemma ex_real_run_cached:
  "run_shell_cmd_cached dry_env example_lib ulimit_script Map.empty (CmdStr ''ulimit -u'')
     real_args example_world =
     (Returned ulimit_result, [(CmdStr ''ulimit -u'', None) \<mapsto> ulimit_result],
      snd (run_shell_cmd dry_env example_lib ulimit_script (CmdStr ''ulimit -u'') real_args
             example_world))"
proof -
  have k: "py_or (stdin real_args) None = None"
    by (simp add: real_args_def default_args_def)
  show ?thesis
    using ex_in_cached_commands k
    by (simp add: run_shell_cmd_cached_def cache_aware_func_def ex_real_run)
qed

text \<open>
  C3 as stated fails, in two ways. In a dry run of \<^verbatim>\<open>rm -rf /tmp/whatever\<close> with the
  default arguments (\<^verbatim>\<open>output_file\<close> is enabled) and an empty cache the result is the
  synthetic one, and on the way the directory for the output files and a fresh directory
  in it have been created. And a dry run of \<^verbatim>\<open>ulimit -u\<close>, a command of
  \<^verbatim>\<open>CACHED_COMMANDS\<close>, after a call that ran the command (with \<^verbatim>\<open>in_dry_run\<close>) returns the
  output of that run, which is not empty.
\<close>

theorem dry_run_creates_directories:
  "fst (run_shell_cmd_cached dry_env example_lib example_script Map.empty
          (CmdStr ''rm -rf /tmp/whatever'') default_args example_world) =
     Returned \<lparr>res_cmd = ''rm -rf /tmp/whatever'', res_exit_code = 0, res_output = [],
       res_stderr = None, res_work_dir = ''/home/user'',
       res_out_file = Some ''/tmp/run-shell-cmd-output/rm-k3x9/out.txt'', res_err_file = None,
       res_thread_id = None, res_task_id = None\<rparr>
   \<and> w_fs example_world = []
   \<and> w_fs (snd (snd (run_shell_cmd_cached dry_env example_lib example_script Map.empty
          (CmdStr ''rm -rf /tmp/whatever'') default_args example_world))) =
     [MakeDirs ''/tmp/run-shell-cmd-output'', MkDTemp ''/tmp/run-shell-cmd-output/rm-k3x9'']
   \<and> opt_extended_dry_run dry_env \<and> \<not> in_dry_run (default_args\<lparr>output_file := False\<rparr>)
   \<and> (case run_shell_cmd_cached dry_env example_lib ulimit_script Map.empty
               (CmdStr ''ulimit -u'') real_args example_world of
         (r1, cache1, w1) \<Rightarrow>
           r1 = Returned ulimit_result
           \<and> run_shell_cmd_cached dry_env example_lib ulimit_script cache1 (CmdStr ''ulimit -u'')
               (default_args\<lparr>output_file := False\<rparr>) w1
              = (Returned ulimit_result, cache1, w1))
   \<and> res_output ulimit_result = ''4096\<newline>''"
proof -
  have a: "fst (run_shell_cmd_cached dry_env example_lib example_script Map.empty
          (CmdStr ''rm -rf /tmp/whatever'') default_args example_world) =
     Returned \<lparr>res_cmd = ''rm -rf /tmp/whatever'', res_exit_code = 0, res_output = [],
       res_stderr = None, res_work_dir = ''/home/user'',
       res_out_file = Some ''/tmp/run-shell-cmd-output/rm-k3x9/out.txt'', res_err_file = None,
       res_thread_id = None, res_task_id = None\<rparr>
   \<and> w_fs (snd (snd (run_shell_cmd_cached dry_env example_lib example_script Map.empty
          (CmdStr ''rm -rf /tmp/whatever'') default_args example_world))) =
     [MakeDirs ''/tmp/run-shell-cmd-output'', MkDTemp ''/tmp/run-shell-cmd-output/rm-k3x9'']"
    by (simp add: run_shell_cmd_cached_def cache_aware_func_def
        run_shell_cmd_def prepare_def output_paths_def do_fs_def dry_env_def
        example_env_def default_args_def example_world_def dry_run_result_def path_join_def
        fileprefix_from_cmd_def basename_def first_word_def filename_chars_def py_strip_def
        py_isspace_def)
  have b: "w_fs example_world = []" by (simp add: example_world_def)
  have c: "opt_extended_dry_run dry_env \<and> \<not> in_dry_run (default_args\<lparr>output_file := False\<rparr>)"
    by (simp add: dry_env_def default_args_def)
  have d: "(case run_shell_cmd_cached dry_env example_lib ulimit_script Map.empty
               (CmdStr ''ulimit -u'') real_args example_world of
         (r1, cache1, w1) \<Rightarrow>
           r1 = Returned ulimit_result
           \<and> run_shell_cmd_cached dry_env example_lib ulimit_script cache1 (CmdStr ''ulimit -u'')
               (default_args\<lparr>output_file := False\<rparr>) w1
              = (Returned ulimit_result, cache1, w1))"
    unfolding ex_real_run_cached
    by (simp add: run_shell_cmd_cached_def cache_aware_func_def default_args_def)
  have e: "res_output ulimit_result = ''4096\<newline>''" by (simp add: ulimit_result_def)
  from a b c d e show ?thesis by blast
qed

text \<open>
  C3, amended, for \<^verbatim>\<open>run_shell_cmd\<close> as it is exported (with its cache), in a dry run that
  is not overruled by \<^verbatim>\<open>in_dry_run\<close>.
  \<^item> When the command is a string and the cache has a result for it and its \<^verbatim>\<open>stdin\<close>,
    that result is returned as it is, and nothing is printed, made or spawned.
  \<^item> Otherwise no process is spawned and the call ends; a result it returns has exit code
    0, empty output and no separate stderr, and it is stored in the cache when the
    command is one of \<^verbatim>\<open>CACHED_COMMANDS\<close>.
  \<^item> With \<^verbatim>\<open>qa_patterns\<close> that are not a list of 2-tuples the call raises and changes
    nothing in the file system.
  \<^item> Without \<^verbatim>\<open>output_file\<close> the call returns the result and changes nothing in the
    file system.
  \<^item> With \<^verbatim>\<open>output_file\<close>, the default, it makes the directory for output files and a
    fresh directory in it, writes no file, and returns the result with the path of
    \<^verbatim>\<open>out.txt\<close> (and of \<^verbatim>\<open>err.txt\<close> with \<^verbatim>\<open>split_stderr\<close>) in that directory; when one of
    the two directories cannot be made, it raises \<^verbatim>\<open>OSError\<close>.
\<close>

theorem dry_run_synthetic_result:
  assumes "\<not> in_dry_run args" and "opt_extended_dry_run E"
  shows "(is_str cmd \<and> cache (cmd, py_or (stdin args) None) = Some cached \<longrightarrow>
        run_shell_cmd_cached E L S cache cmd args w = (Returned cached, cache, w))
     \<and> (\<not> is_str cmd \<or> cache (cmd, py_or (stdin args) None) = None \<longrightarrow>
        w_spawned (snd (snd (run_shell_cmd_cached E L S cache cmd args w))) = w_spawned w
     \<and> w_child (snd (snd (run_shell_cmd_cached E L S cache cmd args w))) = w_child w
     \<and> fst (run_shell_cmd_cached E L S cache cmd args w) \<noteq> NoReturn
     \<and> (\<forall>res. fst (run_shell_cmd_cached E L S cache cmd args w) = Returned res \<longrightarrow>
           res_exit_code res = 0 \<and> res_output res = [] \<and> res_stderr res = None
           \<and> fst (snd (run_shell_cmd_cached E L S cache cmd args w)) =
               (if in_cached_commands cmd then cache((cmd, py_or (stdin args) None) \<mapsto> res)
                else cache))
     \<and> (\<forall>e. fst (run_shell_cmd_cached E L S cache cmd args w) = Raised e \<longrightarrow>
           fst (snd (run_shell_cmd_cached E L S cache cmd args w)) = cache)
     \<and> (qa_patterns args = QAOther \<longrightarrow>
           fst (run_shell_cmd_cached E L S cache cmd args w) =
             Raised (EasyBuildError QAPatternsNotTuples)
           \<and> w_fs (snd (snd (run_shell_cmd_cached E L S cache cmd args w))) = w_fs w)
     \<and> (qa_patterns args \<noteq> QAOther \<and> \<not> output_file args \<longrightarrow>
           fst (run_shell_cmd_cached E L S cache cmd args w) =
             Returned \<lparr>res_cmd = to_cmd_str cmd, res_exit_code = 0, res_output = [],
               res_stderr = None,
               res_work_dir = (case work_dir args of None \<Rightarrow> w_cwd w | Some d \<Rightarrow> d),
               res_out_file = None, res_err_file = None,
               res_thread_id = (if asynchronous args then Some (thread_id_now E) else None),
               res_task_id = task_id args\<rparr>
           \<and> w_fs (snd (snd (run_shell_cmd_cached E L S cache cmd args w))) = w_fs w)
     \<and> (qa_patterns args \<noteq> QAOther \<and> output_file args
          \<and> fs_fails E (MakeDirs (top_tmpdir E)) \<longrightarrow>
           fst (run_shell_cmd_cached E L S cache cmd args w) = Raised (PyError C_OSError)
           \<and> w_fs (snd (snd (run_shell_cmd_cached E L S cache cmd args w))) = w_fs w)
     \<and> (qa_patterns args \<noteq> QAOther \<and> output_file args
          \<and> \<not> fs_fails E (MakeDirs (top_tmpdir E)) \<and> fs_fails E (MkDTemp (cmd_tmpdir E cmd w)) \<longrightarrow>
           fst (run_shell_cmd_cached E L S cache cmd args w) = Raised (PyError C_OSError)
           \<and> w_fs (snd (snd (run_shell_cmd_cached E L S cache cmd args w))) =
               w_fs w @ [MakeDirs (top_tmpdir E)])
     \<and> (qa_patterns args \<noteq> QAOther \<and> output_file args
          \<and> \<not> fs_fails E (MakeDirs (top_tmpdir E)) \<and> \<not> fs_fails E (MkDTemp (cmd_tmpdir E cmd w)) \<longrightarrow>
           fst (run_shell_cmd_cached E L S cache cmd args w) =
             Returned \<lparr>res_cmd = to_cmd_str cmd, res_exit_code = 0, res_output = [],
               res_stderr = None,
               res_work_dir = (case work_dir args of None \<Rightarrow> w_cwd w | Some d \<Rightarrow> d),
               res_out_file = Some (path_join (cmd_tmpdir E cmd w) ''out.txt''),
               res_err_file = (if split_stderr args
                               then Some (path_join (cmd_tmpdir E cmd w) ''err.txt'') else None),
               res_thread_id = (if asynchronous args then Some (thread_id_now E) else None),
               res_task_id = task_id args\<rparr>
           \<and> w_fs (snd (snd (run_shell_cmd_cached E L S cache cmd args w))) =
               w_fs w @ [MakeDirs (top_tmpdir E), MkDTemp (cmd_tmpdir E cmd w)]))"
proof (intro conjI impI)
  assume "is_str cmd \<and> cache (cmd, py_or (stdin args) None) = Some cached"
  then show "run_shell_cmd_cached E L S cache cmd args w = (Returned cached, cache, w)"
    using run_shell_cmd_cached_hit by blast
next
  assume m: "\<not> is_str cmd \<or> cache (cmd, py_or (stdin args) None) = None"
  note c = run_shell_cmd_cached_miss [where cmd = cmd and cache = cache and args = args
      and E = E and L = L and S = S and w = w, OF m]
  note d = run_shell_cmd_dry_run [OF assms, of L S cmd w]
  from c have c1: "fst (run_shell_cmd_cached E L S cache cmd args w) =
      fst (run_shell_cmd E L S cmd args w)"
    and c2: "snd (snd (run_shell_cmd_cached E L S cache cmd args w)) =
      snd (run_shell_cmd E L S cmd args w)"
    by simp_all
  show "w_spawned (snd (snd (run_shell_cmd_cached E L S cache cmd args w))) = w_spawned w"
    and "w_child (snd (snd (run_shell_cmd_cached E L S cache cmd args w))) = w_child w"
    and "fst (run_shell_cmd_cached E L S cache cmd args w) \<noteq> NoReturn"
    unfolding c1 c2 using d by simp_all
  show "\<forall>res. fst (run_shell_cmd_cached E L S cache cmd args w) = Returned res \<longrightarrow>
           res_exit_code res = 0 \<and> res_output res = [] \<and> res_stderr res = None
           \<and> fst (snd (run_shell_cmd_cached E L S cache cmd args w)) =
               (if in_cached_commands cmd then cache((cmd, py_or (stdin args) None) \<mapsto> res)
                else cache)"
    using c d by simp
  show "\<forall>e. fst (run_shell_cmd_cached E L S cache cmd args w) = Raised e \<longrightarrow>
           fst (snd (run_shell_cmd_cached E L S cache cmd args w)) = cache"
    using c by simp
  {
    assume "qa_patterns args = QAOther"
    with d show "fst (run_shell_cmd_cached E L S cache cmd args w) =
             Raised (EasyBuildError QAPatternsNotTuples)"
      and "w_fs (snd (snd (run_shell_cmd_cached E L S cache cmd args w))) = w_fs w"
      unfolding c1 c2 by simp_all
  }
  {
    assume "qa_patterns args \<noteq> QAOther \<and> \<not> output_file args"
    with d show "fst (run_shell_cmd_cached E L S cache cmd args w) =
             Returned \<lparr>res_cmd = to_cmd_str cmd, res_exit_code = 0, res_output = [],
               res_stderr = None,
               res_work_dir = (case work_dir args of None \<Rightarrow> w_cwd w | Some d \<Rightarrow> d),
               res_out_file = None, res_err_file = None,
               res_thread_id = (if asynchronous args then Some (thread_id_now E) else None),
               res_task_id = task_id args\<rparr>"
      and "w_fs (snd (snd (run_shell_cmd_cached E L S cache cmd args w))) = w_fs w"
      unfolding c1 c2 by simp_all
  }
  {
    assume "qa_patterns args \<noteq> QAOther \<and> output_file args
          \<and> fs_fails E (MakeDirs (top_tmpdir E))"
    with d show "fst (run_shell_cmd_cached E L S cache cmd args w) = Raised (PyError C_OSError)"
      and "w_fs (snd (snd (run_shell_cmd_cached E L S cache cmd args w))) = w_fs w"
      unfolding c1 c2 by simp_all
  }
  {
    assume "qa_patterns args \<noteq> QAOther \<and> output_file args
          \<and> \<not> fs_fails E (MakeDirs (top_tmpdir E)) \<and> fs_fails E (MkDTemp (cmd_tmpdir E cmd w))"
    with d show "fst (run_shell_cmd_cached E L S cache cmd args w) = Raised (PyError C_OSError)"
      and "w_fs (snd (snd (run_shell_cmd_cached E L S cache cmd args w))) =
               w_fs w @ [MakeDirs (top_tmpdir E)]"
      unfolding c1 c2 by simp_all
  }
  {
    assume "qa_patterns args \<noteq> QAOther \<and> output_file args
          \<and> \<not> fs_fails E (MakeDirs (top_tmpdir E)) \<and> \<not> fs_fails E (MkDTemp (cmd_tmpdir E cmd w))"
    with d show "fst (run_shell_cmd_cached E L S cache cmd args w) =
             Returned \<lparr>res_cmd = to_cmd_str cmd, res_exit_code = 0, res_output = [],
               res_stderr = None,
               res_work_dir = (case work_dir args of None \<Rightarrow> w_cwd w | Some d \<Rightarrow> d),
               res_out_file = Some (path_join (cmd_tmpdir E cmd w) ''out.txt''),
               res_err_file = (if split_stderr args
                               then Some (path_join (cmd_tmpdir E cmd w) ''err.txt'') else None),
               res_thread_id = (if asynchronous args then Some (thread_id_now E) else None),
               res_task_id = task_id args\<rparr>"
      and "w_fs (snd (snd (run_shell_cmd_cached E L S cache cmd args w))) =
               w_fs w @ [MakeDirs (top_tmpdir E), MkDTemp (cmd_tmpdir E cmd w)]"
      unfolding c1 c2 by simp_all
  }
qed

text \<open>
  The example: a dry run of \<^verbatim>\<open>rm -rf /tmp/whatever\<close> without \<^verbatim>\<open>output_file\<close> and with an
  empty cache prints what it would run, returns the synthetic result and leaves the cache
  empty; a dry run of \<^verbatim>\<open>ulimit -u\<close> with the result of an earlier run in the cache returns
  that result and leaves the world as it is.
\<close>

theorem dry_run_synthetic_result_witness:
  "\<not> in_dry_run (default_args\<lparr>output_file := False\<rparr>) \<and> opt_extended_dry_run dry_env
   \<and> qa_patterns (default_args\<lparr>output_file := False\<rparr>) \<noteq> QAOther
   \<and> \<not> output_file (default_args\<lparr>output_file := False\<rparr>)
   \<and> run_shell_cmd_cached dry_env example_lib example_script Map.empty
          (CmdStr ''rm -rf /tmp/whatever'') (default_args\<lparr>output_file := False\<rparr>) example_world =
       (Returned \<lparr>res_cmd = ''rm -rf /tmp/whatever'', res_exit_code = 0, res_output = [],
          res_stderr = None, res_work_dir = ''/home/user'', res_out_file = None,
          res_err_file = None, res_thread_id = None, res_task_id = None\<rparr>,
        Map.empty,
        example_world\<lparr>w_console :=
          [DryRunMsg (''  running shell command '' @ [CHR 0x22] @ ''rm -rf /tmp/whatever''
                       @ [CHR 0x22] @ ''\<newline>  (in /home/user)'') False]\<rparr>)
   \<and> run_shell_cmd_cached dry_env example_lib example_script
          [(CmdStr ''ulimit -u'', None) \<mapsto> ulimit_result]
          (CmdStr ''ulimit -u'') (default_args\<lparr>output_file := False\<rparr>) example_world =
       (Returned ulimit_result, [(CmdStr ''ulimit -u'', None) \<mapsto> ulimit_result], example_world)"
proof -
  let ?args = "default_args\<lparr>output_file := False\<rparr>"
  let ?run = "run_shell_cmd_cached dry_env example_lib example_script Map.empty
          (CmdStr ''rm -rf /tmp/whatever'') ?args example_world"
  have h1: "\<not> in_dry_run ?args" by (simp add: default_args_def)
  have h2: "opt_extended_dry_run dry_env" by (simp add: dry_env_def)
  have h3: "qa_patterns ?args \<noteq> QAOther \<and> \<not> output_file ?args" by (simp add: default_args_def)
  have s: "to_cmd_str (CmdStr ''rm -rf /tmp/whatever'') = ''rm -rf /tmp/whatever''"
    by (simp add: py_strip_def py_isspace_def)
  have k: "py_or (stdin ?args) None = None" by (simp add: default_args_def)
  have w: "snd (snd ?run) = example_world\<lparr>w_console :=
          [DryRunMsg (''  running shell command '' @ [CHR 0x22] @ ''rm -rf /tmp/whatever''
                       @ [CHR 0x22] @ ''\<newline>  (in /home/user)'') False]\<rparr>"
    by (simp add: run_shell_cmd_cached_def cache_aware_func_def
        run_shell_cmd_def prepare_def output_paths_def default_args_def dry_env_def
        example_env_def example_world_def dry_run_text_def py_strip_def py_isspace_def)
  note t = dry_run_synthetic_result [OF h1 h2, where L = example_lib and S = example_script
      and cmd = "CmdStr ''rm -rf /tmp/whatever''" and w = example_world and cache = Map.empty
      and cached = ulimit_result]
  have r: "fst ?run = Returned \<lparr>res_cmd = ''rm -rf /tmp/whatever'', res_exit_code = 0,
          res_output = [], res_stderr = None, res_work_dir = ''/home/user'', res_out_file = None,
          res_err_file = None, res_thread_id = None, res_task_id = None\<rparr>"
    using t h3 s by (simp add: default_args_def example_world_def)
  have c: "fst (snd ?run) = Map.empty"
    using t r ex_not_in_cached_commands by simp
  have a: "?run = (Returned \<lparr>res_cmd = ''rm -rf /tmp/whatever'', res_exit_code = 0,
          res_output = [], res_stderr = None, res_work_dir = ''/home/user'', res_out_file = None,
          res_err_file = None, res_thread_id = None, res_task_id = None\<rparr>, Map.empty,
        example_world\<lparr>w_console :=
          [DryRunMsg (''  running shell command '' @ [CHR 0x22] @ ''rm -rf /tmp/whatever''
                       @ [CHR 0x22] @ ''\<newline>  (in /home/user)'') False]\<rparr>)"
    using r c w by (simp add: prod_eq_iff)
  note t2 = dry_run_synthetic_result [OF h1 h2, where L = example_lib and S = example_script
      and cmd = "CmdStr ''ulimit -u''" and w = example_world
      and cache = "[(CmdStr ''ulimit -u'', None) \<mapsto> ulimit_result]" and cached = ulimit_result]
  have b: "run_shell_cmd_cached dry_env example_lib example_script
          [(CmdStr ''ulimit -u'', None) \<mapsto> ulimit_result]
          (CmdStr ''ulimit -u'') ?args example_world =
       (Returned ulimit_result, [(CmdStr ''ulimit -u'', None) \<mapsto> ulimit_result], example_world)"
    using t2 k by simp
  from h1 h2 h3 a b show ?thesis by blast
qed

section \<open>The error of a failed shell command\<close>

lemma raise_with_caller:
  "call_stack E = f # outer \<Longrightarrow>
   raise_run_shell_cmd_error E res =
     RunShellCmdError (new_run_shell_cmd_error res (fr_filename f, fr_lineno f, fr_function f))"
  by (simp add: raise_run_shell_cmd_error_def own_frames_def)

lemma output_paths_fail_on_error [simp]:
  "output_paths E s (args\<lparr>fail_on_error := b\<rparr>) w = output_paths E s args w"
  by (auto simp: output_paths_def Let_def split: prod.splits)

lemma prepare_fail_on_error [simp]:
  "prepare E cmd (args\<lparr>fail_on_error := b\<rparr>) w = prepare E cmd args w"
  by (auto simp: prepare_def Let_def split: prod.splits sum.splits)

lemma qa_step_fail_on_error [simp]:
  "qa_step L (args\<lparr>fail_on_error := b\<rparr>) waits st = qa_step L args waits st"
  by (auto simp: qa_step_def Let_def split: prod.splits sum.splits bool.splits)

lemma stream_loop_fail_on_error [simp]:
  "stream_loop L (args\<lparr>fail_on_error := b\<rparr>) waits cs st = stream_loop L args waits cs st"
  by (induction cs arbitrary: st) (auto simp: Let_def split: prod.splits sum.splits option.splits)

lemma stream_run_fail_on_error [simp]:
  "stream_run L (args\<lparr>fail_on_error := b\<rparr>) waits S = stream_run L args waits S"
  by (auto simp: stream_run_def initial_state_def split: option.splits list.splits prod.splits outcome.splits)

lemma communicate_run_fail_on_error [simp]:
  "communicate_run (args\<lparr>fail_on_error := b\<rparr>) S = communicate_run args S"
  by (auto simp: communicate_run_def initial_state_def split: option.splits prod.splits)

lemma write_outputs_fail_on_error [simp]:
  "write_outputs E (args\<lparr>fail_on_error := b\<rparr>) pr out err w = write_outputs E args pr out err w"
  by (auto simp: write_outputs_def Let_def split: option.splits prod.splits)

lemma finish_raises:
  assumes "finish E (args\<lparr>fail_on_error := False\<rparr>) pr out err rc w = (Returned res, w')"
    and "res_exit_code res \<noteq> 0" and "call_stack E = f # outer"
  shows "fst (finish E (args\<lparr>fail_on_error := True\<rparr>) pr out err rc w) =
     Raised (RunShellCmdError (new_run_shell_cmd_error res
               (fr_filename f, fr_lineno f, fr_function f)))"
  using assms
  by (auto simp: finish_def Let_def raise_with_caller
      split: prod.splits option.splits if_splits)

lemma execute_raises:
  assumes "execute E L S cmd (args\<lparr>fail_on_error := False\<rparr>) pr w = (Returned res, w')"
    and "res_exit_code res \<noteq> 0" and "call_stack E = f # outer"
  shows "fst (execute E L S cmd (args\<lparr>fail_on_error := True\<rparr>) pr w) =
     Raised (RunShellCmdError (new_run_shell_cmd_error res
               (fr_filename f, fr_lineno f, fr_function f)))"
proof -
  from assms(1) have nf: "\<not> popen_fails S"
    by (auto simp: execute_def Let_def split: if_splits)
  let ?run = "if p_stream_output pr \<or> qa_truthy (qa_patterns args)
                  then stream_run L args (p_wait_patterns pr) S
                  else communicate_run args S"
  obtain r st where run: "?run = (r, st)" by (cases ?run) auto
  from assms(1) nf run obtain rc where r: "r = Returned rc"
    by (cases r) (auto simp: execute_def Let_def split: if_splits)
  show ?thesis
    using assms nf run r
    by (auto simp: execute_def Let_def split: if_splits intro: finish_raises)
qed

lemma run_shell_cmd_raises:
  assumes "run_shell_cmd E L S cmd (args\<lparr>fail_on_error := False\<rparr>) w = (Returned res, w')"
    and "res_exit_code res \<noteq> 0" and "call_stack E = f # outer"
  shows "fst (run_shell_cmd E L S cmd (args\<lparr>fail_on_error := True\<rparr>) w) =
     Raised (RunShellCmdError (new_run_shell_cmd_error res
               (fr_filename f, fr_lineno f, fr_function f)))"
proof -
  obtain p w1 where p: "prepare E cmd args w = (p, w1)" by (cases "prepare E cmd args w") auto
  from assms(1) p obtain pr where pr: "p = Inr pr"
    by (cases p) (auto simp: run_shell_cmd_def)
  have nd: "\<not> (\<not> in_dry_run args \<and> opt_extended_dry_run E)"
    using assms(1,2) p pr by (auto simp: run_shell_cmd_def dry_run_result_def split: if_splits)
  then have "execute E L S cmd (args\<lparr>fail_on_error := False\<rparr>) pr w1 = (Returned res, w')"
    using assms(1) p pr by (auto simp: run_shell_cmd_def split: if_splits)
  from execute_raises [OF this assms(2,3)] nd p pr show ?thesis
    by (auto simp: run_shell_cmd_def)
qed

lemma not_caught_by_Exception:
  "\<not> except_catches C_Exception (RunShellCmdError e)
   \<and> except_catches C_BaseException (RunShellCmdError e)
   \<and> except_catches C_Exception (EasyBuildError m)"
  by (simp add: except_catches_def issubclass_def numeral_eq_Suc)

lemma send_answer_error_class:
  "send_answer L a gd proc = (Inl (RunShellCmdError e), proc') \<Longrightarrow> False"
  by (auto simp: send_answer_def Let_def split: option.splits if_splits)

lemma reply_error_class:
  "reply L q ans gd proc = (Inl (RunShellCmdError e), ans', proc') \<Longrightarrow> False"
  by (cases ans)
    (auto simp: reply_def split: prod.splits list.splits dest: send_answer_error_class)

lemma try_questions_error_class:
  "try_questions L stdout qa proc = (Inl (RunShellCmdError e), qa', proc') \<Longrightarrow> False"
proof (induction qa arbitrary: qa')
  case Nil
  then show ?case by simp
next
  case (Cons x qa)
  obtain q a where x: "x = (q, a)" by (cases x)
  show ?case
    using Cons.prems Cons.IH
    by (auto simp: x split: option.splits prod.splits if_splits dest: reply_error_class)
qed

lemma try_wait_patterns_error_class:
  "try_wait_patterns L stdout ws = Inl (RunShellCmdError e) \<Longrightarrow> False"
  by (induction ws) (auto split: option.splits if_splits)

lemma answer_question_error_class:
  "answer_question L stdout proc qa waits = (Inl (RunShellCmdError e), qa', proc') \<Longrightarrow> False"
  by (auto simp: answer_question_def split: prod.splits sum.splits bool.splits
      dest: try_questions_error_class try_wait_patterns_error_class)

lemma qa_step_error_class:
  "qa_step L args waits st = (Inl (RunShellCmdError e), st') \<Longrightarrow> False"
  by (auto simp: qa_step_def Let_def split: prod.splits sum.splits bool.splits if_splits
      dest: answer_question_error_class)

lemma timeout_abort_error_class:
  "timeout_abort st = (Raised (RunShellCmdError e), st') \<Longrightarrow> False"
  by (auto simp: timeout_abort_def terminate_process_def Let_def split: prod.splits sum.splits if_splits)

lemma stream_loop_error_class:
  "stream_loop L args waits cs st = (Raised (RunShellCmdError e), st') \<Longrightarrow> False"
proof (induction cs arbitrary: st)
  case Nil
  then show ?case by simp
next
  case (Cons c cs)
  show ?case
    using Cons.prems Cons.IH
    by (auto simp: Let_def split: prod.splits sum.splits option.splits if_splits
        dest: timeout_abort_error_class qa_step_error_class)
qed

lemma stream_run_error_class:
  "stream_run L args waits S = (Raised (RunShellCmdError e), st') \<Longrightarrow> False"
  by (auto simp: stream_run_def split: option.splits list.splits prod.splits outcome.splits if_splits
      dest: stream_loop_error_class)

lemma communicate_run_error_class:
  "communicate_run args S = (Raised (RunShellCmdError e), st') \<Longrightarrow> False"
  by (auto simp: communicate_run_def split: option.splits prod.splits
      dest: timeout_abort_error_class)

lemma raise_run_shell_cmd_error_exit_code:
  "raise_run_shell_cmd_error E res = RunShellCmdError e \<Longrightarrow> err_exit_code e = res_exit_code res"
  by (auto simp: raise_run_shell_cmd_error_def new_run_shell_cmd_error_def split: list.splits)

lemma finish_error_only_if:
  assumes "finish E args pr out err rc w = (Raised (RunShellCmdError e), w')"
  shows "fail_on_error args \<and> err_exit_code e \<noteq> 0"
  using assms raise_run_shell_cmd_error_exit_code [of E _ e]
  by (auto simp: finish_def write_outputs_def do_fs_def Let_def
      split: prod.splits option.splits if_splits)

lemma execute_error_only_if:
  assumes "execute E L S cmd args pr w = (Raised (RunShellCmdError e), w')"
  shows "fail_on_error args \<and> err_exit_code e \<noteq> 0"
proof -
  let ?run = "if p_stream_output pr \<or> qa_truthy (qa_patterns args)
                  then stream_run L args (p_wait_patterns pr) S
                  else communicate_run args S"
  obtain r st where run: "?run = (r, st)" by (cases ?run) auto
  have "r \<noteq> Raised (RunShellCmdError e)"
    using run
    by (auto split: if_splits dest: stream_run_error_class communicate_run_error_class)
  then show ?thesis
    using assms run
    by (cases r) (auto simp: execute_def Let_def split: if_splits dest: finish_error_only_if)
qed

lemma run_shell_cmd_error_only_if:
  assumes "run_shell_cmd E L S cmd args w = (Raised (RunShellCmdError e), w')"
  shows "fail_on_error args \<and> err_exit_code e \<noteq> 0"
proof -
  obtain p w1 where p: "prepare E cmd args w = (p, w1)" by (cases "prepare E cmd args w") auto
  have "p \<noteq> Inl (RunShellCmdError e)"
    using p by (auto simp: prepare_def output_paths_def do_fs_def Let_def split: if_splits prod.splits)
  then show ?thesis
    using assms p
    by (cases p) (auto simp: run_shell_cmd_def split: if_splits dest: execute_error_only_if)
qed

text \<open>
  C10. \<^verbatim>\<open>RunShellCmdError\<close> has \<^verbatim>\<open>BaseException\<close> as its direct base class; a handler for
  \<^verbatim>\<open>Exception\<close> does not catch it (it does catch an \<^verbatim>\<open>EasyBuildError\<close>), a handler for
  \<^verbatim>\<open>BaseException\<close> does. \<^verbatim>\<open>run_shell_cmd\<close> raises it only with \<^verbatim>\<open>fail_on_error\<close> and with
  an exit code that is not 0. And when the call without \<^verbatim>\<open>fail_on_error\<close> returns a result
  with an exit code that is not 0, the call with \<^verbatim>\<open>fail_on_error\<close> raises the error that
  carries the command string, the exit code, the output, the stderr, the paths of the
  output files and the working directory of that result, and the file, line and
  function of the frame of the caller.
\<close>

theorem run_shell_cmd_error_carries_result:
  assumes "call_stack E = f # outer"
    and "run_shell_cmd E L S cmd (args\<lparr>fail_on_error := False\<rparr>) w = (Returned res, w')"
    and "res_exit_code res \<noteq> 0"
  shows "fst (run_shell_cmd E L S cmd (args\<lparr>fail_on_error := True\<rparr>) w) =
       Raised (RunShellCmdError
         \<lparr>err_cmd = res_cmd res, err_cmd_name = basename (first_word (res_cmd res)),
          err_exit_code = res_exit_code res, err_work_dir = res_work_dir res,
          err_output = res_output res, err_out_file = res_out_file res,
          err_stderr = res_stderr res, err_err_file = res_err_file res,
          err_caller_info = (fr_filename f, fr_lineno f, fr_function f)\<rparr>)
     \<and> direct_base C_RunShellCmdError = Some C_BaseException
     \<and> \<not> except_catches C_Exception (RunShellCmdError e)
     \<and> except_catches C_BaseException (RunShellCmdError e)
     \<and> except_catches C_Exception (EasyBuildError m)
     \<and> (run_shell_cmd E L S cmd args w = (Raised (RunShellCmdError e), w'') \<longrightarrow>
          fail_on_error args \<and> err_exit_code e \<noteq> 0)"
  using run_shell_cmd_raises [OF assms(2,3,1)] not_caught_by_Exception [of e m]
    run_shell_cmd_error_only_if [of E L S cmd args w e w'']
  by (simp add: new_run_shell_cmd_error_def)

lemma ex_false_result:
  "fst (run_shell_cmd example_env example_lib example_script (CmdStr ''make install'')
     (default_args\<lparr>fail_on_error := False\<rparr>) example_world) =
   Returned \<lparr>res_cmd = ''make install'', res_exit_code = 1, res_output = ''boom'',
     res_stderr = None, res_work_dir = ''/home/user'',
     res_out_file = Some ''/tmp/run-shell-cmd-output/make-k3x9/out.txt'', res_err_file = None,
     res_thread_id = None, res_task_id = None\<rparr>"
  by (simp add: run_shell_cmd_def prepare_def output_paths_def do_fs_def execute_def
      communicate_run_def write_stdin_def initial_state_def finish_def write_outputs_def
      example_env_def example_script_def example_proc_def
      default_args_def example_world_def path_join_def
      fileprefix_from_cmd_def basename_def first_word_def filename_chars_def py_strip_def
      py_isspace_def)

theorem run_shell_cmd_error_carries_result_witness:
  "call_stack example_env =
      [\<lparr>fr_filename = ''easyblock.py'', fr_lineno = 42, fr_function = ''build_step''\<rparr>]
   \<and> fst (run_shell_cmd example_env example_lib example_script (CmdStr ''make install'')
        (default_args\<lparr>fail_on_error := False\<rparr>) example_world) =
      Returned \<lparr>res_cmd = ''make install'', res_exit_code = 1, res_output = ''boom'',
        res_stderr = None, res_work_dir = ''/home/user'',
        res_out_file = Some ''/tmp/run-shell-cmd-output/make-k3x9/out.txt'', res_err_file = None,
        res_thread_id = None, res_task_id = None\<rparr>
   \<and> fst (run_shell_cmd example_env example_lib example_script (CmdStr ''make install'')
        (default_args\<lparr>fail_on_error := True\<rparr>) example_world) =
      Raised (RunShellCmdError
         \<lparr>err_cmd = ''make install'', err_cmd_name = ''make'',
          err_exit_code = 1, err_work_dir = ''/home/user'',
          err_output = ''boom'',
          err_out_file = Some ''/tmp/run-shell-cmd-output/make-k3x9/out.txt'',
          err_stderr = None, err_err_file = None,
          err_caller_info = (''easyblock.py'', 42, ''build_step'')\<rparr>)"
proof -
  let ?run = "run_shell_cmd example_env example_lib example_script (CmdStr ''make install'')
        (default_args\<lparr>fail_on_error := False\<rparr>) example_world"
  let ?res = "\<lparr>res_cmd = ''make install'', res_exit_code = 1, res_output = ''boom'',
        res_stderr = None, res_work_dir = ''/home/user'',
        res_out_file = Some ''/tmp/run-shell-cmd-output/make-k3x9/out.txt'', res_err_file = None,
        res_thread_id = None, res_task_id = None\<rparr>"
  have c: "call_stack example_env =
      [\<lparr>fr_filename = ''easyblock.py'', fr_lineno = 42, fr_function = ''build_step''\<rparr>]"
    by (simp add: example_env_def)
  have r: "?run = (Returned ?res, snd ?run)"
    using ex_false_result by (simp add: prod_eq_iff)
  have n: "res_exit_code ?res \<noteq> 0" by simp
  from run_shell_cmd_error_carries_result [OF c r n] c ex_false_result
  show ?thesis
    by (simp add: basename_def first_word_def)
qed

section \<open>The working directory after \<^verbatim>\<open>run_cmd\<close> and \<^verbatim>\<open>run_cmd_qa\<close>\<close>



lemma do_fs_cwd [simp]: "w_cwd (snd (do_fs E op w)) = w_cwd w"
  by (simp add: do_fs_def)


lemma log_write_cwd [simp]: "w_cwd (log_write cmd_log text w) = w_cwd w"
  by (simp add: log_write_def split: option.splits)

lemma show_event_cwd [simp]: "w_cwd (show_event b ev w) = w_cwd w"
  by (simp add: show_event_def)

lemma log_write_dirs [simp]: "w_dirs (log_write cmd_log text w) = w_dirs w"
  by (simp add: log_write_def split: option.splits)

lemma show_event_dirs [simp]: "w_dirs (show_event b ev w) = w_dirs w"
  by (simp add: show_event_def)



lemma read_loop_cwd:
  "read_loop stream cmd_log cs acc w = (r, w') \<Longrightarrow> w_cwd w' = w_cwd w"
  by (induction cs arbitrary: acc w) (auto simp: Let_def split: option.splits)





lemma kill_child_cwd: "kill_child S proc w = (proc', w') \<Longrightarrow> w_cwd w' = w_cwd w"
  by (auto simp: kill_child_def Let_def split: if_splits)

lemma qa_loop_cwd:
  "qa_loop L S no_qa maxhits cmd_log cs st w = (r, st', w') \<Longrightarrow> w_cwd w' = w_cwd w"
proof (induction cs arbitrary: st w)
  case Nil
  then show ?case by simp
next
  case (Cons c cs)
  show ?case
    using Cons.prems Cons.IH
    by (auto simp: Let_def split: prod.splits sum.splits if_splits option.splits
        dest: kill_child_cwd)
qed







lemmas example_defs =
  example_env_def example_world_def example_script_def example_proc_def example_lib_def
  finishing_script_def removing_script_def tmp_rc_args_def default_rc_args_def
  tmp_qa_args_def example_qa_args_def




lemma ex_question_regexp: "question_regexp ''name:'' = name_pattern @ qa_suffix"
  by code_simp

lemma ex_name_self: "literal_search (name_pattern @ qa_suffix) ''name:'' = Some []"
  by code_simp




lemmas run_cmd_qa_defs =
  run_cmd_qa_def open_cmd_log_def show_event_def chdir_def log_write_def
  qa_run_def qa_cycle_def parse_cmd_output_def path_join_def py_strip_def py_isspace_def
  Let_def




section \<open>Giving up on an interactive command\<close>

lemma answer_first_proc:
  "answer_first L so qas proc = (r, qas', proc') \<Longrightarrow>
   signals_sent proc' = signals_sent proc \<and> method_calls proc' = method_calls proc
   \<and> (\<forall>e. r = Inl e \<longrightarrow> (\<exists>c. e = PyError c))"
proof (induction qas arbitrary: qas' r proc')
  case Nil
  then show ?case by auto
next
  case (Cons x qas)
  obtain q answers where x: "x = (q, answers)" by (cases x)
  show ?case
  proof (cases "re_search L q so")
    case None
    obtain r0 q0 p0 where rec: "answer_first L so qas proc = (r0, q0, p0)"
      by (cases "answer_first L so qas proc") auto
    from Cons.IH [OF rec] Cons.prems None rec show ?thesis by (auto simp: x)
  next
    case (Some gd)
    then show ?thesis
      using Cons.prems
      by (auto simp: x split: list.splits option.splits if_splits)
  qed
qed

lemma qa_cycle_proc:
  assumes "qa_cycle L no_qa new_output st = (r, st')"
  shows "signals_sent (qs_proc st') = signals_sent (qs_proc st)
     \<and> method_calls (qs_proc st') = method_calls (qs_proc st)
     \<and> (\<forall>e. r = Inl e \<longrightarrow> (\<exists>c. e = PyError c))"
proof -
  let ?one = "if new_output then answer_first L (qs_stdout_err st) (qs_new_qa st) (qs_proc st)
            else (Inr False, qs_new_qa st, qs_proc st)"
  obtain r1 q1 p1 where one: "?one = (r1, q1, p1)" by (cases ?one) auto
  have f1: "signals_sent p1 = signals_sent (qs_proc st) \<and> method_calls p1 = method_calls (qs_proc st)
     \<and> (\<forall>e. r1 = Inl e \<longrightarrow> (\<exists>c. e = PyError c))"
    using one answer_first_proc [of L "qs_stdout_err st" "qs_new_qa st" "qs_proc st" r1 q1 p1]
    by (auto split: if_splits)
  let ?two = "if new_output then answer_first L (qs_stdout_err st) (qs_new_std_qa st) p1
                 else (Inr False, qs_new_std_qa st, p1)"
  obtain r2 q2 p2 where two: "?two = (r2, q2, p2)" by (cases ?two) auto
  have f2: "signals_sent p2 = signals_sent p1 \<and> method_calls p2 = method_calls p1
     \<and> (\<forall>e. r2 = Inl e \<longrightarrow> (\<exists>c. e = PyError c))"
    using two answer_first_proc [of L "qs_stdout_err st" "qs_new_std_qa st" p1 r2 q2 p2]
    by (auto split: if_splits)
  show ?thesis
  proof (cases r1)
    case (Inl e)
    then show ?thesis using assms one f1 by (auto simp: qa_cycle_def)
  next
    case (Inr b)
    show ?thesis
    proof (cases b)
      case True
      then show ?thesis using assms one f1 Inr by (auto simp: qa_cycle_def)
    next
      case False
      show ?thesis
      proof (cases r2)
        case (Inl e)
        then show ?thesis using assms one two f1 f2 Inr False by (auto simp: qa_cycle_def)
      next
        case r2: (Inr b2)
        then show ?thesis
          using assms one two f1 f2 Inr False
          by (cases b2) (auto simp: qa_cycle_def Let_def split: if_splits)
      qed
    qed
  qed
qed

lemma log_write_os_kills [simp]: "w_os_kills (log_write cmd_log text w) = w_os_kills w"
  by (simp add: log_write_def split: option.splits)

lemma show_event_os_kills [simp]: "w_os_kills (show_event b ev w) = w_os_kills w"
  by (simp add: show_event_def)

lemma open_cmd_log_os_kills:
  "open_cmd_log E wanted prefix err w = (r, w') \<Longrightarrow> w_os_kills w' = w_os_kills w"
  by (auto simp: open_cmd_log_def do_fs_def Let_def split: if_splits)

lemma chdir_os_kills: "chdir p w = Some w' \<Longrightarrow> w_os_kills w' = w_os_kills w"
  by (auto simp: chdir_def Let_def split: if_splits)

lemma kill_child_effect:
  assumes "kill_child S proc w = (proc', w')"
  shows "w_os_kills w' = w_os_kills w @ (if killpg_fails S then [''killpg''] else [''killpg'', ''kill''])
     \<and> signals_sent proc' = signals_sent proc @
          (if killpg_fails S then [] else if kill_fails S then [SIGKILL] else [SIGKILL, SIGKILL])
     \<and> method_calls proc' = method_calls proc"
  using assms by (auto simp: kill_child_def Let_def split: if_splits)

lemma qa_loop_gives_up:
  assumes "qa_loop L S no_qa maxhits cmd_log cs st w =
      (Raised (EasyBuildError (MaxNoHitsReached n)), st', w')"
  shows "w_os_kills w' = w_os_kills w @ (if killpg_fails S then [''killpg''] else [''killpg'', ''kill''])
     \<and> signals_sent (qs_proc st') = signals_sent (qs_proc st) @
          (if killpg_fails S then [] else if kill_fails S then [SIGKILL] else [SIGKILL, SIGKILL])
     \<and> method_calls (qs_proc st') = method_calls (qs_proc st)"
  using assms
proof (induction cs arbitrary: st w)
  case Nil
  then show ?case by simp
next
  case (Cons c cs)
  let ?w1 = "if c_read_fails c then w else log_write cmd_log (c_stdout c) w"
  let ?st1 = "if c_read_fails c then st else st\<lparr>qs_stdout_err := qs_stdout_err st @ c_stdout c\<rparr>"
  obtain r st2 where cyc: "qa_cycle L no_qa (\<not> c_read_fails c \<and> c_stdout c \<noteq> []) ?st1 = (r, st2)"
    by (cases "qa_cycle L no_qa (\<not> c_read_fails c \<and> c_stdout c \<noteq> []) ?st1") auto
  from qa_cycle_proc [OF cyc]
  have p: "signals_sent (qs_proc st2) = signals_sent (qs_proc st)"
    "method_calls (qs_proc st2) = method_calls (qs_proc st)"
    and e: "\<And>e. r = Inl e \<Longrightarrow> \<exists>c. e = PyError c"
    by auto
  have k: "w_os_kills ?w1 = w_os_kills w" by simp
  show ?case
  proof (cases r)
    case (Inl e')
    with e obtain c' where "e' = PyError c'" by blast
    with Cons.prems cyc Inl show ?thesis by (simp add: Let_def)
  next
    case (Inr u)
    show ?thesis
    proof (cases "qs_hit_count st2 > maxhits")
      case True
      obtain proc' w2 where kc: "kill_child S (qs_proc st2) ?w1 = (proc', w2)"
        by (cases "kill_child S (qs_proc st2) ?w1") auto
      from Cons.prems cyc Inr True kc have "st' = st2\<lparr>qs_proc := proc'\<rparr>" "w' = w2"
        by (simp_all add: Let_def)
      with kill_child_effect [OF kc] p k show ?thesis by simp
    next
      case False
      show ?thesis
      proof (cases "c_poll c")
        case None
        with Cons.prems cyc Inr False
        have "qa_loop L S no_qa maxhits cmd_log cs st2 ?w1 =
            (Raised (EasyBuildError (MaxNoHitsReached n)), st', w')"
          by (simp add: Let_def)
        from Cons.IH [OF this] p k show ?thesis by simp
      next
        case (Some ec)
        with Cons.prems cyc Inr False show ?thesis by (simp add: Let_def)
      qed
    qed
  qed
qed

lemma make_new_qa_error:
  "make_new_qa L qa acc = Inl (EasyBuildError (MaxNoHitsReached n)) \<Longrightarrow> False"
proof (induction qa arbitrary: acc)
  case Nil
  then show ?case by simp
next
  case (Cons x qa)
  obtain q ans where x: "x = (q, ans)" by (cases x)
  show ?case
    using Cons.prems Cons.IH
    by (auto simp: x Let_def split: option.splits if_splits)
qed

lemma make_new_std_qa_error:
  "make_new_std_qa L qa acc = Inl (EasyBuildError (MaxNoHitsReached n)) \<Longrightarrow> False"
proof (induction qa arbitrary: acc)
  case Nil
  then show ?case by simp
next
  case (Cons x qa)
  obtain q ans where x: "x = (q, ans)" by (cases x)
  show ?case
    using Cons.prems Cons.IH
    by (auto simp: x Let_def split: option.splits if_splits)
qed

lemma qa_setup_error:
  "qa_setup L a = Inl (EasyBuildError (MaxNoHitsReached n)) \<Longrightarrow> False"
  by (auto simp: qa_setup_def make_new_no_qa_def split: sum.splits if_splits
      dest: make_new_qa_error make_new_std_qa_error)

lemma parse_cmd_output_error:
  "parse_cmd_output L strictness out ec simple log_all log_ok regexp w =
     (Raised (EasyBuildError (MaxNoHitsReached n)), w') \<Longrightarrow> False"
  by (auto simp: parse_cmd_output_def parse_log_for_error_def Let_def
      split: option.splits prod.splits if_splits sum.splits regexp_arg.splits)

lemma open_cmd_log_error:
  "open_cmd_log E wanted prefix FailedToOpenLog w = (Inl (EasyBuildError (MaxNoHitsReached n)), w')
   \<Longrightarrow> False"
  by (auto simp: open_cmd_log_def do_fs_def Let_def split: if_splits)

lemma qa_run_gives_up:
  assumes "qa_run L S a cmd_log pats w = (Raised (EasyBuildError (MaxNoHitsReached n)), w')"
  shows "w_os_kills w' = w_os_kills w @ (if killpg_fails S then [''killpg''] else [''killpg'', ''kill''])
     \<and> map_option signals_sent (w_child w') =
         Some (signals_sent (child S) @
          (if killpg_fails S then [] else if kill_fails S then [SIGKILL] else [SIGKILL, SIGKILL]))
     \<and> map_option method_calls (w_child w') = Some (method_calls (child S))"
proof -
  obtain new_qa new_std_qa new_no_qa where pats: "pats = (new_qa, new_std_qa, new_no_qa)"
    by (cases pats)
  let ?st0 = "\<lparr>qs_stdout_err = [], qs_old_len_out = - 1, qs_hit_count = 0,
                    qs_new_qa = new_qa, qs_new_std_qa = new_std_qa, qs_proc = child S\<rparr>"
  from assms pats have fp: "first_poll S = None"
    by (cases "first_poll S") (auto simp: qa_run_def Let_def)
  obtain r st w1 where l: "qa_loop L S new_no_qa (qa_maxhits a) cmd_log (cycles S) ?st0 w = (r, st, w1)"
    by (cases "qa_loop L S new_no_qa (qa_maxhits a) cmd_log (cycles S) ?st0 w") auto
  from assms pats fp l have r: "r = Raised (EasyBuildError (MaxNoHitsReached n))"
    and w': "w' = w1\<lparr>w_child := Some (qs_proc st)\<rparr>"
    by (cases r; simp add: qa_run_def Let_def)+
  from qa_loop_gives_up [OF l [unfolded r]] w' show ?thesis by simp
qed

lemma run_cmd_qa_gives_up:
  assumes "run_cmd_qa E L S cmd a w = (Raised (EasyBuildError (MaxNoHitsReached n)), w')"
  shows "w_os_kills w' = w_os_kills w @ (if killpg_fails S then [''killpg''] else [''killpg'', ''kill''])
     \<and> map_option signals_sent (w_child w') =
         Some (signals_sent (child S) @
          (if killpg_fails S then [] else if kill_fails S then [SIGKILL] else [SIGKILL, SIGKILL]))
     \<and> map_option method_calls (w_child w') = Some (method_calls (child S))"
proof -
  from assms have ok: "\<not> (case cmd of CmdStr s \<Rightarrow> False | CmdList xs \<Rightarrow> length xs > 1)"
    by (auto simp: run_cmd_qa_def Let_def split: if_splits)
  obtain lg w1 where o: "open_cmd_log E (qa_log_all a \<or> (qa_trace a \<and> opt_trace E))
                ''easybuild-run_cmd_qa-'' FailedToOpenLog w = (lg, w1)"
    by (cases "open_cmd_log E (qa_log_all a \<or> (qa_trace a \<and> opt_trace E))
                ''easybuild-run_cmd_qa-'' FailedToOpenLog w") auto
  from assms ok o obtain cmd_log where lg: "lg = Inr cmd_log"
    by (cases lg) (auto simp: run_cmd_qa_def Let_def dest: open_cmd_log_error)
  have k1: "w_os_kills w1 = w_os_kills w" using open_cmd_log_os_kills [OF o] .
  from assms ok o lg have tr: "\<not> (qa_trace a \<and> \<not> is_str cmd)"
    by (auto simp: run_cmd_qa_def Let_def split: if_splits)
  from assms ok o lg tr have dry: "\<not> opt_extended_dry_run E"
    by (auto simp: run_cmd_qa_def Let_def split: if_splits)
  let ?w2 = "show_event (qa_trace a) (TraceStarted (to_cmd_str cmd)) w1"
  let ?w3 = "if str_truthy (qa_path a)
             then (case qa_path a of
                     None \<Rightarrow> ?w2
                   | Some p \<Rightarrow>
                       (case chdir p ?w2 of
                          Some w' \<Rightarrow> w'
                        | None \<Rightarrow> ?w2\<lparr>w_warnings := w_warnings ?w2 @ [FailedToChangeTo p]\<rparr>))
             else ?w2"
  have k3: "w_os_kills ?w3 = w_os_kills w"
    using k1 by (auto split: option.splits dest: chdir_os_kills)
  from assms ok o lg tr dry obtain pats where su: "qa_setup L a = Inr pats"
    by (cases "qa_setup L a") (auto simp: run_cmd_qa_def Let_def dest: qa_setup_error)
  let ?cmd1 = "hooked (pre_hook E cmd) cmd"
  let ?w5 = "(log_write cmd_log (''# output for interactive command: '' @ percent_s ?cmd1
                 @ ''\<newline>\<newline>'') ?w3)
             \<lparr>w_spawned := w_spawned (log_write cmd_log (''# output for interactive command: ''
                   @ percent_s ?cmd1 @ ''\<newline>\<newline>'') ?w3) @
                 [\<lparr>pc_cmd = ?cmd1, pc_cwd = None, pc_shell = True,
                   pc_executable = Some ''/bin/bash'', pc_stderr_pipe = False\<rparr>]\<rparr>"
  have k5: "w_os_kills ?w5 = w_os_kills w" using k3 by simp
  from assms ok o lg tr dry su have pf: "\<not> popen_fails S"
    by (auto simp: run_cmd_qa_def Let_def split: if_splits)
  obtain r w6 where run: "qa_run L S a cmd_log pats ?w5 = (r, w6)"
    by (cases "qa_run L S a cmd_log pats ?w5") auto
  have "r = Raised (EasyBuildError (MaxNoHitsReached n)) \<and> w6 = w'"
  proof (cases r)
    case (Returned x)
    obtain ec out where x: "x = (ec, out)" by (cases x)
    from assms ok o lg tr dry su pf run Returned x show ?thesis
      by (auto simp: run_cmd_qa_def Let_def split: option.splits dest: parse_cmd_output_error)
  next
    case (Raised e)
    with assms ok o lg tr dry su pf run show ?thesis
      by (auto simp: run_cmd_qa_def Let_def)
  next
    case NoReturn
    with assms ok o lg tr dry su pf run show ?thesis
      by (auto simp: run_cmd_qa_def Let_def)
  qed
  with run have "qa_run L S a cmd_log pats ?w5 = (Raised (EasyBuildError (MaxNoHitsReached n)), w')"
    by simp
  from qa_run_gives_up [OF this] k5 show ?thesis by simp
qed

section \<open>\<^verbatim>\<open>run_shell_cmd\<close> gives up without touching the child\<close>

lemma send_answer_proc:
  "send_answer L a gd proc = (r, proc') \<Longrightarrow>
   signals_sent proc' = signals_sent proc \<and> method_calls proc' = method_calls proc
   \<and> r \<noteq> Inl (EasyBuildError (NoMatchingQuestions t))"
  by (auto simp: send_answer_def Let_def split: option.splits if_splits)

lemma reply_proc:
  "reply L q ans gd proc = (r, ans', proc') \<Longrightarrow>
   signals_sent proc' = signals_sent proc \<and> method_calls proc' = method_calls proc
   \<and> r \<noteq> Inl (EasyBuildError (NoMatchingQuestions t))"
  by (cases ans)
    (auto simp: reply_def split: prod.splits list.splits dest: send_answer_proc)

lemma try_questions_proc:
  "try_questions L stdout qa proc = (r, qa', proc') \<Longrightarrow>
   signals_sent proc' = signals_sent proc \<and> method_calls proc' = method_calls proc
   \<and> r \<noteq> Inl (EasyBuildError (NoMatchingQuestions t))"
proof (induction qa arbitrary: qa' r proc')
  case Nil
  then show ?case by auto
next
  case (Cons x qa)
  obtain q a where x: "x = (q, a)" by (cases x)
  show ?case
  proof (cases "re_compile L (q @ qa_suffix)")
    case False
    then show ?thesis using Cons.prems by (auto simp: x)
  next
    case True
    show ?thesis
    proof (cases "re_search L (q @ qa_suffix) stdout")
      case None
      obtain r0 q0 p0 where rec: "try_questions L stdout qa proc = (r0, q0, p0)"
        by (cases "try_questions L stdout qa proc") auto
      from Cons.IH [OF rec] Cons.prems True None rec show ?thesis by (auto simp: x)
    next
      case (Some gd)
      obtain r0 a0 p0 where rp: "reply L (q @ qa_suffix) a gd proc = (r0, a0, p0)"
        by (cases "reply L (q @ qa_suffix) a gd proc") auto
      from reply_proc [OF rp] Cons.prems True Some rp show ?thesis by (auto simp: x)
    qed
  qed
qed

lemma try_wait_patterns_no_stall:
  "try_wait_patterns L stdout ws \<noteq> Inl (EasyBuildError (NoMatchingQuestions t))"
  by (induction ws) (auto split: option.splits)

lemma answer_question_proc:
  assumes "answer_question L stdout proc qa waits = (r, qa', proc')"
  shows "signals_sent proc' = signals_sent proc \<and> method_calls proc' = method_calls proc
     \<and> r \<noteq> Inl (EasyBuildError (NoMatchingQuestions t))"
proof -
  obtain r0 q0 p0 where tq: "try_questions L stdout qa proc = (r0, q0, p0)"
    by (cases "try_questions L stdout qa proc") auto
  from try_questions_proc [OF tq] assms tq try_wait_patterns_no_stall [of L stdout waits t]
  show ?thesis
    by (auto simp: answer_question_def split: sum.splits bool.splits)
qed

lemma timeout_abort_no_stall:
  "timeout_abort st = (Raised (EasyBuildError (NoMatchingQuestions t)), st') \<Longrightarrow> False"
  by (auto simp: timeout_abort_def terminate_process_def Let_def
      split: prod.splits sum.splits if_splits)

lemma qa_step_proc:
  assumes "qa_step L args waits st = (r, st')"
  shows "signals_sent (ls_proc st') = signals_sent (ls_proc st)
     \<and> method_calls (ls_proc st') = method_calls (ls_proc st)"
proof (cases "qa_truthy (qa_patterns args)")
  case False
  then show ?thesis using assms by (simp add: qa_step_def)
next
  case True
  obtain r0 q0 p0 where aq: "answer_question L (ls_stdout st) (ls_proc st) (ls_qa st) waits = (r0, q0, p0)"
    by (cases "answer_question L (ls_stdout st) (ls_proc st) (ls_qa st) waits") auto
  from answer_question_proc [OF aq, of 0] assms aq True show ?thesis
    by (auto simp: qa_step_def Let_def split: sum.splits bool.splits if_splits)
qed

lemma stream_loop_gives_up:
  assumes "stream_loop L args waits cs st = (Raised (EasyBuildError (NoMatchingQuestions t)), st')"
  shows "signals_sent (ls_proc st') = signals_sent (ls_proc st)
     \<and> method_calls (ls_proc st') = method_calls (ls_proc st)"
  using assms
proof (induction cs arbitrary: st)
  case Nil
  then show ?case by simp
next
  case (Cons c cs)
  let ?st1 = "st\<lparr>ls_stdout := ls_stdout st @ c_stdout c,
                      ls_stderr := (if split_stderr args then ls_stderr st @ c_stderr c
                                    else ls_stderr st)\<rparr>"
  from Cons.prems have nt: "\<not> (nat_truthy (timeout args) \<and> c_timed_out c)"
    by (auto dest: timeout_abort_no_stall)
  obtain r st2 where q: "qa_step L args waits ?st1 = (r, st2)"
    by (cases "qa_step L args waits ?st1") auto
  from qa_step_proc [OF q]
  have p: "signals_sent (ls_proc st2) = signals_sent (ls_proc st)"
    "method_calls (ls_proc st2) = method_calls (ls_proc st)"
    by simp_all
  show ?case
  proof (cases r)
    case (Inl e)
    with Cons.prems nt q have "st' = st2" by (simp add: Let_def)
    with p show ?thesis by simp
  next
    case (Inr u)
    show ?thesis
    proof (cases "c_poll c")
      case None
      with Cons.prems nt q Inr
      have "stream_loop L args waits cs st2 =
          (Raised (EasyBuildError (NoMatchingQuestions t)), st')"
        by (simp add: Let_def)
      from Cons.IH [OF this] p show ?thesis by simp
    next
      case (Some ec)
      with Cons.prems nt q Inr show ?thesis by (simp add: Let_def)
    qed
  qed
qed

text \<open>
  What the loop of \<^verbatim>\<open>run_shell_cmd\<close> does when it gives up: the error is raised (line
  517) and the child is as it was, but for what was written to its stdin. The branch
  for the time limit of the same loop (lines 475-479) calls \<^verbatim>\<open>terminate_process\<close> first.
\<close>

lemma stream_run_gives_up:
  assumes "stream_run L args waits S = (Raised (EasyBuildError (NoMatchingQuestions t)), st')"
  shows "signals_sent (ls_proc st') = signals_sent (child S)
     \<and> method_calls (ls_proc st') = method_calls (child S)"
proof -
  from assms obtain proc where ws: "write_stdin (stdin args) (child S) = Some proc"
    and l: "stream_loop L args waits (cycles S) (initial_state args proc) =
      (Raised (EasyBuildError (NoMatchingQuestions t)), st')"
    by (auto simp: stream_run_def split: option.splits list.splits prod.splits outcome.splits if_splits)
  from ws have "signals_sent proc = signals_sent (child S) \<and> method_calls proc = method_calls (child S)"
    by (auto simp: write_stdin_def split: option.splits if_splits)
  with stream_loop_gives_up [OF l] show ?thesis by (simp add: initial_state_def)
qed

lemma finish_no_stall:
  "finish E args pr out err rc w = (Raised (EasyBuildError (NoMatchingQuestions t)), w') \<Longrightarrow> False"
  by (auto simp: finish_def write_outputs_def do_fs_def raise_run_shell_cmd_error_def Let_def
      split: prod.splits option.splits if_splits list.splits)

lemma communicate_run_no_stall:
  "communicate_run args S = (Raised (EasyBuildError (NoMatchingQuestions t)), st) \<Longrightarrow> False"
  by (auto simp: communicate_run_def split: option.splits prod.splits dest: timeout_abort_no_stall)

lemma execute_gives_up:
  assumes "execute E L S cmd args pr w = (Raised (EasyBuildError (NoMatchingQuestions t)), w')"
  shows "map_option signals_sent (w_child w') = Some (signals_sent (child S))
     \<and> map_option method_calls (w_child w') = Some (method_calls (child S))"
proof -
  let ?run = "if p_stream_output pr \<or> qa_truthy (qa_patterns args)
              then stream_run L args (p_wait_patterns pr) S else communicate_run args S"
  obtain r st where run: "?run = (r, st)" by (cases ?run) auto
  from assms have pf: "\<not> popen_fails S"
    by (auto simp: execute_def Let_def split: if_splits)
  have "r = Raised (EasyBuildError (NoMatchingQuestions t)) \<and> w_child w' = Some (ls_proc st)"
  proof (cases r)
    case (Returned rc)
    with assms pf run show ?thesis
      by (auto simp: execute_def Let_def dest: finish_no_stall)
  next
    case (Raised e)
    with assms pf run show ?thesis
      by (auto simp: execute_def Let_def)
  next
    case NoReturn
    with assms pf run show ?thesis
      by (auto simp: execute_def Let_def)
  qed
  then have r: "?run = (Raised (EasyBuildError (NoMatchingQuestions t)), st)"
    and c: "w_child w' = Some (ls_proc st)"
    using run by simp_all
  from r have "stream_run L args (p_wait_patterns pr) S =
      (Raised (EasyBuildError (NoMatchingQuestions t)), st)"
    by (auto split: if_splits dest: communicate_run_no_stall)
  from stream_run_gives_up [OF this] c show ?thesis by simp
qed

lemma run_shell_cmd_gives_up:
  assumes "run_shell_cmd E L S cmd args w = (Raised (EasyBuildError (NoMatchingQuestions t)), w')"
  shows "map_option signals_sent (w_child w') = Some (signals_sent (child S))
     \<and> map_option method_calls (w_child w') = Some (method_calls (child S))"
proof -
  obtain r w1 where p: "prepare E cmd args w = (r, w1)" by (cases "prepare E cmd args w") auto
  from assms p obtain pr where r: "r = Inr pr"
    by (cases r)
      (auto simp: run_shell_cmd_def prepare_def output_paths_def do_fs_def Let_def
        split: if_splits prod.splits)
  from assms p r have "execute E L S cmd args pr w1 =
      (Raised (EasyBuildError (NoMatchingQuestions t)), w')"
    by (auto simp: run_shell_cmd_def split: if_splits)
  from execute_gives_up [OF this] show ?thesis .
qed

lemma run_shell_cmd_cached_gives_up:
  assumes "run_shell_cmd_cached E L S cache cmd args w =
      (Raised (EasyBuildError (NoMatchingQuestions t)), cache', w')"
  shows "map_option signals_sent (w_child w') = Some (signals_sent (child S))
     \<and> map_option method_calls (w_child w') = Some (method_calls (child S))"
proof -
  obtain r w1 where b: "run_shell_cmd E L S cmd args w = (r, w1)"
    by (cases "run_shell_cmd E L S cmd args w") auto
  from assms b have "r = Raised (EasyBuildError (NoMatchingQuestions t)) \<and> w1 = w'"
    by (cases r)
      (auto simp: run_shell_cmd_cached_def cache_aware_func_def Let_def split: option.splits)
  with b have "run_shell_cmd E L S cmd args w =
      (Raised (EasyBuildError (NoMatchingQuestions t)), w')"
    by simp
  from run_shell_cmd_gives_up [OF this] show ?thesis .
qed

text \<open>
  C1 holds of neither function. Whenever \<^verbatim>\<open>run_shell_cmd\<close> raises its error for questions
  without match ("No matching questions found"), the child has received no signal and
  no \<^verbatim>\<open>terminate\<close>, \<^verbatim>\<open>kill\<close> or \<^verbatim>\<open>wait\<close> of the process object has been called: line 517
  raises at once, where the branches for the time limit (lines 475-479 and 531-536) call
  \<^verbatim>\<open>terminate_process\<close> first. Whenever \<^verbatim>\<open>run_cmd_qa\<close> raises its error ("Max nohits
  reached"), it has called \<^verbatim>\<open>os.killpg\<close> and, only when that call did not fail,
  \<^verbatim>\<open>os.kill\<close>, both with \<^verbatim>\<open>SIGKILL\<close>; no method of the process object has been called. A
  child that is no leader of a process group, as \<^verbatim>\<open>run_cmd_qa\<close> starts it, has then
  received no signal at all.
\<close>

theorem stall_error_leaves_child:
  "(run_shell_cmd_cached E L S cache cmd args w =
      (Raised (EasyBuildError (NoMatchingQuestions t)), cache', w') \<longrightarrow>
      map_option signals_sent (w_child w') = Some (signals_sent (child S))
      \<and> map_option method_calls (w_child w') = Some (method_calls (child S)))
   \<and> (run_cmd_qa E L S cmd qa v = (Raised (EasyBuildError (MaxNoHitsReached n)), v') \<longrightarrow>
      w_os_kills v' = w_os_kills v @
         (if killpg_fails S then [''killpg''] else [''killpg'', ''kill''])
      \<and> map_option signals_sent (w_child v') =
          Some (signals_sent (child S) @
            (if killpg_fails S then [] else if kill_fails S then [SIGKILL] else [SIGKILL, SIGKILL]))
      \<and> map_option method_calls (w_child v') = Some (method_calls (child S)))"
  using run_shell_cmd_cached_gives_up [of E L S cache cmd args w t cache' w']
    run_cmd_qa_gives_up [of E L S cmd qa v n v']
  by blast

lemma ex_name_what: "literal_search (name_pattern @ qa_suffix) ''What?'' = None"
  by code_simp

lemma ex_qa_setup_stall:
  "qa_setup example_lib example_qa_args = Inr ([(name_pattern @ qa_suffix, [''a\<newline>''])], [], [])"
  by (simp add: qa_setup_def example_qa_args_def ex_question_regexp
      example_lib_def ex_name_compiles ex_name_self with_newline_def make_new_no_qa_def)

lemmas ex_qa_setup_stall_unfolded =
  ex_qa_setup_stall [unfolded example_lib_def example_qa_args_def, simplified]

lemma ex_run_cmd_qa_stall:
  "run_cmd_qa example_env example_lib silent_script (CmdStr ''make'') example_qa_args
     example_world =
   (Raised (EasyBuildError (MaxNoHitsReached 1)),
    example_world\<lparr>
      w_spawned := [\<lparr>pc_cmd = CmdStr ''make'', pc_cwd = None, pc_shell = True,
                      pc_executable = Some ''/bin/bash'', pc_stderr_pipe = False\<rparr>],
      w_child := Some example_proc,
      w_os_kills := [''killpg'']\<rparr>)"
  using ex_name_what
  by (simp add: run_cmd_qa_defs kill_child_def example_defs silent_script_def
      ex_qa_setup_stall_unfolded)

lemma ex_run_shell_cmd_stall:
  "run_shell_cmd_cached example_env example_lib silent_script Map.empty (CmdStr ''make'')
     stall_args example_world =
   (Raised (EasyBuildError (NoMatchingQuestions 0)), Map.empty,
    example_world\<lparr>
      w_spawned := [\<lparr>pc_cmd = CmdStr ''make'', pc_cwd = Some ''/home/user'', pc_shell = True,
                      pc_executable = Some ''/bin/bash'', pc_stderr_pipe = False\<rparr>],
      w_child := Some example_proc,
      w_console := [TraceStarted ''make'']\<rparr>)"
  using ex_name_what ex_name_compiles
  by (simp add: run_shell_cmd_cached_def cache_aware_func_def
      run_shell_cmd_def prepare_def output_paths_def execute_def stream_run_def
      write_stdin_def initial_state_def qa_step_def answer_question_def Let_def
      stall_args_def default_args_def example_defs silent_script_def py_strip_def py_isspace_def)

text \<open>
  The input at which the code departs from C1: a child that prints \<^verbatim>\<open>What?\<close> and then
  waits, run with an answer to the question \<^verbatim>\<open>name:\<close> only. Both functions raise their
  error and leave the child as it was, running and without any signal, although
  \<^verbatim>\<open>terminate_process\<close> ends that child (it ignores \<^verbatim>\<open>SIGTERM\<close> and dies of \<^verbatim>\<open>SIGKILL\<close>).
\<close>

theorem stall_error_leaves_child_witness:
  "fst (run_shell_cmd_cached example_env example_lib silent_script Map.empty (CmdStr ''make'')
          stall_args example_world) = Raised (EasyBuildError (NoMatchingQuestions 0))
   \<and> w_child (snd (snd (run_shell_cmd_cached example_env example_lib silent_script Map.empty
          (CmdStr ''make'') stall_args example_world))) = Some example_proc
   \<and> fst (run_cmd_qa example_env example_lib silent_script (CmdStr ''make'') example_qa_args
          example_world) = Raised (EasyBuildError (MaxNoHitsReached 1))
   \<and> w_child (snd (run_cmd_qa example_env example_lib silent_script (CmdStr ''make'')
          example_qa_args example_world)) = Some example_proc
   \<and> w_os_kills (snd (run_cmd_qa example_env example_lib silent_script (CmdStr ''make'')
          example_qa_args example_world)) = [''killpg'']
   \<and> returncode example_proc = None \<and> signals_sent example_proc = []
   \<and> method_calls example_proc = []
   \<and> fst (terminate_process example_proc) = Inr ()
   \<and> signals_sent (snd (snd (terminate_process example_proc))) = [SIGTERM, SIGKILL]"
proof -
  let ?rsc = "run_shell_cmd_cached example_env example_lib silent_script Map.empty
      (CmdStr ''make'') stall_args example_world"
  let ?qa = "run_cmd_qa example_env example_lib silent_script (CmdStr ''make'') example_qa_args
      example_world"
  have r1: "?rsc = (Raised (EasyBuildError (NoMatchingQuestions 0)), fst (snd ?rsc), snd (snd ?rsc))"
    by (simp add: ex_run_shell_cmd_stall)
  have r2: "?qa = (Raised (EasyBuildError (MaxNoHitsReached 1)), snd ?qa)"
    by (simp add: ex_run_cmd_qa_stall)
  have s: "killpg_fails silent_script" "child silent_script = example_proc"
    "w_os_kills example_world = []"
    by (simp_all add: silent_script_def example_script_def example_world_def)
  have p: "returncode example_proc = None" "signals_sent example_proc = []"
    "method_calls example_proc = []"
    by (simp_all add: example_proc_def)
  have c1: "w_child (snd (snd ?rsc)) = Some example_proc"
    by (simp add: ex_run_shell_cmd_stall)
  have c2: "w_child (snd ?qa) = Some example_proc"
    by (simp add: ex_run_cmd_qa_stall)
  note t = stall_error_leaves_child [where E = example_env and L = example_lib
      and S = silent_script and cache = Map.empty and cmd = "CmdStr ''make''"
      and args = stall_args and w = example_world and t = 0 and cache' = "fst (snd ?rsc)"
      and w' = "snd (snd ?rsc)" and qa = example_qa_args and v = example_world and n = 1
      and v' = "snd ?qa"]
  from t r2 s have k: "w_os_kills (snd ?qa) = [''killpg'']" by simp
  have tp: "fst (terminate_process example_proc) = Inr ()"
    "signals_sent (snd (snd (terminate_process example_proc))) = [SIGTERM, SIGKILL]"
    by (simp_all add: terminate_process_def popen_terminate_def popen_kill_def popen_wait_def
        popen_send_signal_def example_proc_def Let_def)
  have f1: "fst ?rsc = Raised (EasyBuildError (NoMatchingQuestions 0))"
    by (simp add: ex_run_shell_cmd_stall)
  have f2: "fst ?qa = Raised (EasyBuildError (MaxNoHitsReached 1))"
    by (simp add: ex_run_cmd_qa_stall)
  from f1 f2 c1 c2 k p tp show ?thesis by blast
qed

section \<open>Rotating answer lists in both functions\<close>













end
